theory Spec2Isabelle
  imports Main
begin

section \<open>JavaScript values and exceptions\<close>

text \<open>
  The validators receive arrays of note names. An array read yields the element, or
  \<open>undefined\<close> when the index is outside the array; a rest is the value \<open>null\<close>.
  The three kinds of value that reach the pitch parser are kept apart, since the source
  tests \<open>=== null\<close> in some places and truthiness in others.
\<close>

datatype jsval = Undefined | Null | Str string

text \<open>
  Two exceptions can leave the code: the \<open>Error\<close> that \<open>Pitch.parse\<close> throws on a
  string that does not match the note grammar (it carries the offending text), and the
  \<open>TypeError\<close> the engine raises on a property access on \<open>null\<close> or \<open>undefined\<close>.
  A function that may throw returns \<open>error + 'a\<close>, with \<open>Inl\<close> for the exception.
\<close>

datatype error = InvalidNote string | TypeError

definition ebind :: "error + 'a \<Rightarrow> ('a \<Rightarrow> error + 'b) \<Rightarrow> error + 'b" where
  "ebind m f = (case m of Inl e \<Rightarrow> Inl e | Inr x \<Rightarrow> f x)"

text \<open>The remainder operator of JavaScript truncates towards zero.\<close>

definition jsrem :: "int \<Rightarrow> int \<Rightarrow> int" where
  "jsrem a b = sgn a * (\<bar>a\<bar> mod \<bar>b\<bar>)"

text \<open>\<open>Array.prototype.indexOf\<close>: the first index of an element, \<open>-1\<close> when absent.\<close>

fun indexOf :: "'a list \<Rightarrow> 'a \<Rightarrow> int" where
  "indexOf [] y = -1"
| "indexOf (x # xs) y = (if x = y then 0 else (let k = indexOf xs y in if k < 0 then -1 else k + 1))"

text \<open>Reading an array of strings at an integer index.\<close>

definition at :: "string list \<Rightarrow> int \<Rightarrow> jsval" where
  "at xs i = (if 0 \<le> i \<and> i < int (length xs) then Str (xs ! nat i) else Undefined)"

text \<open>Decimal rendering of an integer, as string concatenation with a number does it.\<close>

definition digit_char :: "nat \<Rightarrow> char" where
  "digit_char d = ''0123456789'' ! d"

function show_nat :: "nat \<Rightarrow> string" where
  "show_nat n = (if n < 10 then [digit_char n] else show_nat (n div 10) @ [digit_char (n mod 10)])"
  by pat_completeness auto
termination
  by (relation "measure id") auto

declare show_nat.simps [simp del]

definition show_int :: "int \<Rightarrow> string" where
  "show_int k = (if k < 0 then CHR ''-'' # show_nat (nat (- k)) else show_nat (nat k))"

section \<open>Pitch\<close>

text \<open>
  \<open>Pitch.parse\<close> returns the letter in upper case, the accidental text, the octave and
  the semitone index \<open>midi\<close> (the field \<open>fullName\<close> is the concatenation of the first
  three and is not kept).
\<close>

record pitch =
  name :: char
  accidental :: string
  octave :: int
  midi :: int

definition NOTE_NAMES :: "string list" where
  "NOTE_NAMES = [''C'', ''C#'', ''D'', ''D#'', ''E'', ''F'', ''F#'', ''G'', ''G#'', ''A'', ''A#'', ''B'']"

definition ENHARMONICS :: "(string \<times> string) list" where
  "ENHARMONICS = [(''Db'', ''C#''), (''Eb'', ''D#''), (''Fb'', ''E''), (''Gb'', ''F#''),
     (''Ab'', ''G#''), (''Bb'', ''A#''), (''Cb'', ''B''), (''E#'', ''F''), (''B#'', ''C'')]"

definition DIATONIC_NAMES :: "string list" where
  "DIATONIC_NAMES = [''C'', ''D'', ''E'', ''F'', ''G'', ''A'', ''B'']"

definition is_letter :: "char \<Rightarrow> bool" where
  "is_letter c = (c \<in> set ''ABCDEFGabcdefg'')"

definition is_digit :: "char \<Rightarrow> bool" where
  "is_digit c = (c \<in> set ''0123456789'')"

definition toUpperCase :: "char \<Rightarrow> char" where
  "toUpperCase c = (case map_of (zip ''abcdefg'' ''ABCDEFG'') c of Some u \<Rightarrow> u | None \<Rightarrow> c)"

definition parseInt :: "char \<Rightarrow> int" where
  "parseInt c = indexOf ''0123456789'' c"

text \<open>
  The regular expression \<open>/^([A-Ga-g])([#b]?)(\d)$/\<close>: a letter, at most one of
  \<open>#\<close> and \<open>b\<close>, one digit, and nothing else. The result is the three groups.
\<close>

fun match_note :: "string \<Rightarrow> (char \<times> string \<times> char) option" where
  "match_note [l, d] = (if is_letter l \<and> is_digit d then Some (l, [], d) else None)"
| "match_note [l, a, d] =
     (if is_letter l \<and> (a = CHR ''#'' \<or> a = CHR ''b'') \<and> is_digit d then Some (l, [a], d) else None)"
| "match_note s = None"

definition parse :: "jsval \<Rightarrow> error + pitch" where
  "parse noteStr =
     (case noteStr of
        Undefined \<Rightarrow> Inl TypeError
      | Null \<Rightarrow> Inl TypeError
      | Str s \<Rightarrow>
          (case match_note s of
             None \<Rightarrow> Inl (InvalidNote s)
           | Some (l, acc, d) \<Rightarrow>
               (let nm = toUpperCase l;
                    oct = parseInt d;
                    normalizedName = (case map_of ENHARMONICS (nm # acc) of
                                        Some n \<Rightarrow> n | None \<Rightarrow> nm # acc);
                    semitone0 = indexOf NOTE_NAMES normalizedName;
                    semitone = (if semitone0 = -1
                                then (let baseIndex = indexOf NOTE_NAMES [nm]
                                      in jsrem ((if acc = ''#'' then baseIndex + 1 else baseIndex - 1) + 12) 12)
                                else semitone0)
                in Inr \<lparr>name = nm, accidental = acc, octave = oct,
                         midi = (oct + 1) * 12 + semitone\<rparr>)))"

definition toMidi :: "jsval \<Rightarrow> error + int" where
  "toMidi noteStr = ebind (parse noteStr) (\<lambda>p. Inr (midi p))"

text \<open>
  \<open>Pitch.fromMidi\<close>: the parameter \<open>preferSharps\<close> is not read by the source. A
  remainder outside the table reads \<open>undefined\<close>, which concatenation renders as text.
\<close>

definition fromMidi :: "int \<Rightarrow> string" where
  "fromMidi m =
     (let oct = m div 12 - 1;
          noteIndex = jsrem m 12;
          noteName = (case at NOTE_NAMES noteIndex of Str s \<Rightarrow> s | _ \<Rightarrow> ''undefined'')
      in noteName @ show_int oct)"

definition diatonicIndex :: "char \<Rightarrow> int" where
  "diatonicIndex c = indexOf DIATONIC_NAMES [toUpperCase c]"

definition genericInterval :: "jsval \<Rightarrow> jsval \<Rightarrow> error + int" where
  "genericInterval note1 note2 =
     ebind (parse note1) (\<lambda>p1.
     ebind (parse note2) (\<lambda>p2.
       (let d1 = diatonicIndex (name p1) + octave p1 * 7;
            d2 = diatonicIndex (name p2) + octave p2 * 7
        in Inr (\<bar>d2 - d1\<bar> + 1))))"

section \<open>Interval\<close>

text \<open>
  The object returned by \<open>Interval.between\<close>. The nested object \<open>simple\<close> is
  flattened into the fields \<open>simple_generic\<close>, \<open>simple_semitones\<close> and
  \<open>simple_name\<close>. Names are the strings the source builds by concatenating the
  quality letter and the number.
\<close>

record interval =
  semitones :: int
  generic :: int
  quality :: char
  iname :: string
  simple_generic :: int
  simple_semitones :: int
  simple_name :: string
  compound :: bool
  direction :: int

definition expected :: "(int \<times> int) list" where
  "expected = [(1, 0), (2, 2), (3, 4), (4, 5), (5, 7), (6, 9), (7, 11), (8, 12)]"

text \<open>
  \<open>Interval.calculateQuality\<close>. A number outside the table gives \<open>NaN\<close> for the
  difference, every comparison is then false, and the last \<open>return\<close> is reached.
\<close>

definition calculateQuality :: "int \<Rightarrow> int \<Rightarrow> char" where
  "calculateQuality g st =
     (let isPerfectType = (g \<in> set [1, 4, 5, 8])
      in case map_of expected g of
           None \<Rightarrow> CHR ''A''
         | Some e \<Rightarrow>
             (let diff = st - e
              in if isPerfectType
                 then (if diff = 0 then CHR ''P''
                       else if diff = 1 then CHR ''A''
                       else if diff = -1 then CHR ''d''
                       else if diff > 1 then CHR ''A''
                       else CHR ''d'')
                 else (if diff = 0 then CHR ''M''
                       else if diff = -1 then CHR ''m''
                       else if diff = 1 then CHR ''A''
                       else if diff < -1 then CHR ''d''
                       else CHR ''A'')))"

definition between :: "jsval \<Rightarrow> jsval \<Rightarrow> error + interval" where
  "between note1 note2 =
     ebind (toMidi note1) (\<lambda>midi1.
     ebind (toMidi note2) (\<lambda>midi2.
     ebind (genericInterval note1 note2) (\<lambda>g.
       (let st0 = midi2 - midi1;
            dir = (if st0 \<ge> 0 then 1 else -1);
            st = \<bar>st0\<bar>;
            simpleGeneric = jsrem (g - 1) 7 + 1;
            simpleSemitones = jsrem st 12;
            q = calculateQuality simpleGeneric simpleSemitones
        in Inr \<lparr>semitones = st * dir, generic = g, quality = q,
                 iname = q # show_int g,
                 simple_generic = simpleGeneric, simple_semitones = simpleSemitones,
                 simple_name = q # show_int simpleGeneric,
                 compound = (g > 8), direction = dir\<rparr>))))"

definition isConsonant :: "interval \<Rightarrow> bool" where
  "isConsonant iv = (simple_name iv \<in> set [''P1'', ''P5'', ''P8'', ''m3'', ''M3'', ''m6'', ''M6''])"

definition isPerfectConsonance :: "interval \<Rightarrow> bool" where
  "isPerfectConsonance iv = (simple_name iv \<in> set [''P1'', ''P5'', ''P8''])"

definition isImperfectConsonance :: "interval \<Rightarrow> bool" where
  "isImperfectConsonance iv = (simple_name iv \<in> set [''m3'', ''M3'', ''m6'', ''M6''])"

definition isDissonant :: "interval \<Rightarrow> bool" where
  "isDissonant iv = (\<not> isConsonant iv)"

definition isTritone :: "interval \<Rightarrow> bool" where
  "isTritone iv = (simple_semitones iv = 6)"

text \<open>\<open>Math.sign\<close> on integers.\<close>

definition sign :: "int \<Rightarrow> int" where
  "sign x = (if x > 0 then 1 else if x < 0 then -1 else 0)"

section \<open>Scale\<close>

definition PATTERNS :: "(string \<times> int list) list" where
  "PATTERNS =
    [(''major'',         [0, 2, 4, 5, 7, 9, 11]),
     (''naturalMinor'',  [0, 2, 3, 5, 7, 8, 10]),
     (''harmonicMinor'', [0, 2, 3, 5, 7, 8, 11]),
     (''melodicMinor'',  [0, 2, 3, 5, 7, 9, 11]),
     (''dorian'',        [0, 2, 3, 5, 7, 9, 10]),
     (''phrygian'',      [0, 1, 3, 5, 7, 8, 10]),
     (''lydian'',        [0, 2, 4, 6, 7, 9, 11]),
     (''mixolydian'',    [0, 2, 4, 5, 7, 9, 10]),
     (''aeolian'',       [0, 2, 3, 5, 7, 8, 10]),
     (''locrian'',       [0, 1, 3, 5, 6, 8, 10])]"

text \<open>
  \<open>Scale.getPattern\<close>: a mode that is not a key of the table falls back to the major
  pattern. (Mode names are taken to be scale names; names of properties that every
  JavaScript object inherits are not considered.)
\<close>

definition getPattern :: "string \<Rightarrow> int list" where
  "getPattern mode = (case map_of PATTERNS mode of Some pat \<Rightarrow> pat | None \<Rightarrow> [0, 2, 4, 5, 7, 9, 11])"

text \<open>\<open>Scale.getDegree\<close>: the degree 1 to 7, or \<open>None\<close> for the source's \<open>null\<close>.\<close>

definition getDegree :: "jsval \<Rightarrow> string \<Rightarrow> string \<Rightarrow> error + int option" where
  "getDegree note tonic mode =
     ebind (toMidi note) (\<lambda>noteMidi.
     ebind (toMidi (Str (tonic @ ''0''))) (\<lambda>tonicMidi.
       (let pat = getPattern mode;
            relativePosition = jsrem (jsrem (noteMidi - tonicMidi) 12 + 12) 12;
            degreeIndex = indexOf pat relativePosition
        in Inr (if degreeIndex \<noteq> -1 then Some (degreeIndex + 1) else None))))"

section \<open>Exercises\<close>

text \<open>
  An exercise as the validators destructure it. The counterpoint holds note names and
  rests (\<open>None\<close> for \<open>null\<close>). The properties \<open>mode\<close> and \<open>cpPosition\<close> may be
  absent (\<open>None\<close>), in which case the destructuring defaults apply.
\<close>

record exercise =
  cantusFirmus :: "string list"
  counterpoint :: "string option list"
  key :: string
  mode :: "string option"
  cpPosition :: "string option"

definition mode_of :: "exercise \<Rightarrow> string" where
  "mode_of ex = (case mode ex of None \<Rightarrow> ''major'' | Some md \<Rightarrow> md)"

definition cpPosition_of :: "exercise \<Rightarrow> string" where
  "cpPosition_of ex = (case cpPosition ex of None \<Rightarrow> ''upper'' | Some v \<Rightarrow> v)"

text \<open>Reading the counterpoint array at an integer index.\<close>

definition cp_at :: "string option list \<Rightarrow> int \<Rightarrow> jsval" where
  "cp_at cp i =
     (if 0 \<le> i \<and> i < int (length cp)
      then (case cp ! nat i of None \<Rightarrow> Null | Some s \<Rightarrow> Str s)
      else Undefined)"

text \<open>
  The interval between a cantus-firmus note and a counterpoint note, with the upper
  voice second: the expression
  \<open>Interval.between(cpPosition === 'upper' ? cf : cp, cpPosition === 'upper' ? cp : cf)\<close>
  that the validators repeat at every vertical interval.
\<close>

definition vertical :: "string \<Rightarrow> jsval \<Rightarrow> jsval \<Rightarrow> error + interval" where
  "vertical cpPos cf cp =
     between (if cpPos = ''upper'' then cf else cp) (if cpPos = ''upper'' then cp else cf)"

text \<open>
  \<open>getMotionType\<close>, with the same text in the three validators. The result is one of
  the strings \<open>stationary\<close>, \<open>oblique\<close>, \<open>similar\<close>, \<open>contrary\<close>.
\<close>

definition getMotionType :: "jsval \<Rightarrow> jsval \<Rightarrow> jsval \<Rightarrow> jsval \<Rightarrow> error + string" where
  "getMotionType cf1 cf2 cp1 cp2 =
     ebind (toMidi cf2) (\<lambda>mcf2.
     ebind (toMidi cf1) (\<lambda>mcf1.
     ebind (toMidi cp2) (\<lambda>mcp2.
     ebind (toMidi cp1) (\<lambda>mcp1.
       (let cfDirection = sign (mcf2 - mcf1);
            cpDirection = sign (mcp2 - mcp1)
        in Inr (if cfDirection = 0 \<and> cpDirection = 0 then ''stationary''
                else if cfDirection = 0 \<or> cpDirection = 0 then ''oblique''
                else if cfDirection = cpDirection then ''similar''
                else ''contrary''))))))"

section \<open>Formula detectors\<close>

text \<open>
  The detectors return an object with the fields \<open>valid\<close> and \<open>reason\<close>. The reason
  is a fixed Spanish sentence per exit; each sentence is one constructor here:
  \<^item> \<open>NotWeakBeat\<close>: No es tiempo debil
  \<^item> \<open>RestNotPassing\<close>: Silencio, no nota de paso
  \<^item> \<open>Silence\<close>: Silencio
  \<^item> \<open>NoPrevious\<close>: No hay nota anterior
  \<^item> \<open>PreviousRest\<close>: Nota anterior es silencio
  \<^item> \<open>PreviousRestAnacrusis\<close>: Nota anterior es silencio (anacrusa)
  \<^item> \<open>NoNext\<close>: No hay nota siguiente
  \<^item> \<open>NextNull\<close>: Nota siguiente es nula
  \<^item> \<open>NoStepFromPrevious\<close>: No hay grado conjunto desde la nota anterior
  \<^item> \<open>NoStepToNext\<close>: No hay grado conjunto hacia la nota siguiente
  \<^item> \<open>Repetition\<close>: Repeticion de nota, no movimiento de escala
  \<^item> \<open>DirectionChange\<close>: Cambio de direccion: no es nota de paso
  \<^item> \<open>NotContinuous\<close>: No es movimiento escalar continuo
  \<^item> \<open>NotCentreOfThird\<close>: No es el centro de un intervalo de 3a
  \<^item> \<open>PreviousDissonant\<close>: Nota anterior no es consonante con el CF
  \<^item> \<open>NextDissonant\<close>: Nota siguiente no es consonante con el CF
  \<^item> \<open>PreviousStrongDissonant\<close>: Nota anterior (tiempo fuerte) no es consonante con el CF
  \<^item> \<open>NextStrongDissonant\<close>: Nota siguiente (tiempo fuerte) no es consonante con el CF
  \<^item> \<open>NotBeatThree\<close>: No es tiempo 3 (semi-fuerte)
  \<^item> \<open>ValidPassing\<close>: Nota de paso valida
  \<^item> \<open>ValidStrongPassing\<close>: Nota de paso en tiempo fuerte valida
  \<^item> \<open>CambiataNote k\<close>: Nota k de cambiata valida
  \<^item> \<open>NotCambiata\<close>: No es parte de una cambiata valida
  \<^item> \<open>DownbeatDissonance\<close>: Disonancia en tiempo 1 (fuerte), prohibida
  \<^item> \<open>BeatThreeUnlicensed\<close>: Disonancia en tiempo 3 no es nota de paso valida ni cambiata
  \<^item> \<open>WeakUnlicensed r\<close>: Disonancia en tiempo debil no es nota de paso ni cambiata,
    followed by the passing-tone reason \<open>r\<close>
  \<^item> \<open>UnrecognisedPosition\<close>: Posicion no reconocida
\<close>

datatype reason =
    NotWeakBeat | RestNotPassing | Silence | NoPrevious | PreviousRest | PreviousRestAnacrusis
  | NoNext | NextNull | NoStepFromPrevious | NoStepToNext | Repetition | DirectionChange
  | NotContinuous | NotCentreOfThird | PreviousDissonant | NextDissonant
  | PreviousStrongDissonant | NextStrongDissonant | NotBeatThree
  | ValidPassing | ValidStrongPassing | CambiataNote int | NotCambiata
  | DownbeatDissonance | BeatThreeUnlicensed | WeakUnlicensed reason | UnrecognisedPosition

record verdict =
  v_valid :: bool
  v_reason :: reason

record cambiata_verdict =
  cam_valid :: bool
  cam_reason :: reason
  notePosition :: "int option"

record classification =
  c_type :: string
  c_valid :: bool
  c_reason :: reason

definition reject :: "reason \<Rightarrow> error + verdict" where
  "reject r = Inr \<lparr>v_valid = False, v_reason = r\<rparr>"

subsection \<open>Second species: position helpers and passing tone\<close>

definition getMeasureIndex2 :: "int \<Rightarrow> int" where
  "getMeasureIndex2 cpIndex = cpIndex div 2"

definition isStrongBeat2 :: "int \<Rightarrow> int \<Rightarrow> bool" where
  "isStrongBeat2 cpIndex cpLen = (jsrem cpIndex 2 = 0 \<or> cpIndex = cpLen - 1)"

definition isWeakBeat2 :: "int \<Rightarrow> int \<Rightarrow> bool" where
  "isWeakBeat2 cpIndex cpLen = (jsrem cpIndex 2 = 1 \<and> cpIndex \<noteq> cpLen - 1)"

definition getCFNote2 :: "int \<Rightarrow> string list \<Rightarrow> jsval" where
  "getCFNote2 cpIndex cf = at cf (getMeasureIndex2 cpIndex)"

definition isPassingTone2 :: "int \<Rightarrow> string option list \<Rightarrow> string list \<Rightarrow> string \<Rightarrow> error + verdict" where
  "isPassingTone2 cpIndex cp cf cpPos =
     (let cpLen = int (length cp) in
      if \<not> isWeakBeat2 cpIndex cpLen then reject NotWeakBeat
      else let current = cp_at cp cpIndex in
      if current = Null then reject RestNotPassing
      else let prevIndex = cpIndex - 1; prev = cp_at cp prevIndex in
      if prev = Null then reject PreviousRestAnacrusis
      else let nextIndex = cpIndex + 1 in
      if nextIndex \<ge> cpLen then reject NoNext
      else let next = cp_at cp nextIndex in
      if next = Null then reject NextNull
      else
        ebind (between prev current) (\<lambda>intervalPrevCurr.
        if simple_generic intervalPrevCurr > 2 then reject NoStepFromPrevious
        else
        ebind (between current next) (\<lambda>intervalCurrNext.
        if simple_generic intervalCurrNext > 2 then reject NoStepToNext
        else
        ebind (toMidi current) (\<lambda>mc.
        ebind (toMidi prev) (\<lambda>mp.
        ebind (toMidi next) (\<lambda>mn.
        let dir1 = sign (mc - mp); dir2 = sign (mn - mc) in
        if dir1 = 0 \<or> dir2 = 0 then reject Repetition
        else if dir1 \<noteq> dir2 then reject DirectionChange
        else
        ebind (vertical cpPos (getCFNote2 prevIndex cf) prev) (\<lambda>prevInterval.
        if isDissonant prevInterval then reject PreviousStrongDissonant
        else
        ebind (vertical cpPos (getCFNote2 nextIndex cf) next) (\<lambda>nextInterval.
        if isDissonant nextInterval then reject NextStrongDissonant
        else Inr \<lparr>v_valid = True, v_reason = ValidPassing\<rparr>))))))))"

subsection \<open>Third species: position helpers\<close>

definition getMeasureIndex3 :: "int \<Rightarrow> int" where
  "getMeasureIndex3 cpIndex = cpIndex div 4"

definition getBeatInMeasure3 :: "int \<Rightarrow> int" where
  "getBeatInMeasure3 cpIndex = jsrem cpIndex 4 + 1"

definition isDownbeat3 :: "int \<Rightarrow> int \<Rightarrow> bool" where
  "isDownbeat3 cpIndex cpLen = (jsrem cpIndex 4 = 0 \<or> cpIndex = cpLen - 1)"

definition isSemiStrong3 :: "int \<Rightarrow> int \<Rightarrow> bool" where
  "isSemiStrong3 cpIndex cpLen = (jsrem cpIndex 4 = 2 \<and> cpIndex \<noteq> cpLen - 1)"

definition isWeakBeat3 :: "int \<Rightarrow> int \<Rightarrow> bool" where
  "isWeakBeat3 cpIndex cpLen =
     (let beat = jsrem cpIndex 4 in (beat = 1 \<or> beat = 3) \<and> cpIndex \<noteq> cpLen - 1)"

definition getCFNote3 :: "int \<Rightarrow> string list \<Rightarrow> jsval" where
  "getCFNote3 cpIndex cf = at cf (getMeasureIndex3 cpIndex)"

subsection \<open>Third species: passing tone\<close>

definition isPassingTone3 :: "int \<Rightarrow> string option list \<Rightarrow> string list \<Rightarrow> string \<Rightarrow> error + verdict" where
  "isPassingTone3 cpIndex cp cf cpPos =
     (let cpLen = int (length cp) in
      if \<not> isWeakBeat3 cpIndex cpLen then reject NotWeakBeat
      else let current = cp_at cp cpIndex in
      if current = Null then reject RestNotPassing
      else let prevIndex = cpIndex - 1 in
      if prevIndex < 0 then reject NoPrevious
      else let prev = cp_at cp prevIndex in
      if prev = Null then reject PreviousRest
      else let nextIndex = cpIndex + 1 in
      if nextIndex \<ge> cpLen then reject NoNext
      else let next = cp_at cp nextIndex in
      if next = Null then reject NextNull
      else
        ebind (between prev current) (\<lambda>intervalPrevCurr.
        if simple_generic intervalPrevCurr > 2 then reject NoStepFromPrevious
        else
        ebind (between current next) (\<lambda>intervalCurrNext.
        if simple_generic intervalCurrNext > 2 then reject NoStepToNext
        else
        ebind (toMidi current) (\<lambda>mc.
        ebind (toMidi prev) (\<lambda>mp.
        ebind (toMidi next) (\<lambda>mn.
        let dir1 = sign (mc - mp); dir2 = sign (mn - mc) in
        if dir1 = 0 \<or> dir2 = 0 then reject Repetition
        else if dir1 \<noteq> dir2 then reject DirectionChange
        else
        ebind (vertical cpPos (getCFNote3 prevIndex cf) prev) (\<lambda>prevInterval.
        if isDissonant prevInterval then reject PreviousDissonant
        else
        ebind (vertical cpPos (getCFNote3 nextIndex cf) next) (\<lambda>nextInterval.
        if isDissonant nextInterval then reject NextDissonant
        else Inr \<lparr>v_valid = True, v_reason = ValidPassing\<rparr>))))))))"

subsection \<open>Third species: cambiata\<close>

text \<open>The test \<open>!n\<close> on a note: true for \<open>null\<close>, \<open>undefined\<close> and the empty string.\<close>

definition falsy :: "jsval \<Rightarrow> bool" where
  "falsy v = (case v of Undefined \<Rightarrow> True | Null \<Rightarrow> True | Str s \<Rightarrow> s = [])"

definition checkCambiataAt :: "int \<Rightarrow> string option list \<Rightarrow> string list \<Rightarrow> string \<Rightarrow> int \<Rightarrow> error + bool" where
  "checkCambiataAt startIndex cp cf cpPos cpLen =
     (if startIndex < 0 \<or> startIndex + 4 \<ge> cpLen then Inr False
      else let n1 = cp_at cp startIndex; n2 = cp_at cp (startIndex + 1);
               n3 = cp_at cp (startIndex + 2); n4 = cp_at cp (startIndex + 3);
               n5 = cp_at cp (startIndex + 4) in
      if falsy n1 \<or> falsy n2 \<or> falsy n3 \<or> falsy n4 \<or> falsy n5 then Inr False
      else
        ebind (toMidi n1) (\<lambda>m1.
        ebind (toMidi n2) (\<lambda>m2.
        ebind (toMidi n3) (\<lambda>m3.
        ebind (toMidi n4) (\<lambda>m4.
        ebind (toMidi n5) (\<lambda>m5.
        ebind (between n1 n2) (\<lambda>int12.
        ebind (between n2 n3) (\<lambda>int23.
        ebind (between n3 n4) (\<lambda>int34.
        ebind (between n4 n5) (\<lambda>int45.
        let dir1 = sign (m2 - m1) in
        if dir1 = 0 then Inr False
        else if dir1 < 0 \<and> (simple_generic int12 \<noteq> 2 \<or> m2 \<ge> m1) then Inr False
        else if dir1 < 0 \<and> (simple_generic int23 \<noteq> 3 \<or> m3 \<ge> m2) then Inr False
        else if dir1 < 0 \<and> (simple_generic int34 \<noteq> 2 \<or> m4 \<le> m3) then Inr False
        else if dir1 < 0 \<and> (simple_generic int45 \<noteq> 2 \<or> m5 \<le> m4) then Inr False
        else if dir1 > 0 \<and> (simple_generic int12 \<noteq> 2 \<or> m2 \<le> m1) then Inr False
        else if dir1 > 0 \<and> (simple_generic int23 \<noteq> 3 \<or> m3 \<le> m2) then Inr False
        else if dir1 > 0 \<and> (simple_generic int34 \<noteq> 2 \<or> m4 \<ge> m3) then Inr False
        else if dir1 > 0 \<and> (simple_generic int45 \<noteq> 2 \<or> m5 \<ge> m4) then Inr False
        else
        ebind (vertical cpPos (getCFNote3 startIndex cf) n1) (\<lambda>interval1.
        if isDissonant interval1 then Inr False
        else
        ebind (vertical cpPos (getCFNote3 (startIndex + 4) cf) n5) (\<lambda>interval5.
        if isDissonant interval5 then Inr False
        else if isTritone interval5 then Inr False
        else Inr True))))))))))))"

definition isCambiata :: "int \<Rightarrow> string option list \<Rightarrow> string list \<Rightarrow> string \<Rightarrow> error + cambiata_verdict" where
  "isCambiata cpIndex cp cf cpPos =
     (let cpLen = int (length cp); current = cp_at cp cpIndex in
      if current = Null then Inr \<lparr>cam_valid = False, cam_reason = Silence, notePosition = None\<rparr>
      else
        ebind (checkCambiataAt (cpIndex - 1) cp cf cpPos cpLen) (\<lambda>w2.
        if w2 then Inr \<lparr>cam_valid = True, cam_reason = CambiataNote 2, notePosition = Some 2\<rparr>
        else
        ebind (checkCambiataAt (cpIndex - 2) cp cf cpPos cpLen) (\<lambda>w3.
        if w3 then Inr \<lparr>cam_valid = True, cam_reason = CambiataNote 3, notePosition = Some 3\<rparr>
        else
        ebind (checkCambiataAt (cpIndex - 3) cp cf cpPos cpLen) (\<lambda>w4.
        if w4 then Inr \<lparr>cam_valid = True, cam_reason = CambiataNote 4, notePosition = Some 4\<rparr>
        else Inr \<lparr>cam_valid = False, cam_reason = NotCambiata, notePosition = None\<rparr>))))"

subsection \<open>Third species: strong-beat passing tone\<close>

definition isStrongBeatPassingTone :: "int \<Rightarrow> string option list \<Rightarrow> string list \<Rightarrow> string \<Rightarrow> error + verdict" where
  "isStrongBeatPassingTone cpIndex cp cf cpPos =
     (let cpLen = int (length cp) in
      if \<not> isSemiStrong3 cpIndex cpLen then reject NotBeatThree
      else let current = cp_at cp cpIndex in
      if current = Null then reject Silence
      else let prevIndex = cpIndex - 1 in
      if prevIndex < 0 then reject NoPrevious
      else let prev = cp_at cp prevIndex in
      if prev = Null then reject PreviousRest
      else let nextIndex = cpIndex + 1 in
      if nextIndex \<ge> cpLen then reject NoNext
      else let next = cp_at cp nextIndex in
      if next = Null then reject NextNull
      else
        ebind (between prev current) (\<lambda>intPrev.
        if simple_generic intPrev > 2 then reject NoStepFromPrevious
        else
        ebind (between current next) (\<lambda>intNext.
        if simple_generic intNext > 2 then reject NoStepToNext
        else
        ebind (toMidi current) (\<lambda>mc.
        ebind (toMidi prev) (\<lambda>mp.
        ebind (toMidi next) (\<lambda>mn.
        let dir1 = sign (mc - mp); dir2 = sign (mn - mc) in
        if dir1 = 0 \<or> dir2 = 0 \<or> dir1 \<noteq> dir2 then reject NotContinuous
        else
        ebind (between prev next) (\<lambda>intPrevNext.
        if simple_generic intPrevNext \<noteq> 3 then reject NotCentreOfThird
        else
        ebind (vertical cpPos (getCFNote3 prevIndex cf) prev) (\<lambda>prevInterval.
        if isDissonant prevInterval then reject PreviousDissonant
        else
        ebind (vertical cpPos (getCFNote3 nextIndex cf) next) (\<lambda>nextInterval.
        if isDissonant nextInterval then reject NextDissonant
        else Inr \<lparr>v_valid = True, v_reason = ValidStrongPassing\<rparr>)))))))))"

subsection \<open>Third species: classification of a dissonance\<close>

definition classifyDissonance :: "int \<Rightarrow> string option list \<Rightarrow> string list \<Rightarrow> string \<Rightarrow> error + classification" where
  "classifyDissonance cpIndex cp cf cpPos =
     (let cpLen = int (length cp) in
      if isDownbeat3 cpIndex cpLen
      then Inr \<lparr>c_type = ''invalid'', c_valid = False, c_reason = DownbeatDissonance\<rparr>
      else if isSemiStrong3 cpIndex cpLen
      then
        ebind (isStrongBeatPassingTone cpIndex cp cf cpPos) (\<lambda>spt.
        if v_valid spt
        then Inr \<lparr>c_type = ''strong-passing-tone'', c_valid = True, c_reason = v_reason spt\<rparr>
        else
        ebind (isCambiata cpIndex cp cf cpPos) (\<lambda>cam.
        if cam_valid cam
        then Inr \<lparr>c_type = ''cambiata'', c_valid = True, c_reason = cam_reason cam\<rparr>
        else Inr \<lparr>c_type = ''invalid'', c_valid = False, c_reason = BeatThreeUnlicensed\<rparr>))
      else if isWeakBeat3 cpIndex cpLen
      then
        ebind (isPassingTone3 cpIndex cp cf cpPos) (\<lambda>pt.
        if v_valid pt
        then Inr \<lparr>c_type = ''passing-tone'', c_valid = True, c_reason = v_reason pt\<rparr>
        else
        ebind (isCambiata cpIndex cp cf cpPos) (\<lambda>cam.
        if cam_valid cam
        then Inr \<lparr>c_type = ''cambiata'', c_valid = True, c_reason = cam_reason cam\<rparr>
        else Inr \<lparr>c_type = ''invalid'', c_valid = False,
                    c_reason = WeakUnlicensed (v_reason pt)\<rparr>))
      else Inr \<lparr>c_type = ''invalid'', c_valid = False, c_reason = UnrecognisedPosition\<rparr>)"

section \<open>Validation results\<close>

text \<open>
  A \<open>ValidationIssue\<close> with its rule identifier, its position (absent in the length
  error, \<open>-1\<close> for a global issue) and its severity. The human-readable \<open>message\<close>,
  which restates these data in Spanish, and the display fields \<open>interval\<close> and
  \<open>motionType\<close> are not kept. The result object is as \<open>validate\<close> builds it; the
  entries of \<open>noteResults\<close> have the fields \<open>valid\<close> (here \<open>n_valid\<close>) and
  \<open>issues\<close>.
\<close>

record issue =
  rule :: string
  position :: "int option"
  severity :: string

record noteResult =
  n_valid :: bool
  issues :: "issue list"

record results =
  valid :: bool
  score :: int
  errors :: "issue list"
  warnings :: "issue list"
  suggestions :: "issue list"
  noteResults :: "noteResult list"

definition initial_results :: results where
  "initial_results =
     \<lparr>valid = True, score = 100, errors = [], warnings = [], suggestions = [], noteResults = []\<rparr>"

text \<open>The loop \<open>results.noteResults[i] = { valid: true, issues: [] }\<close> for \<open>i < n\<close>.\<close>

definition init_noteResults :: "nat \<Rightarrow> results \<Rightarrow> results" where
  "init_noteResults n r = r\<lparr>noteResults := replicate n \<lparr>n_valid = True, issues = []\<rparr>\<rparr>"

definition push_error :: "issue \<Rightarrow> results \<Rightarrow> results" where
  "push_error x r = r\<lparr>errors := errors r @ [x]\<rparr>"

definition push_warning :: "issue \<Rightarrow> results \<Rightarrow> results" where
  "push_warning x r = r\<lparr>warnings := warnings r @ [x]\<rparr>"

definition push_suggestion :: "issue \<Rightarrow> results \<Rightarrow> results" where
  "push_suggestion x r = r\<lparr>suggestions := suggestions r @ [x]\<rparr>"

text \<open>
  \<open>results.noteResults[p].valid = false\<close> and \<open>results.noteResults[p].issues.push(x)\<close>:
  both throw a \<open>TypeError\<close> when \<open>noteResults[p]\<close> is \<open>undefined\<close>.
\<close>

definition set_invalid :: "int \<Rightarrow> results \<Rightarrow> error + results" where
  "set_invalid p r =
     (if 0 \<le> p \<and> p < int (length (noteResults r))
      then Inr (r\<lparr>noteResults := (noteResults r)[nat p := (noteResults r ! nat p)\<lparr>n_valid := False\<rparr>]\<rparr>)
      else Inl TypeError)"

definition attach :: "int \<Rightarrow> issue \<Rightarrow> results \<Rightarrow> error + results" where
  "attach p x r =
     (if 0 \<le> p \<and> p < int (length (noteResults r))
      then Inr (r\<lparr>noteResults := (noteResults r)[nat p :=
                    (noteResults r ! nat p)\<lparr>issues := issues (noteResults r ! nat p) @ [x]\<rparr>]\<rparr>)
      else Inl TypeError)"

text \<open>
  The statement groups the checks repeat. For an error:
  \<open>results.errors.push(issue); results.noteResults[p].valid = false;
  results.noteResults[p].issues.push(issue)\<close>. For a warning or a suggestion the issue
  is pushed on its list and on \<open>noteResults[p].issues\<close>.
\<close>

definition report_error :: "issue \<Rightarrow> int \<Rightarrow> results \<Rightarrow> error + results" where
  "report_error x p r = ebind (set_invalid p (push_error x r)) (attach p x)"

definition report_warning :: "issue \<Rightarrow> int \<Rightarrow> results \<Rightarrow> error + results" where
  "report_warning x p r = attach p x (push_warning x r)"

definition report_suggestion :: "issue \<Rightarrow> int \<Rightarrow> results \<Rightarrow> error + results" where
  "report_suggestion x p r = attach p x (push_suggestion x r)"

definition issue_at :: "string \<Rightarrow> int \<Rightarrow> string \<Rightarrow> issue" where
  "issue_at rl p sev = \<lparr>rule = rl, position = Some p, severity = sev\<rparr>"

section \<open>Loops\<close>

text \<open>
  A \<open>for\<close> loop over a list of values, threading a state; an exception in the body
  leaves the loop. A \<open>continue\<close> is a body that returns its state early.
\<close>

fun forEach :: "'a list \<Rightarrow> ('a \<Rightarrow> 's \<Rightarrow> error + 's) \<Rightarrow> 's \<Rightarrow> error + 's" where
  "forEach [] body s = Inr s"
| "forEach (x # xs) body s = ebind (body x s) (forEach xs body)"

text \<open>A loop whose body may \<open>break\<close>: the body returns \<open>True\<close> with the state to leave.\<close>

fun forEachBreak :: "'a list \<Rightarrow> ('a \<Rightarrow> 's \<Rightarrow> error + (bool \<times> 's)) \<Rightarrow> 's \<Rightarrow> error + 's" where
  "forEachBreak [] body s = Inr s"
| "forEachBreak (x # xs) body s =
     ebind (body x s) (\<lambda>(brk, s'). if brk then Inr s' else forEachBreak xs body s')"

text \<open>\<open>Array.prototype.map\<close> with a callback that may throw.\<close>

fun emap :: "('a \<Rightarrow> error + 'b) \<Rightarrow> 'a list \<Rightarrow> error + 'b list" where
  "emap f [] = Inr []"
| "emap f (x # xs) = ebind (f x) (\<lambda>y. ebind (emap f xs) (\<lambda>ys. Inr (y # ys)))"

text \<open>The elements of the counterpoint array as values.\<close>

definition jsnote :: "string option \<Rightarrow> jsval" where
  "jsnote x = (case x of None \<Rightarrow> Null | Some s \<Rightarrow> Str s)"

text \<open>The expression \<open>Math.sign(Pitch.toMidi(b) - Pitch.toMidi(a))\<close>.\<close>

definition midiSign :: "jsval \<Rightarrow> jsval \<Rightarrow> error + int" where
  "midiSign a b = ebind (toMidi b) (\<lambda>mb. ebind (toMidi a) (\<lambda>ma. Inr (sign (mb - ma))))"

definition triadPatterns :: "int option list list" where
  "triadPatterns = map (map Some)
    [[1, 3, 5], [1, 5, 3], [3, 1, 5], [3, 5, 1], [5, 1, 3], [5, 3, 1],
     [2, 4, 6], [2, 6, 4], [4, 2, 6], [4, 6, 2], [6, 2, 4], [6, 4, 2],
     [3, 5, 7], [3, 7, 5], [5, 3, 7], [5, 7, 3], [7, 3, 5], [7, 5, 3],
     [4, 6, 1], [4, 1, 6], [6, 4, 1], [6, 1, 4], [1, 4, 6], [1, 6, 4],
     [5, 7, 2], [5, 2, 7], [7, 5, 2], [7, 2, 5], [2, 5, 7], [2, 7, 5],
     [6, 1, 3], [6, 3, 1], [1, 6, 3], [1, 3, 6], [3, 6, 1], [3, 1, 6],
     [7, 2, 4], [7, 4, 2], [2, 7, 4], [2, 4, 7], [4, 7, 2], [4, 2, 7]]"

section \<open>Checks shared by the validators\<close>

text \<open>
  \<open>checkVoiceCrossing\<close> and \<open>checkMelodicTritone\<close> have the same text in the three
  validators, \<open>checkStepwise\<close> in the first and the second.
\<close>

definition checkVoiceCrossing :: "jsval \<Rightarrow> jsval \<Rightarrow> string \<Rightarrow> int \<Rightarrow> results \<Rightarrow> error + results" where
  "checkVoiceCrossing cfn cpn cpPos p r =
     ebind (toMidi cfn) (\<lambda>cfMidi.
     ebind (toMidi cpn) (\<lambda>cpMidi.
       (let crossed = ((cpPos = ''upper'' \<and> cpMidi < cfMidi) \<or> (cpPos = ''lower'' \<and> cpMidi > cfMidi))
        in if crossed then report_error (issue_at ''voice-crossing'' p ''error'') p r else Inr r)))"

definition checkMelodicTritone :: "jsval \<Rightarrow> jsval \<Rightarrow> int \<Rightarrow> results \<Rightarrow> error + results" where
  "checkMelodicTritone prevNote currNote p r =
     ebind (between prevNote currNote) (\<lambda>iv.
       if isTritone iv then report_error (issue_at ''tritone'' p ''error'') p r else Inr r)"

definition checkStepwise :: "jsval \<Rightarrow> jsval \<Rightarrow> int \<Rightarrow> results \<Rightarrow> error + results" where
  "checkStepwise prevNote currNote p r =
     ebind (between prevNote currNote) (\<lambda>iv.
     ebind (if simple_generic iv > 3
            then report_suggestion (issue_at ''stepwise'' p ''suggestion'') p r else Inr r) (\<lambda>r1.
       if simple_generic iv > 6
       then report_warning (issue_at ''stepwise'' p ''warning'') p r1 else Inr r1))"

section \<open>First species validator\<close>

definition checkConsonance1 :: "interval \<Rightarrow> int \<Rightarrow> results \<Rightarrow> error + results" where
  "checkConsonance1 iv p r =
     (if isDissonant iv then report_error (issue_at ''consonance'' p ''error'') p r else Inr r)"

definition checkUnison1 :: "interval \<Rightarrow> int \<Rightarrow> int \<Rightarrow> results \<Rightarrow> error + results" where
  "checkUnison1 iv p len r =
     (if simple_name iv = ''P1'' \<and> p \<noteq> 0 \<and> p \<noteq> len - 1
      then report_error (issue_at ''unison'' p ''error'') p r else Inr r)"

definition checkParallels1 ::
  "interval \<Rightarrow> interval \<Rightarrow> jsval \<Rightarrow> jsval \<Rightarrow> jsval \<Rightarrow> jsval \<Rightarrow> int \<Rightarrow> results \<Rightarrow> error + results" where
  "checkParallels1 prevInterval currInterval prevCf currCf prevCp currCp p r =
     ebind (getMotionType prevCf currCf prevCp currCp) (\<lambda>motion.
       (let prevPerfect = (isPerfectConsonance prevInterval \<and> simple_name prevInterval \<noteq> ''P1'');
            currPerfect = (isPerfectConsonance currInterval \<and> simple_name currInterval \<noteq> ''P1'')
        in
        ebind (if prevPerfect \<and> currPerfect
                  \<and> simple_name prevInterval = simple_name currInterval \<and> motion = ''similar''
               then report_error
                      (issue_at (if simple_name prevInterval = ''P5''
                                 then ''parallel-fifths'' else ''parallel-octaves'') p ''error'') p r
               else Inr r) (\<lambda>r1.
        if \<not> prevPerfect \<and> currPerfect \<and> motion = ''similar''
        then ebind (between prevCp currCp) (\<lambda>cpInterval.
               (let isStepwise = (simple_generic cpInterval \<le> 2)
                in if \<not> isStepwise
                   then report_warning
                          (issue_at (if simple_name currInterval = ''P5''
                                     then ''hidden-fifths'' else ''hidden-octaves'') p ''warning'') p r1
                   else Inr r1))
        else Inr r1)))"

definition analyzeMotion1 :: "jsval \<Rightarrow> jsval \<Rightarrow> jsval \<Rightarrow> jsval \<Rightarrow> int \<Rightarrow> results \<Rightarrow> error + results" where
  "analyzeMotion1 prevCf currCf prevCp currCp p r =
     ebind (getMotionType prevCf currCf prevCp currCp) (\<lambda>motion.
       if motion = ''similar''
       then report_suggestion (issue_at ''motion-type'' p ''suggestion'') p r else Inr r)"

definition checkStartInterval1 :: "jsval \<Rightarrow> jsval \<Rightarrow> string \<Rightarrow> results \<Rightarrow> error + results" where
  "checkStartInterval1 cfn cpn cpPos r =
     ebind (vertical cpPos cfn cpn) (\<lambda>iv.
       if \<not> isPerfectConsonance iv
       then report_error (issue_at ''start-consonance'' 0 ''error'') 0 r else Inr r)"

definition checkEndInterval1 ::
  "string list \<Rightarrow> string option list \<Rightarrow> string \<Rightarrow> string \<Rightarrow> string \<Rightarrow> results \<Rightarrow> error + results" where
  "checkEndInterval1 cf cp ky md cpPos r =
     (let lastIdx = int (length cf) - 1; cfn = at cf lastIdx; cpn = cp_at cp lastIdx in
      ebind (vertical cpPos cfn cpn) (\<lambda>iv.
      ebind (if simple_name iv \<noteq> ''P1'' \<and> simple_name iv \<noteq> ''P8''
             then report_error (issue_at ''end-consonance'' lastIdx ''error'') lastIdx r
             else Inr r) (\<lambda>r1.
      if lastIdx > 0
      then (let penultimateCp = cp_at cp (lastIdx - 1) in
            ebind (getDegree penultimateCp ky md) (\<lambda>penultimateDegree.
            if cpPos = ''upper''
            then (if penultimateDegree \<noteq> Some 7
                  then report_warning (issue_at ''leading-tone'' (lastIdx - 1) ''warning'') (lastIdx - 1) r1
                  else Inr r1)
            else (if penultimateDegree \<noteq> Some 2
                  then report_warning (issue_at ''cadence'' (lastIdx - 1) ''warning'') (lastIdx - 1) r1
                  else Inr r1)))
      else Inr r1)))"

text \<open>
  \<open>checkRange\<close> of the first species maps \<open>Pitch.toMidi\<close> over every element. On an
  empty array \<open>Math.min\<close> is \<open>Infinity\<close> and \<open>Math.max\<close> is \<open>-Infinity\<close>, so the
  range is \<open>-Infinity\<close> and no issue is pushed.
\<close>

definition checkRange1 :: "string option list \<Rightarrow> string \<Rightarrow> results \<Rightarrow> error + results" where
  "checkRange1 cp cpPos r =
     ebind (emap toMidi (map jsnote cp)) (\<lambda>midis.
       case midis of
         [] \<Rightarrow> Inr r
       | x # rest \<Rightarrow>
           (let lowest = fold min rest x; highest = fold max rest x; range = highest - lowest
            in if range > 19
               then Inr (push_warning \<lparr>rule = ''range'', position = Some (-1), severity = ''warning''\<rparr> r)
               else Inr r))"

definition checkCompoundTritones1 :: "string option list \<Rightarrow> string \<Rightarrow> string \<Rightarrow> results \<Rightarrow> error + results" where
  "checkCompoundTritones1 cp ky md r =
     (let n = int (length cp) in
      if n < 3 then Inr r
      else forEach [0..n - 3] (\<lambda>i.
             forEachBreak [3..min 5 (n - i)] (\<lambda>span r1.
               (let startNote = cp_at cp i; endNote = cp_at cp (i + span - 1) in
                ebind (getDegree startNote ky md) (\<lambda>startDegree.
                ebind (getDegree endNote ky md) (\<lambda>endDegree.
                if (startDegree = Some 4 \<and> endDegree = Some 7)
                   \<or> (startDegree = Some 7 \<and> endDegree = Some 4)
                then ebind (between startNote endNote) (\<lambda>iv.
                       if isTritone iv
                       then Inr (True, push_warning (issue_at ''compound-tritone'' i ''warning'') r1)
                       else Inr (False, r1))
                else Inr (False, r1)))))) r)"

definition checkCompoundDissonantLeaps1 :: "string option list \<Rightarrow> results \<Rightarrow> error + results" where
  "checkCompoundDissonantLeaps1 cp r =
     (let n = int (length cp) in
      if n < 3 then Inr r
      else forEach [0..n - 3] (\<lambda>i r1.
             (let note1 = cp_at cp i; note2 = cp_at cp (i + 1); note3 = cp_at cp (i + 2) in
              ebind (between note1 note2) (\<lambda>interval1.
              ebind (between note2 note3) (\<lambda>interval2.
              if simple_generic interval1 > 2 \<and> simple_generic interval2 > 2
              then ebind (midiSign note1 note2) (\<lambda>dir1.
                   ebind (midiSign note2 note3) (\<lambda>dir2.
                   if dir1 = dir2 \<and> dir1 \<noteq> 0
                   then ebind (between note1 note3) (\<lambda>compoundInterval.
                          if isDissonant compoundInterval
                             \<or> simple_generic compoundInterval = 7
                             \<or> simple_generic compoundInterval = 9
                          then Inr (push_warning (issue_at ''compound-dissonant-leap'' (i + 2) ''warning'') r1)
                          else Inr r1)
                   else Inr r1))
              else Inr r1)))) r)"

definition checkBattutaParallels1 :: "string list \<Rightarrow> string option list \<Rightarrow> string \<Rightarrow> results \<Rightarrow> error + results" where
  "checkBattutaParallels1 cf cp cpPos r =
     (let n = int (length cf) in
      if n < 3 then Inr r
      else forEach [0..n - 3] (\<lambda>i r1.
             ebind (vertical cpPos (at cf i) (cp_at cp i)) (\<lambda>interval1.
             if \<not> isPerfectConsonance interval1 \<or> simple_name interval1 = ''P1'' then Inr r1
             else forEach [2..min 3 (n - i - 1)] (\<lambda>gap r2.
                    ebind (vertical cpPos (at cf (i + gap)) (cp_at cp (i + gap))) (\<lambda>interval2.
                    if simple_name interval1 = simple_name interval2
                    then ebind (midiSign (at cf i) (at cf (i + gap))) (\<lambda>cfDir.
                         ebind (midiSign (cp_at cp i) (cp_at cp (i + gap))) (\<lambda>cpDir.
                         if cfDir = cpDir \<and> cfDir \<noteq> 0
                         then ebind (toMidi (cp_at cp (i + gap))) (\<lambda>ma.
                              ebind (toMidi (cp_at cp (i + gap - 1))) (\<lambda>mb.
                              ebind (getMotionType (at cf (i + gap - 1)) (at cf (i + gap))
                                       (cp_at cp (i + gap - 1)) (cp_at cp (i + gap))) (\<lambda>approachMotion.
                              (let cpLeap = \<bar>ma - mb\<bar> in
                               if cpLeap \<ge> 5 \<and> cpLeap \<le> 7 \<and> approachMotion = ''contrary''
                               then Inr r2
                               else Inr (push_warning
                                      (issue_at (if simple_name interval1 = ''P5''
                                                 then ''battuta-fifths'' else ''battuta-octaves'')
                                         (i + gap) ''warning'') r2)))))
                         else Inr r2))
                    else Inr r2)) r1)) r)"

text \<open>
  \<open>checkProlongedDirection\<close>: the loop state holds the locals \<open>currentDirection\<close>,
  \<open>directionCount\<close> and \<open>startPosition\<close> next to the results.
\<close>

definition checkProlongedDirection1 :: "string option list \<Rightarrow> results \<Rightarrow> error + results" where
  "checkProlongedDirection1 cp r =
     (let n = int (length cp) in
      if n < 4 then Inr r
      else
        ebind (forEach [1..n - 1] (\<lambda>i (currentDirection, directionCount, startPosition, r1).
                 ebind (midiSign (cp_at cp (i - 1)) (cp_at cp i)) (\<lambda>dir.
                 if dir = 0 then Inr (currentDirection, directionCount, startPosition, r1)
                 else if dir = currentDirection
                 then Inr (currentDirection, directionCount + 1, startPosition, r1)
                 else Inr (dir, 1, i - 1,
                           if directionCount > 8
                           then push_warning (issue_at ''prolonged-direction'' startPosition ''warning'') r1
                           else r1)))
               (0, 1, 0, r))
          (\<lambda>(currentDirection, directionCount, startPosition, r1).
             if directionCount > (8::int)
             then Inr (push_warning (issue_at ''prolonged-direction'' startPosition ''warning'') r1)
             else Inr r1))"

definition checkArpeggios1 :: "string option list \<Rightarrow> string \<Rightarrow> string \<Rightarrow> results \<Rightarrow> error + results" where
  "checkArpeggios1 cp ky md r =
     (let n = int (length cp) in
      if n < 3 then Inr r
      else forEach [0..n - 3] (\<lambda>i r1.
             (let note1 = cp_at cp i; note2 = cp_at cp (i + 1); note3 = cp_at cp (i + 2) in
              ebind (getDegree note1 ky md) (\<lambda>degree1.
              ebind (getDegree note2 ky md) (\<lambda>degree2.
              ebind (getDegree note3 ky md) (\<lambda>degree3.
              if degree1 = None \<or> degree2 = None \<or> degree3 = None then Inr r1
              else forEachBreak triadPatterns (\<lambda>pattern r2.
                     if pattern = [degree1, degree2, degree3]
                     then ebind (between note1 note2) (\<lambda>int1.
                          ebind (between note2 note3) (\<lambda>int2.
                          if simple_generic int1 \<ge> 3 \<and> simple_generic int2 \<ge> 3
                          then Inr (True, push_suggestion (issue_at ''arpeggio'' i ''suggestion'') r2)
                          else Inr (True, r2)))
                     else Inr (False, r2)) r1))))) r)"

text \<open>
  \<open>checkExcessiveParallelConsonances\<close>: the loop state holds \<open>consecutiveThirds\<close>,
  \<open>consecutiveSixths\<close>, \<open>thirdsStart\<close> and \<open>sixthsStart\<close> next to the results.
\<close>

definition excessive_flush :: "int \<Rightarrow> int \<Rightarrow> int \<Rightarrow> int \<Rightarrow> results \<Rightarrow> results" where
  "excessive_flush consecutiveThirds consecutiveSixths thirdsStart sixthsStart r =
     (let r1 = (if consecutiveThirds > 4
                then push_suggestion (issue_at ''excessive-parallels'' thirdsStart ''suggestion'') r
                else r)
      in if consecutiveSixths > 4
         then push_suggestion (issue_at ''excessive-parallels'' sixthsStart ''suggestion'') r1
         else r1)"

definition checkExcessiveParallelConsonances1 ::
  "string list \<Rightarrow> string option list \<Rightarrow> string \<Rightarrow> results \<Rightarrow> error + results" where
  "checkExcessiveParallelConsonances1 cf cp cpPos r =
     (let n = int (length cf) in
      if n < 4 then Inr r
      else
        ebind (forEach [0..n - 1] (\<lambda>i (consecutiveThirds, consecutiveSixths, thirdsStart, sixthsStart, r1).
                 ebind (vertical cpPos (at cf i) (cp_at cp i)) (\<lambda>iv.
                 (let isThird = (simple_name iv = ''m3'' \<or> simple_name iv = ''M3'');
                      isSixth = (simple_name iv = ''m6'' \<or> simple_name iv = ''M6'')
                  in if isThird
                     then Inr (consecutiveThirds + 1, 0,
                               if consecutiveThirds = 0 then i else thirdsStart, sixthsStart, r1)
                     else if isSixth
                     then Inr (0, consecutiveSixths + 1, thirdsStart,
                               if consecutiveSixths = 0 then i else sixthsStart, r1)
                     else Inr (0, 0, thirdsStart, sixthsStart,
                               excessive_flush consecutiveThirds consecutiveSixths
                                 thirdsStart sixthsStart r1))))
               (0, 0, 0, 0, r))
          (\<lambda>(consecutiveThirds, consecutiveSixths, thirdsStart, sixthsStart, r1).
             Inr (excessive_flush consecutiveThirds consecutiveSixths thirdsStart sixthsStart r1)))"

definition calculateScore1 :: "results \<Rightarrow> int" where
  "calculateScore1 r =
     max 0 (100 - int (length (errors r)) * 15 - int (length (warnings r)) * 5
              - int (length (suggestions r)))"

text \<open>The body of the loop of \<open>validate\<close> over the note positions.\<close>

definition validate1_note ::
  "string list \<Rightarrow> string option list \<Rightarrow> string \<Rightarrow> int \<Rightarrow> int \<Rightarrow> results \<Rightarrow> error + results" where
  "validate1_note cf cp cpPos len i r =
     (let cfn = at cf i; cpn = cp_at cp i in
      ebind (vertical cpPos cfn cpn) (\<lambda>iv.
      ebind (checkConsonance1 iv i r) (\<lambda>r1.
      ebind (checkUnison1 iv i len r1) (\<lambda>r2.
      ebind (checkVoiceCrossing cfn cpn cpPos i r2) (\<lambda>r3.
      if i > 0
      then (let prevCf = at cf (i - 1); prevCp = cp_at cp (i - 1) in
            ebind (vertical cpPos prevCf prevCp) (\<lambda>prevInterval.
            ebind (checkParallels1 prevInterval iv prevCf cfn prevCp cpn i r3) (\<lambda>r4.
            ebind (checkMelodicTritone prevCp cpn i r4) (\<lambda>r5.
            ebind (analyzeMotion1 prevCf cfn prevCp cpn i r5) (\<lambda>r6.
            checkStepwise prevCp cpn i r6)))))
      else Inr r3)))))"

text \<open>The checks of \<open>validate\<close> after the length test, before the score is computed.\<close>

definition validate1_checks :: "exercise \<Rightarrow> error + results" where
  "validate1_checks ex =
     (let cf = cantusFirmus ex; cp = counterpoint ex; ky = key ex; md = mode_of ex;
          cpPos = cpPosition_of ex; len = int (length cf);
          r0 = init_noteResults (length cf) initial_results
      in
      ebind (forEach [0..len - 1] (validate1_note cf cp cpPos len) r0) (\<lambda>r1.
      ebind (checkStartInterval1 (at cf 0) (cp_at cp 0) cpPos r1) (\<lambda>r2.
      ebind (checkEndInterval1 cf cp ky md cpPos r2) (\<lambda>r3.
      ebind (checkRange1 cp cpPos r3) (\<lambda>r4.
      ebind (checkCompoundTritones1 cp ky md r4) (\<lambda>r5.
      ebind (checkCompoundDissonantLeaps1 cp r5) (\<lambda>r6.
      ebind (checkBattutaParallels1 cf cp cpPos r6) (\<lambda>r7.
      ebind (checkProlongedDirection1 cp r7) (\<lambda>r8.
      ebind (checkArpeggios1 cp ky md r8) (\<lambda>r9.
      checkExcessiveParallelConsonances1 cf cp cpPos r9))))))))))"

definition length_error :: results where
  "length_error =
     (push_error \<lparr>rule = ''LENGTH'', position = None, severity = ''error''\<rparr> initial_results)
       \<lparr>valid := False\<rparr>"

definition validate1 :: "exercise \<Rightarrow> error + results" where
  "validate1 ex =
     (if length (cantusFirmus ex) \<noteq> length (counterpoint ex) then Inr length_error
      else ebind (validate1_checks ex) (\<lambda>r.
             Inr (r\<lparr>score := calculateScore1 r, valid := (errors r = [])\<rparr>)))"


section \<open>Sounding notes and strong positions\<close>

text \<open>
  \<open>getSoundingNotes\<close> returns the entries \<open>{ note, index }\<close> of the positions that are
  not \<open>null\<close>. Reading a field of \<open>sounding[k]\<close> throws when \<open>k\<close> is outside the
  array.
\<close>

record entry =
  e_note :: string
  e_index :: int

definition getSoundingNotes :: "string option list \<Rightarrow> entry list" where
  "getSoundingNotes cp =
     concat (map (\<lambda>i. case cp ! i of None \<Rightarrow> [] | Some s \<Rightarrow> [\<lparr>e_note = s, e_index = int i\<rparr>])
               [0..<length cp])"

definition entry_at :: "entry list \<Rightarrow> int \<Rightarrow> error + entry" where
  "entry_at sounding k =
     (if 0 \<le> k \<and> k < int (length sounding) then Inr (sounding ! nat k) else Inl TypeError)"

definition index_at :: "entry list \<Rightarrow> int \<Rightarrow> error + int" where
  "index_at sounding k = ebind (entry_at sounding k) (\<lambda>e. Inr (e_index e))"

text \<open>
  The checks between consecutive strong positions have the same text in the second
  species (\<open>checkStrongBeatParallels\<close>, \<open>checkStrongBeatHiddenParallels\<close>,
  \<open>checkStrongBeatMotion\<close>, over \<open>getStrongBeatIndices\<close>) and in the third
  (\<open>checkDownbeatParallels\<close>, \<open>checkDownbeatHiddenParallels\<close>, \<open>checkDownbeatMotion\<close>,
  over \<open>getDownbeatIndices\<close>). They are written once, over the list of indices and the
  species' \<open>getCFNote\<close>. The loop index \<open>si\<close> runs from 1 below the length of the list,
  so both reads of the list are inside it.
\<close>

definition pairParallels ::
  "int list \<Rightarrow> (int \<Rightarrow> string list \<Rightarrow> jsval) \<Rightarrow> string list \<Rightarrow> string option list \<Rightarrow> string
     \<Rightarrow> results \<Rightarrow> error + results" where
  "pairParallels indices getCF cf cp cpPos r =
     forEach [1..int (length indices) - 1] (\<lambda>si r1.
       (let prevIdx = indices ! nat (si - 1); currIdx = indices ! nat si;
            prevCp = cp_at cp prevIdx; currCp = cp_at cp currIdx in
        if prevCp = Null \<or> currCp = Null then Inr r1
        else
          (let prevCF = getCF prevIdx cf; currCF = getCF currIdx cf in
           ebind (vertical cpPos prevCF prevCp) (\<lambda>prevInterval.
           ebind (vertical cpPos currCF currCp) (\<lambda>currInterval.
           ebind (getMotionType prevCF currCF prevCp currCp) (\<lambda>motion.
           (let prevPerfect = (isPerfectConsonance prevInterval \<and> simple_name prevInterval \<noteq> ''P1'');
                currPerfect = (isPerfectConsonance currInterval \<and> simple_name currInterval \<noteq> ''P1'')
            in if prevPerfect \<and> currPerfect
                  \<and> simple_name prevInterval = simple_name currInterval \<and> motion = ''similar''
               then report_error
                      (issue_at (if simple_name prevInterval = ''P5''
                                 then ''parallel-fifths'' else ''parallel-octaves'') currIdx ''error'')
                      currIdx r1
               else Inr r1))))))) r"

definition pairHiddenParallels ::
  "int list \<Rightarrow> (int \<Rightarrow> string list \<Rightarrow> jsval) \<Rightarrow> string list \<Rightarrow> string option list \<Rightarrow> string
     \<Rightarrow> results \<Rightarrow> error + results" where
  "pairHiddenParallels indices getCF cf cp cpPos r =
     forEach [1..int (length indices) - 1] (\<lambda>si r1.
       (let prevIdx = indices ! nat (si - 1); currIdx = indices ! nat si;
            prevCp = cp_at cp prevIdx; currCp = cp_at cp currIdx in
        if prevCp = Null \<or> currCp = Null then Inr r1
        else
          (let prevCF = getCF prevIdx cf; currCF = getCF currIdx cf in
           ebind (vertical cpPos prevCF prevCp) (\<lambda>prevInterval.
           ebind (vertical cpPos currCF currCp) (\<lambda>currInterval.
           ebind (getMotionType prevCF currCF prevCp currCp) (\<lambda>motion.
           (let prevPerfect = (isPerfectConsonance prevInterval \<and> simple_name prevInterval \<noteq> ''P1'');
                currPerfect = (isPerfectConsonance currInterval \<and> simple_name currInterval \<noteq> ''P1'')
            in if \<not> prevPerfect \<and> currPerfect \<and> motion = ''similar''
               then ebind (between prevCp currCp) (\<lambda>cpInterval.
                      (let isStepwise = (simple_generic cpInterval \<le> 2)
                       in if \<not> isStepwise
                          then report_warning
                                 (issue_at (if simple_name currInterval = ''P5''
                                            then ''hidden-fifths'' else ''hidden-octaves'')
                                    currIdx ''warning'') currIdx r1
                          else Inr r1))
               else Inr r1))))))) r"

definition pairMotion ::
  "int list \<Rightarrow> (int \<Rightarrow> string list \<Rightarrow> jsval) \<Rightarrow> string list \<Rightarrow> string option list \<Rightarrow> string
     \<Rightarrow> results \<Rightarrow> error + results" where
  "pairMotion indices getCF cf cp cpPos r =
     forEach [1..int (length indices) - 1] (\<lambda>si r1.
       (let prevIdx = indices ! nat (si - 1); currIdx = indices ! nat si;
            prevCp = cp_at cp prevIdx; currCp = cp_at cp currIdx in
        if prevCp = Null \<or> currCp = Null then Inr r1
        else
          (let prevCF = getCF prevIdx cf; currCF = getCF currIdx cf in
           ebind (getMotionType prevCF currCF prevCp currCp) (\<lambda>motion.
           if motion = ''similar''
           then report_suggestion (issue_at ''motion-type'' currIdx ''suggestion'') currIdx r1
           else Inr r1)))) r"

text \<open>
  \<open>checkEndInterval\<close> of the second and third species (the second also takes the key
  and the mode, and reads neither).
\<close>

definition endInterval ::
  "(int \<Rightarrow> string list \<Rightarrow> jsval) \<Rightarrow> string list \<Rightarrow> string option list \<Rightarrow> string \<Rightarrow> int
     \<Rightarrow> results \<Rightarrow> error + results" where
  "endInterval getCF cf cp cpPos cpLen r =
     (let lastIdx = cpLen - 1; cpn = cp_at cp lastIdx in
      if cpn = Null then Inr r
      else ebind (vertical cpPos (getCF lastIdx cf) cpn) (\<lambda>iv.
             if simple_name iv \<noteq> ''P1'' \<and> simple_name iv \<noteq> ''P8''
             then report_error (issue_at ''end-consonance'' lastIdx ''error'') lastIdx r
             else Inr r))"

text \<open>
  The global melodic checks over the sounding notes. \<open>checkCompoundTritones\<close> and
  \<open>checkArpeggios\<close> have the same text in the second and the third species;
  \<open>checkProlongedDirection\<close> differs in the threshold only (8 and 11).
\<close>

definition checkCompoundTritonesS ::
  "string list \<Rightarrow> entry list \<Rightarrow> string \<Rightarrow> string \<Rightarrow> results \<Rightarrow> error + results" where
  "checkCompoundTritonesS soundingNotes sounding ky md r =
     (let n = int (length soundingNotes) in
      if n < 3 then Inr r
      else forEach [0..n - 3] (\<lambda>i.
             forEachBreak [3..min 5 (n - i)] (\<lambda>span r1.
               (let startNote = at soundingNotes i; endNote = at soundingNotes (i + span - 1) in
                ebind (getDegree startNote ky md) (\<lambda>startDegree.
                ebind (getDegree endNote ky md) (\<lambda>endDegree.
                if (startDegree = Some 4 \<and> endDegree = Some 7)
                   \<or> (startDegree = Some 7 \<and> endDegree = Some 4)
                then ebind (between startNote endNote) (\<lambda>iv.
                       if isTritone iv
                       then ebind (index_at sounding i) (\<lambda>startPos.
                            ebind (index_at sounding (i + span - 1)) (\<lambda>endPos.
                            if endDegree = Some 7 \<and> i + span - 1 = n - 2
                            then Inr (True, r1)
                            else Inr (True, push_warning
                                        (issue_at ''compound-tritone'' startPos ''warning'') r1)))
                       else Inr (False, r1))
                else Inr (False, r1)))))) r)"

definition checkProlongedDirectionS ::
  "int \<Rightarrow> string list \<Rightarrow> entry list \<Rightarrow> results \<Rightarrow> error + results" where
  "checkProlongedDirectionS threshold soundingNotes sounding r =
     (let n = int (length soundingNotes) in
      if n < 4 then Inr r
      else
        ebind (forEach [1..n - 1] (\<lambda>i (currentDirection, directionCount, startSoundingIdx, r1).
                 ebind (midiSign (at soundingNotes (i - 1)) (at soundingNotes i)) (\<lambda>dir.
                 if dir = 0 then Inr (currentDirection, directionCount, startSoundingIdx, r1)
                 else if dir = currentDirection
                 then Inr (currentDirection, directionCount + 1, startSoundingIdx, r1)
                 else
                   ebind (if directionCount > threshold
                          then ebind (index_at sounding startSoundingIdx) (\<lambda>startPos.
                               ebind (index_at sounding (i - 1)) (\<lambda>endPos.
                               Inr (push_warning
                                      (issue_at ''prolonged-direction'' startPos ''warning'') r1)))
                          else Inr r1) (\<lambda>r2. Inr (dir, 1, i - 1, r2))))
               (0, 1, 0, r))
          (\<lambda>(currentDirection, directionCount, startSoundingIdx, r1).
             if directionCount > threshold
             then ebind (index_at sounding startSoundingIdx) (\<lambda>startPos.
                  ebind (index_at sounding (n - 1)) (\<lambda>endPos.
                  Inr (push_warning (issue_at ''prolonged-direction'' startPos ''warning'') r1)))
             else Inr r1))"

definition checkArpeggiosS ::
  "string list \<Rightarrow> entry list \<Rightarrow> string \<Rightarrow> string \<Rightarrow> results \<Rightarrow> error + results" where
  "checkArpeggiosS soundingNotes sounding ky md r =
     (let n = int (length soundingNotes) in
      if n < 3 then Inr r
      else forEach [0..n - 3] (\<lambda>i r1.
             (let note1 = at soundingNotes i; note2 = at soundingNotes (i + 1);
                  note3 = at soundingNotes (i + 2) in
              ebind (getDegree note1 ky md) (\<lambda>degree1.
              ebind (getDegree note2 ky md) (\<lambda>degree2.
              ebind (getDegree note3 ky md) (\<lambda>degree3.
              if degree1 = None \<or> degree2 = None \<or> degree3 = None then Inr r1
              else forEachBreak triadPatterns (\<lambda>pattern r2.
                     if pattern = [degree1, degree2, degree3]
                     then ebind (between note1 note2) (\<lambda>int1.
                          ebind (between note2 note3) (\<lambda>int2.
                          if simple_generic int1 \<ge> 3 \<and> simple_generic int2 \<ge> 3
                          then ebind (index_at sounding i) (\<lambda>pos.
                               ebind (index_at sounding (i + 2)) (\<lambda>endPos.
                               Inr (True, push_suggestion
                                            (issue_at ''arpeggio'' pos ''suggestion'') r2)))
                          else Inr (True, r2)))
                     else Inr (False, r2)) r1))))) r)"

section \<open>Second species validator\<close>

definition getStrongBeatIndices2 :: "int \<Rightarrow> int list" where
  "getStrongBeatIndices2 cpLen = filter (\<lambda>i. isStrongBeat2 i cpLen) [0..cpLen - 1]"

definition checkAnacrusis2 :: "string option list \<Rightarrow> int \<Rightarrow> results \<Rightarrow> error + results" where
  "checkAnacrusis2 cp cpLen r =
     forEach [0..cpLen - 1] (\<lambda>i r1.
       if cp_at cp i = Null \<and> i \<noteq> 0
       then report_error (issue_at ''anacrusis'' i ''error'') i r1 else Inr r1) r"

definition checkStrongBeatConsonance2 :: "interval \<Rightarrow> int \<Rightarrow> results \<Rightarrow> error + results" where
  "checkStrongBeatConsonance2 iv p r =
     (if isDissonant iv then report_error (issue_at ''consonance'' p ''error'') p r else Inr r)"

definition checkWeakBeatDissonance2 ::
  "interval \<Rightarrow> int \<Rightarrow> string option list \<Rightarrow> string list \<Rightarrow> string \<Rightarrow> results \<Rightarrow> error + results" where
  "checkWeakBeatDissonance2 iv p cp cf cpPos r =
     (if \<not> isDissonant iv then Inr r
      else ebind (isPassingTone2 p cp cf cpPos) (\<lambda>ptResult.
             if \<not> v_valid ptResult
             then report_error (issue_at ''passing-tone'' p ''error'') p r else Inr r))"

definition checkUnison2 :: "interval \<Rightarrow> int \<Rightarrow> int \<Rightarrow> string option list \<Rightarrow> results \<Rightarrow> error + results" where
  "checkUnison2 iv p cpLen cp r =
     (if simple_name iv \<noteq> ''P1'' then Inr r
      else
        (let isFirstSounding = ((p = 0 \<and> cp_at cp 0 \<noteq> Null) \<or> (p = 1 \<and> cp_at cp 0 = Null));
             isLast = (p = cpLen - 1)
         in if \<not> isFirstSounding \<and> \<not> isLast
            then report_error (issue_at ''unison'' p ''error'') p r else Inr r))"

definition checkNoteRepetition2 :: "entry \<Rightarrow> entry \<Rightarrow> int \<Rightarrow> results \<Rightarrow> error + results" where
  "checkNoteRepetition2 prevEntry currEntry cpLen r =
     (if \<not> isWeakBeat2 (e_index prevEntry) cpLen then Inr r
      else if \<not> isStrongBeat2 (e_index currEntry) cpLen then Inr r
      else ebind (toMidi (Str (e_note prevEntry))) (\<lambda>mp.
           ebind (toMidi (Str (e_note currEntry))) (\<lambda>mc.
           if mp = mc
           then report_warning (issue_at ''note-repetition'' (e_index currEntry) ''warning'')
                  (e_index currEntry) r
           else Inr r)))"

definition checkCrossBeatParallels2 ::
  "string list \<Rightarrow> string option list \<Rightarrow> string \<Rightarrow> int \<Rightarrow> results \<Rightarrow> error + results" where
  "checkCrossBeatParallels2 cf cp cpPos cpLen r =
     forEach [0..cpLen - 2] (\<lambda>i r1.
       (let cp1 = cp_at cp i; cp2 = cp_at cp (i + 1) in
        if cp1 = Null \<or> cp2 = Null then Inr r1
        else
          (let oneStrong = (isStrongBeat2 i cpLen \<noteq> isStrongBeat2 (i + 1) cpLen) in
           if \<not> oneStrong then Inr r1
           else
             (let cf1 = getCFNote2 i cf; cf2 = getCFNote2 (i + 1) cf in
              ebind (vertical cpPos cf1 cp1) (\<lambda>interval1.
              ebind (vertical cpPos cf2 cp2) (\<lambda>interval2.
              (let perf1 = (isPerfectConsonance interval1 \<and> simple_name interval1 \<noteq> ''P1'');
                   perf2 = (isPerfectConsonance interval2 \<and> simple_name interval2 \<noteq> ''P1'')
               in if perf1 \<and> perf2 \<and> simple_name interval1 = simple_name interval2
                  then ebind (getMotionType cf1 cf2 cp1 cp2) (\<lambda>motion.
                         if motion = ''similar''
                         then report_warning
                                (issue_at ''strong-weak-parallels'' (i + 1) ''warning'') (i + 1) r1
                         else Inr r1)
                  else Inr r1))))))) r"

definition checkStartInterval2 :: "string list \<Rightarrow> string option list \<Rightarrow> string \<Rightarrow> results \<Rightarrow> error + results" where
  "checkStartInterval2 cf cp cpPos r =
     (let startIdx = (if cp_at cp 0 = Null then 1 else 0); cpn = cp_at cp startIdx in
      if cpn = Null then Inr r
      else ebind (vertical cpPos (getCFNote2 startIdx cf) cpn) (\<lambda>iv.
             if \<not> isPerfectConsonance iv
             then report_error (issue_at ''start-consonance'' startIdx ''error'') startIdx r
             else Inr r))"

definition checkLastNoteWhole2 :: "int \<Rightarrow> results \<Rightarrow> error + results" where
  "checkLastNoteWhole2 cpLen r =
     (if cpLen > 1 \<and> jsrem cpLen 2 = 0
      then report_error (issue_at ''last-note-whole'' (cpLen - 1) ''error'') (cpLen - 1) r
      else Inr r)"

definition checkCadence2 ::
  "string list \<Rightarrow> string option list \<Rightarrow> string \<Rightarrow> string \<Rightarrow> string \<Rightarrow> int \<Rightarrow> results \<Rightarrow> error + results" where
  "checkCadence2 cf cp ky md cpPos cpLen r =
     (if cpLen < 3 then Inr r
      else
        (let penultimateWeakIdx = cpLen - 2; penultimateWeakNote = cp_at cp penultimateWeakIdx in
         if penultimateWeakNote = Null then Inr r
         else if \<not> isWeakBeat2 penultimateWeakIdx cpLen then Inr r
         else
           ebind (getDegree penultimateWeakNote ky md) (\<lambda>degree.
           ebind (if cpPos = ''upper''
                  then (if degree \<noteq> Some 7
                        then report_warning
                               (issue_at ''cadence-second-species'' penultimateWeakIdx ''warning'')
                               penultimateWeakIdx r
                        else Inr r)
                  else (if degree \<noteq> Some 2 \<and> degree \<noteq> Some 5 \<and> degree \<noteq> Some 7
                        then report_warning
                               (issue_at ''cadence-second-species'' penultimateWeakIdx ''warning'')
                               penultimateWeakIdx r
                        else Inr r)) (\<lambda>r1.
           (let penultimateStrongIdx = cpLen - 3 in
            if penultimateStrongIdx \<ge> 0
            then (let penultimateStrongNote = cp_at cp penultimateStrongIdx in
                  if penultimateStrongNote \<noteq> Null \<and> cpPos = ''upper''
                  then ebind (getDegree penultimateStrongNote ky md) (\<lambda>strongDegree.
                         if strongDegree \<noteq> Some 6 \<and> strongDegree \<noteq> Some 5
                         then report_suggestion
                                (issue_at ''cadence-second-species'' penultimateStrongIdx ''suggestion'')
                                penultimateStrongIdx r1
                         else Inr r1)
                  else Inr r1)
            else Inr r1)))))"

definition checkRange2 :: "string option list \<Rightarrow> string \<Rightarrow> results \<Rightarrow> error + results" where
  "checkRange2 cp cpPos r =
     ebind (emap toMidi (filter (\<lambda>v. v \<noteq> Null) (map jsnote cp))) (\<lambda>midis.
       case midis of
         [] \<Rightarrow> Inr r
       | x # rest \<Rightarrow>
           (let lowest = fold min rest x; highest = fold max rest x; range = highest - lowest
            in if range > 19
               then Inr (push_warning \<lparr>rule = ''range'', position = Some (-1), severity = ''warning''\<rparr> r)
               else Inr r))"

definition checkCompoundDissonantLeaps2 :: "string list \<Rightarrow> entry list \<Rightarrow> results \<Rightarrow> error + results" where
  "checkCompoundDissonantLeaps2 soundingNotes sounding r =
     (let n = int (length soundingNotes) in
      if n < 3 then Inr r
      else forEach [0..n - 3] (\<lambda>i r1.
             (let note1 = at soundingNotes i; note2 = at soundingNotes (i + 1);
                  note3 = at soundingNotes (i + 2) in
              ebind (between note1 note2) (\<lambda>interval1.
              ebind (between note2 note3) (\<lambda>interval2.
              if simple_generic interval1 > 2 \<and> simple_generic interval2 > 2
              then ebind (midiSign note1 note2) (\<lambda>dir1.
                   ebind (midiSign note2 note3) (\<lambda>dir2.
                   if dir1 = dir2 \<and> dir1 \<noteq> 0
                   then ebind (between note1 note3) (\<lambda>compoundInterval.
                          if isDissonant compoundInterval
                             \<or> simple_generic compoundInterval = 7
                             \<or> simple_generic compoundInterval = 9
                          then ebind (index_at sounding (i + 2)) (\<lambda>pos.
                               ebind (index_at sounding i) (\<lambda>startPos.
                               Inr (push_warning
                                      (issue_at ''compound-dissonant-leap'' pos ''warning'') r1)))
                          else Inr r1)
                   else Inr r1))
              else Inr r1)))) r)"

definition checkExcessiveParallelConsonances2 ::
  "string list \<Rightarrow> string option list \<Rightarrow> string \<Rightarrow> int \<Rightarrow> results \<Rightarrow> error + results" where
  "checkExcessiveParallelConsonances2 cf cp cpPos cpLen r =
     (let strongIndices = getStrongBeatIndices2 cpLen in
      if int (length strongIndices) < 4 then Inr r
      else
        ebind (forEach strongIndices
                 (\<lambda>idx (consecutiveThirds, consecutiveSixths, thirdsStart, sixthsStart, r1).
                 (let cpn = cp_at cp idx in
                  if cpn = Null then Inr (0, 0, thirdsStart, sixthsStart, r1)
                  else
                    ebind (vertical cpPos (getCFNote2 idx cf) cpn) (\<lambda>iv.
                    (let isThird = (simple_name iv = ''m3'' \<or> simple_name iv = ''M3'');
                         isSixth = (simple_name iv = ''m6'' \<or> simple_name iv = ''M6'')
                     in if isThird
                        then Inr (consecutiveThirds + 1, 0,
                                  if consecutiveThirds = 0 then idx else thirdsStart, sixthsStart, r1)
                        else if isSixth
                        then Inr (0, consecutiveSixths + 1, thirdsStart,
                                  if consecutiveSixths = 0 then idx else sixthsStart, r1)
                        else Inr (0, 0, thirdsStart, sixthsStart,
                                  excessive_flush consecutiveThirds consecutiveSixths
                                    thirdsStart sixthsStart r1)))))
               (0, 0, 0, 0, r))
          (\<lambda>(consecutiveThirds, consecutiveSixths, thirdsStart, sixthsStart, r1).
             Inr (excessive_flush consecutiveThirds consecutiveSixths thirdsStart sixthsStart r1)))"

definition checkBattutaParallels2 ::
  "string list \<Rightarrow> string option list \<Rightarrow> string \<Rightarrow> int \<Rightarrow> results \<Rightarrow> error + results" where
  "checkBattutaParallels2 cf cp cpPos cpLen r =
     (let strongIndices = getStrongBeatIndices2 cpLen; n = int (length strongIndices) in
      if n < 3 then Inr r
      else forEach [0..n - 3] (\<lambda>si r1.
             (let idx1 = strongIndices ! nat si; cp1 = cp_at cp idx1 in
              if cp1 = Null then Inr r1
              else
                (let cf1 = getCFNote2 idx1 cf in
                 ebind (vertical cpPos cf1 cp1) (\<lambda>interval1.
                 if \<not> isPerfectConsonance interval1 \<or> simple_name interval1 = ''P1'' then Inr r1
                 else forEach [2..min 3 (n - si - 1)] (\<lambda>gap r2.
                        (let idx2 = strongIndices ! nat (si + gap); cp2 = cp_at cp idx2 in
                         if cp2 = Null then Inr r2
                         else
                           (let cf2 = getCFNote2 idx2 cf in
                            ebind (vertical cpPos cf2 cp2) (\<lambda>interval2.
                            if simple_name interval1 = simple_name interval2
                            then ebind (midiSign cf1 cf2) (\<lambda>cfDir.
                                 ebind (midiSign cp1 cp2) (\<lambda>cpDir.
                                 if cfDir = cpDir \<and> cfDir \<noteq> 0
                                 then
                                   (let prevStrongIdx = strongIndices ! nat (si + gap - 1);
                                        prevCp = cp_at cp prevStrongIdx in
                                    ebind (if prevCp \<noteq> Null
                                           then ebind (toMidi cp2) (\<lambda>ma.
                                                ebind (toMidi prevCp) (\<lambda>mb.
                                                ebind (getMotionType (getCFNote2 prevStrongIdx cf) cf2
                                                         prevCp cp2) (\<lambda>approachMotion.
                                                (let cpLeap = \<bar>ma - mb\<bar> in
                                                 Inr (cpLeap \<ge> 5 \<and> cpLeap \<le> 7
                                                      \<and> approachMotion = ''contrary'')))))
                                           else Inr False) (\<lambda>excepted.
                                    if excepted then Inr r2
                                    else Inr (push_warning
                                           (issue_at (if simple_name interval1 = ''P5''
                                                      then ''battuta-fifths'' else ''battuta-octaves'')
                                              idx2 ''warning'') r2)))
                                 else Inr r2))
                            else Inr r2)))) r1)))) r)"

definition calculateScore2 :: "results \<Rightarrow> int" where
  "calculateScore2 r =
     max 0 (100 - int (length (errors r)) * 10 - int (length (warnings r)) * 4
              - int (length (suggestions r)))"

text \<open>The bodies of the two loops of \<open>validate\<close>: per note, and per pair of consecutive
  sounding notes.\<close>

definition validate2_note ::
  "string list \<Rightarrow> string option list \<Rightarrow> string \<Rightarrow> int \<Rightarrow> int \<Rightarrow> results \<Rightarrow> error + results" where
  "validate2_note cf cp cpPos cpLen i r =
     (let cpn = cp_at cp i in
      if cpn = Null then Inr r
      else
        (let cfNote = getCFNote2 i cf in
         ebind (vertical cpPos cfNote cpn) (\<lambda>iv.
         ebind (if isStrongBeat2 i cpLen
                then ebind (checkStrongBeatConsonance2 iv i r) (checkUnison2 iv i cpLen cp)
                else Inr r) (\<lambda>r1.
         ebind (if isWeakBeat2 i cpLen
                then checkWeakBeatDissonance2 iv i cp cf cpPos r1
                else Inr r1) (\<lambda>r2.
         checkVoiceCrossing cfNote cpn cpPos i r2)))))"

definition validate2_melodic :: "entry list \<Rightarrow> int \<Rightarrow> int \<Rightarrow> results \<Rightarrow> error + results" where
  "validate2_melodic sounding cpLen si r =
     ebind (entry_at sounding (si - 1)) (\<lambda>prevEntry.
     ebind (entry_at sounding si) (\<lambda>currEntry.
     ebind (checkMelodicTritone (Str (e_note prevEntry)) (Str (e_note currEntry))
              (e_index currEntry) r) (\<lambda>r1.
     ebind (checkStepwise (Str (e_note prevEntry)) (Str (e_note currEntry))
              (e_index currEntry) r1) (\<lambda>r2.
     checkNoteRepetition2 prevEntry currEntry cpLen r2))))"

definition validate2_checks :: "exercise \<Rightarrow> error + results" where
  "validate2_checks ex =
     (let cf = cantusFirmus ex; cp = counterpoint ex; ky = key ex; md = mode_of ex;
          cpPos = cpPosition_of ex; cpLen = int (length cp);
          r0 = init_noteResults (length cp) initial_results;
          sounding = getSoundingNotes cp;
          soundingNotes = map e_note sounding;
          strong = getStrongBeatIndices2 cpLen
      in
      ebind (checkAnacrusis2 cp cpLen r0) (\<lambda>r1.
      ebind (forEach [0..cpLen - 1] (validate2_note cf cp cpPos cpLen) r1) (\<lambda>r2.
      ebind (forEach [1..int (length sounding) - 1] (validate2_melodic sounding cpLen) r2) (\<lambda>r3.
      ebind (pairParallels strong getCFNote2 cf cp cpPos r3) (\<lambda>r4.
      ebind (pairHiddenParallels strong getCFNote2 cf cp cpPos r4) (\<lambda>r5.
      ebind (pairMotion strong getCFNote2 cf cp cpPos r5) (\<lambda>r6.
      ebind (checkCrossBeatParallels2 cf cp cpPos cpLen r6) (\<lambda>r7.
      ebind (checkStartInterval2 cf cp cpPos r7) (\<lambda>r8.
      ebind (endInterval getCFNote2 cf cp cpPos cpLen r8) (\<lambda>r9.
      ebind (checkLastNoteWhole2 cpLen r9) (\<lambda>r10.
      ebind (checkCadence2 cf cp ky md cpPos cpLen r10) (\<lambda>r11.
      ebind (checkRange2 cp cpPos r11) (\<lambda>r12.
      ebind (checkCompoundTritonesS soundingNotes sounding ky md r12) (\<lambda>r13.
      ebind (checkCompoundDissonantLeaps2 soundingNotes sounding r13) (\<lambda>r14.
      ebind (checkProlongedDirectionS 8 soundingNotes sounding r14) (\<lambda>r15.
      ebind (checkArpeggiosS soundingNotes sounding ky md r15) (\<lambda>r16.
      ebind (checkExcessiveParallelConsonances2 cf cp cpPos cpLen r16) (\<lambda>r17.
      checkBattutaParallels2 cf cp cpPos cpLen r17))))))))))))))))))"

definition validate2 :: "exercise \<Rightarrow> error + results" where
  "validate2 ex =
     (if int (length (counterpoint ex)) \<noteq> int (length (cantusFirmus ex)) * 2 - 1
      then Inr length_error
      else ebind (validate2_checks ex) (\<lambda>r.
             Inr (r\<lparr>score := calculateScore2 r, valid := (errors r = [])\<rparr>)))"


section \<open>Third species validator\<close>

definition getDownbeatIndices3 :: "int \<Rightarrow> int list" where
  "getDownbeatIndices3 cpLen = filter (\<lambda>i. isDownbeat3 i cpLen) [0..cpLen - 1]"

text \<open>
  \<open>checkAnacrusis\<close>: the first loop of the source has an empty body; a rest after the
  allowed leading positions is reported under the rule \<open>unison\<close>, as the source does.
\<close>

definition checkAnacrusis3 :: "string option list \<Rightarrow> int \<Rightarrow> results \<Rightarrow> error + results" where
  "checkAnacrusis3 cp cpLen r =
     (let hasAnacrusis = (cp_at cp 0 = Null); startCheck = (if hasAnacrusis then 3 else 0) in
      forEach [startCheck..cpLen - 1] (\<lambda>i r1.
        if cp_at cp i = Null
        then report_error (issue_at ''unison'' i ''error'') i r1 else Inr r1) r)"

definition checkDownbeatConsonance3 :: "interval \<Rightarrow> int \<Rightarrow> results \<Rightarrow> error + results" where
  "checkDownbeatConsonance3 iv p r =
     (if isDissonant iv then report_error (issue_at ''consonance'' p ''error'') p r else Inr r)"

definition checkBeatThreeConsonance3 ::
  "interval \<Rightarrow> int \<Rightarrow> string option list \<Rightarrow> string list \<Rightarrow> string \<Rightarrow> results \<Rightarrow> error + results" where
  "checkBeatThreeConsonance3 iv p cp cf cpPos r =
     (if \<not> isDissonant iv then Inr r
      else ebind (classifyDissonance p cp cf cpPos) (\<lambda>cls.
             if \<not> c_valid cls
             then report_error (issue_at ''beat-three-consonance'' p ''error'') p r
             else report_suggestion (issue_at ''passing-tone-strong'' p ''suggestion'') p r))"

definition checkWeakBeatDissonance3 ::
  "interval \<Rightarrow> int \<Rightarrow> string option list \<Rightarrow> string list \<Rightarrow> string \<Rightarrow> results \<Rightarrow> error + results" where
  "checkWeakBeatDissonance3 iv p cp cf cpPos r =
     (if \<not> isDissonant iv then Inr r
      else ebind (classifyDissonance p cp cf cpPos) (\<lambda>cls.
             if \<not> c_valid cls
             then report_error (issue_at ''passing-tone'' p ''error'') p r else Inr r))"

text \<open>\<open>_getFirstSoundingIndex\<close>: the first index that does not hold \<open>null\<close>, else 0.\<close>

fun firstSoundingFrom :: "int \<Rightarrow> string option list \<Rightarrow> int option" where
  "firstSoundingFrom i [] = None"
| "firstSoundingFrom i (x # xs) = (if x \<noteq> None then Some i else firstSoundingFrom (i + 1) xs)"

definition getFirstSoundingIndex :: "string option list \<Rightarrow> int" where
  "getFirstSoundingIndex cp = (case firstSoundingFrom 0 cp of Some i \<Rightarrow> i | None \<Rightarrow> 0)"

definition checkUnison3 :: "interval \<Rightarrow> int \<Rightarrow> int \<Rightarrow> string option list \<Rightarrow> results \<Rightarrow> error + results" where
  "checkUnison3 iv p cpLen cp r =
     (if simple_name iv \<noteq> ''P1'' then Inr r
      else
        (let firstSounding = getFirstSoundingIndex cp;
             isFirst = (p = firstSounding);
             isLast = (p = cpLen - 1)
         in if \<not> isFirst \<and> \<not> isLast
            then report_error (issue_at ''unison'' p ''error'') p r else Inr r))"

definition checkStartInterval3 :: "string list \<Rightarrow> string option list \<Rightarrow> string \<Rightarrow> results \<Rightarrow> error + results" where
  "checkStartInterval3 cf cp cpPos r =
     (let startIdx = getFirstSoundingIndex cp; cpn = cp_at cp startIdx in
      if cpn = Null then Inr r
      else ebind (vertical cpPos (getCFNote3 startIdx cf) cpn) (\<lambda>iv.
             if \<not> isPerfectConsonance iv
             then report_error (issue_at ''start-consonance'' startIdx ''error'') startIdx r
             else Inr r))"

text \<open>
  \<open>checkLastNoteWhole\<close> of the third species pushes its error on \<open>results.errors\<close>
  only.
\<close>

definition checkLastNoteWhole3 :: "int \<Rightarrow> results \<Rightarrow> error + results" where
  "checkLastNoteWhole3 cpLen r =
     (if jsrem (cpLen + 3) 4 \<noteq> 0
      then Inr (push_error (issue_at ''consonance'' (cpLen - 1) ''error'') r)
      else Inr r)"

definition checkCadence3 ::
  "string list \<Rightarrow> string option list \<Rightarrow> string \<Rightarrow> string \<Rightarrow> string \<Rightarrow> int \<Rightarrow> results \<Rightarrow> error + results" where
  "checkCadence3 cf cp ky md cpPos cpLen r =
     (if cpLen < 5 then Inr r
      else
        (let penultimateBeat4Idx = cpLen - 2; penultimateBeat4Note = cp_at cp penultimateBeat4Idx in
         if penultimateBeat4Note = Null then Inr r
         else
           ebind (getDegree penultimateBeat4Note ky md) (\<lambda>degree.
           if cpPos = ''upper''
           then (if degree \<noteq> Some 7
                 then report_warning
                        (issue_at ''cadence-third-species'' penultimateBeat4Idx ''warning'')
                        penultimateBeat4Idx r
                 else Inr r)
           else (if degree \<noteq> Some 2 \<and> degree \<noteq> Some 5 \<and> degree \<noteq> Some 7
                 then report_warning
                        (issue_at ''cadence-third-species'' penultimateBeat4Idx ''warning'')
                        penultimateBeat4Idx r
                 else Inr r))))"

text \<open>
  \<open>checkNoteRepetition\<close> of the third species: the loop state holds \<open>repeatCount\<close>
  next to the results; the warning is pushed on \<open>results.warnings\<close> only.
\<close>

definition checkNoteRepetition3 :: "entry list \<Rightarrow> results \<Rightarrow> error + results" where
  "checkNoteRepetition3 sounding r =
     (let n = int (length sounding) in
      if n < 3 then Inr r
      else
        ebind (forEach [1..n - 1] (\<lambda>i (repeatCount, r1).
                 ebind (entry_at sounding i) (\<lambda>curr.
                 ebind (entry_at sounding (i - 1)) (\<lambda>prev.
                 ebind (toMidi (Str (e_note curr))) (\<lambda>mc.
                 ebind (toMidi (Str (e_note prev))) (\<lambda>mp.
                 if mc = mp
                 then (if repeatCount + 1 \<ge> 3
                       then Inr (repeatCount + 1,
                                 push_warning (issue_at ''note-repetition'' (e_index curr) ''warning'') r1)
                       else Inr (repeatCount + 1, r1))
                 else Inr (1, r1))))))
               (1::int, r))
          (\<lambda>(repeatCount, r1). Inr r1))"

definition calculateScore3 :: "results \<Rightarrow> int" where
  "calculateScore3 r =
     max 0 (100 - int (length (errors r)) * 8 - int (length (warnings r)) * 3
              - int (length (suggestions r)))"

text \<open>The bodies of the two loops of \<open>validate\<close>.\<close>

definition validate3_note ::
  "string list \<Rightarrow> string option list \<Rightarrow> string \<Rightarrow> int \<Rightarrow> int \<Rightarrow> results \<Rightarrow> error + results" where
  "validate3_note cf cp cpPos cpLen i r =
     (let cpn = cp_at cp i in
      if cpn = Null then Inr r
      else
        (let cfNote = getCFNote3 i cf in
         ebind (vertical cpPos cfNote cpn) (\<lambda>iv.
         ebind (if isDownbeat3 i cpLen
                then ebind (checkDownbeatConsonance3 iv i r) (checkUnison3 iv i cpLen cp)
                else Inr r) (\<lambda>r1.
         ebind (if isSemiStrong3 i cpLen
                then checkBeatThreeConsonance3 iv i cp cf cpPos r1
                else Inr r1) (\<lambda>r2.
         ebind (if isWeakBeat3 i cpLen
                then checkWeakBeatDissonance3 iv i cp cf cpPos r2
                else Inr r2) (\<lambda>r3.
         checkVoiceCrossing cfNote cpn cpPos i r3))))))"

definition validate3_melodic :: "entry list \<Rightarrow> int \<Rightarrow> results \<Rightarrow> error + results" where
  "validate3_melodic sounding si r =
     ebind (entry_at sounding (si - 1)) (\<lambda>prevEntry.
     ebind (entry_at sounding si) (\<lambda>currEntry.
     checkMelodicTritone (Str (e_note prevEntry)) (Str (e_note currEntry)) (e_index currEntry) r))"

definition validate3_checks :: "exercise \<Rightarrow> error + results" where
  "validate3_checks ex =
     (let cf = cantusFirmus ex; cp = counterpoint ex; ky = key ex; md = mode_of ex;
          cpPos = cpPosition_of ex; cpLen = int (length cp);
          r0 = init_noteResults (length cp) initial_results;
          sounding = getSoundingNotes cp;
          soundingNotes = map e_note sounding;
          downbeats = getDownbeatIndices3 cpLen
      in
      ebind (checkAnacrusis3 cp cpLen r0) (\<lambda>r1.
      ebind (forEach [0..cpLen - 1] (validate3_note cf cp cpPos cpLen) r1) (\<lambda>r2.
      ebind (forEach [1..int (length sounding) - 1] (validate3_melodic sounding) r2) (\<lambda>r3.
      ebind (pairParallels downbeats getCFNote3 cf cp cpPos r3) (\<lambda>r4.
      ebind (pairHiddenParallels downbeats getCFNote3 cf cp cpPos r4) (\<lambda>r5.
      ebind (pairMotion downbeats getCFNote3 cf cp cpPos r5) (\<lambda>r6.
      ebind (checkStartInterval3 cf cp cpPos r6) (\<lambda>r7.
      ebind (endInterval getCFNote3 cf cp cpPos cpLen r7) (\<lambda>r8.
      ebind (checkLastNoteWhole3 cpLen r8) (\<lambda>r9.
      ebind (checkCadence3 cf cp ky md cpPos cpLen r9) (\<lambda>r10.
      ebind (checkCompoundTritonesS soundingNotes sounding ky md r10) (\<lambda>r11.
      ebind (checkProlongedDirectionS 11 soundingNotes sounding r11) (\<lambda>r12.
      ebind (checkArpeggiosS soundingNotes sounding ky md r12) (\<lambda>r13.
      checkNoteRepetition3 sounding r13))))))))))))))"

definition validate3 :: "exercise \<Rightarrow> error + results" where
  "validate3 ex =
     (if int (length (counterpoint ex)) \<noteq> int (length (cantusFirmus ex)) * 4 - 3
      then Inr length_error
      else ebind (validate3_checks ex) (\<lambda>r.
             Inr (r\<lparr>score := calculateScore3 r, valid := (errors r = [])\<rparr>)))"


section \<open>Predicates on results used in the statements\<close>

text \<open>All issues of a result, over its three lists.\<close>

definition all_issues :: "results \<Rightarrow> issue list" where
  "all_issues r = errors r @ warnings r @ suggestions r"

text \<open>
  An issue is attached when it has a position inside \<open>noteResults\<close> and appears in the
  \<open>issues\<close> of the entry at that position.
\<close>

definition attached :: "results \<Rightarrow> issue \<Rightarrow> bool" where
  "attached r x \<longleftrightarrow>
     (\<exists>p. position x = Some p \<and> 0 \<le> p \<and> p < int (length (noteResults r))
          \<and> x \<in> set (issues (noteResults r ! nat p)))"

text \<open>The issue that \<open>checkRange\<close> pushes.\<close>

definition range_issue :: issue where
  "range_issue = \<lparr>rule = ''range'', position = Some (-1), severity = ''warning''\<rparr>"

text \<open>
  The rules of the global checks, which push on a list of the result only: in the first
  and second species, and in the third.
\<close>

definition global_rules12 :: "string set" where
  "global_rules12 = {''compound-tritone'', ''compound-dissonant-leap'', ''battuta-fifths'',
     ''battuta-octaves'', ''prolonged-direction'', ''arpeggio'', ''excessive-parallels''}"

definition global_rules3 :: "string set" where
  "global_rules3 = {''compound-tritone'', ''prolonged-direction'', ''arpeggio'', ''note-repetition''}"

text \<open>
  \<open>adds R G r r'\<close>: the result \<open>r'\<close> extends \<open>r\<close>. The entries of \<open>noteResults\<close>
  keep their issues, and every issue appended to a list has its rule in \<open>R\<close> and is
  attached unless its rule is in \<open>G\<close>.
\<close>

definition adds :: "string set \<Rightarrow> string set \<Rightarrow> results \<Rightarrow> results \<Rightarrow> bool" where
  "adds R G r r' \<longleftrightarrow>
     length (noteResults r') = length (noteResults r)
     \<and> (\<forall>p < length (noteResults r).
           set (issues (noteResults r ! p)) \<subseteq> set (issues (noteResults r' ! p)))
     \<and> (\<exists>es. errors r' = errors r @ es \<and> (\<forall>x \<in> set es. rule x \<in> R \<and> (rule x \<in> G \<or> attached r' x)))
     \<and> (\<exists>ws. warnings r' = warnings r @ ws \<and> (\<forall>x \<in> set ws. rule x \<in> R \<and> (rule x \<in> G \<or> attached r' x)))
     \<and> (\<exists>ss. suggestions r' = suggestions r @ ss \<and> (\<forall>x \<in> set ss. rule x \<in> R \<and> (rule x \<in> G \<or> attached r' x)))"

text \<open>
  \<open>linked G r\<close>: every issue of \<open>r\<close> is attached, unless its rule is in \<open>G\<close> or its
  position is \<open>-1\<close>.
\<close>

definition linked :: "string set \<Rightarrow> results \<Rightarrow> bool" where
  "linked G r \<longleftrightarrow>
     (\<forall>x \<in> set (all_issues r). rule x \<in> G \<or> position x = Some (-1) \<or> attached r x)"


section \<open>Sample exercises\<close>

text \<open>
  Concrete exercises at which the theorems below are evaluated, with the result the
  validator returns on each. All are in C major.
\<close>

text \<open>First species, lower counterpoint C3 G3 C3 under C4 D4 C4.\<close>

definition sample_first_lower :: exercise where
  "sample_first_lower =
     \<lparr>cantusFirmus = [''C4'', ''D4'', ''C4''],
      counterpoint = [Some ''C3'', Some ''G3'', Some ''C3''],
      key = ''C'', mode = None, cpPosition = Some ''lower''\<rparr>"

definition sample_first_lower_result :: results where
  "sample_first_lower_result =
     \<lparr>valid = True, score = 86, errors = [],
      warnings = [issue_at ''hidden-fifths'' 1 ''warning'', issue_at ''cadence'' 1 ''warning''],
      suggestions = [issue_at ''motion-type'' 1 ''suggestion'', issue_at ''stepwise'' 1 ''suggestion'',
                     issue_at ''motion-type'' 2 ''suggestion'', issue_at ''stepwise'' 2 ''suggestion''],
      noteResults =
        [\<lparr>n_valid = True, issues = []\<rparr>,
         \<lparr>n_valid = True,
            issues = [issue_at ''hidden-fifths'' 1 ''warning'', issue_at ''motion-type'' 1 ''suggestion'',
                      issue_at ''stepwise'' 1 ''suggestion'', issue_at ''cadence'' 1 ''warning'']\<rparr>,
         \<lparr>n_valid = True,
            issues = [issue_at ''motion-type'' 2 ''suggestion'', issue_at ''stepwise'' 2 ''suggestion'']\<rparr>]\<rparr>"

text \<open>First species, upper counterpoint F5 E5 B4 C5 over F4 G4 A4 C4.\<close>

definition sample_first_tritone :: exercise where
  "sample_first_tritone =
     \<lparr>cantusFirmus = [''F4'', ''G4'', ''A4'', ''C4''],
      counterpoint = [Some ''F5'', Some ''E5'', Some ''B4'', Some ''C5''],
      key = ''C'', mode = None, cpPosition = Some ''upper''\<rparr>"

definition sample_first_tritone_result :: results where
  "sample_first_tritone_result =
     \<lparr>valid = False, score = 79,
      errors = [issue_at ''consonance'' 2 ''error''],
      warnings = [issue_at ''compound-tritone'' 0 ''warning''],
      suggestions = [issue_at ''stepwise'' 2 ''suggestion''],
      noteResults =
        [\<lparr>n_valid = True, issues = []\<rparr>, \<lparr>n_valid = True, issues = []\<rparr>,
         \<lparr>n_valid = False,
            issues = [issue_at ''consonance'' 2 ''error'', issue_at ''stepwise'' 2 ''suggestion'']\<rparr>,
         \<lparr>n_valid = True, issues = []\<rparr>]\<rparr>"

text \<open>First species, upper counterpoint C4 C6 C5 over C4 D4 C4: a range of two octaves.\<close>

definition sample_first_wide :: exercise where
  "sample_first_wide =
     \<lparr>cantusFirmus = [''C4'', ''D4'', ''C4''],
      counterpoint = [Some ''C4'', Some ''C6'', Some ''C5''],
      key = ''C'', mode = None, cpPosition = Some ''upper''\<rparr>"

definition sample_first_wide_result :: results where
  "sample_first_wide_result =
     \<lparr>valid = False, score = 73,
      errors = [issue_at ''consonance'' 1 ''error''],
      warnings = [issue_at ''leading-tone'' 1 ''warning'', range_issue],
      suggestions = [issue_at ''motion-type'' 1 ''suggestion'', issue_at ''motion-type'' 2 ''suggestion''],
      noteResults =
        [\<lparr>n_valid = True, issues = []\<rparr>,
         \<lparr>n_valid = False,
            issues = [issue_at ''consonance'' 1 ''error'', issue_at ''motion-type'' 1 ''suggestion'',
                      issue_at ''leading-tone'' 1 ''warning'']\<rparr>,
         \<lparr>n_valid = True, issues = [issue_at ''motion-type'' 2 ''suggestion'']\<rparr>]\<rparr>"

text \<open>Second species, upper counterpoint E4 D4 F4 over C4 D4.\<close>

definition sample_second :: exercise where
  "sample_second =
     \<lparr>cantusFirmus = [''C4'', ''D4''],
      counterpoint = [Some ''E4'', Some ''D4'', Some ''F4''],
      key = ''C'', mode = None, cpPosition = Some ''upper''\<rparr>"

definition sample_second_result :: results where
  "sample_second_result =
     \<lparr>valid = False, score = 64,
      errors = [issue_at ''passing-tone'' 1 ''error'', issue_at ''start-consonance'' 0 ''error'',
                issue_at ''end-consonance'' 2 ''error''],
      warnings = [issue_at ''cadence-second-species'' 1 ''warning''],
      suggestions = [issue_at ''motion-type'' 2 ''suggestion'',
                     issue_at ''cadence-second-species'' 0 ''suggestion''],
      noteResults =
        [\<lparr>n_valid = False,
            issues = [issue_at ''start-consonance'' 0 ''error'',
                      issue_at ''cadence-second-species'' 0 ''suggestion'']\<rparr>,
         \<lparr>n_valid = False,
            issues = [issue_at ''passing-tone'' 1 ''error'',
                      issue_at ''cadence-second-species'' 1 ''warning'']\<rparr>,
         \<lparr>n_valid = False,
            issues = [issue_at ''motion-type'' 2 ''suggestion'',
                      issue_at ''end-consonance'' 2 ''error'']\<rparr>]\<rparr>"

text \<open>Third species, upper counterpoint C4 G4 E5 C6 C5 over C4 C4: a range of two octaves.\<close>

definition sample_third_wide :: exercise where
  "sample_third_wide =
     \<lparr>cantusFirmus = [''C4'', ''C4''],
      counterpoint = [Some ''C4'', Some ''G4'', Some ''E5'', Some ''C6'', Some ''C5''],
      key = ''C'', mode = None, cpPosition = None\<rparr>"

definition sample_third_wide_result :: results where
  "sample_third_wide_result =
     \<lparr>valid = True, score = 95, errors = [],
      warnings = [issue_at ''cadence-third-species'' 3 ''warning''],
      suggestions = [issue_at ''arpeggio'' 0 ''suggestion'', issue_at ''arpeggio'' 1 ''suggestion''],
      noteResults =
        [\<lparr>n_valid = True, issues = []\<rparr>, \<lparr>n_valid = True, issues = []\<rparr>,
         \<lparr>n_valid = True, issues = []\<rparr>,
         \<lparr>n_valid = True, issues = [issue_at ''cadence-third-species'' 3 ''warning'']\<rparr>,
         \<lparr>n_valid = True, issues = []\<rparr>]\<rparr>"

text \<open>An exercise whose lengths fit no species: one counterpoint note over C4 D4.\<close>

definition sample_short :: exercise where
  "sample_short =
     \<lparr>cantusFirmus = [''C4'', ''D4''], counterpoint = [Some ''G4''],
      key = ''C'', mode = None, cpPosition = Some ''upper''\<rparr>"


section \<open>Facts about the exception monad\<close>

lemma ebind_Inr [simp]: "ebind (Inr x) f = f x"
  by (simp add: ebind_def)

lemma ebind_Inl [simp]: "ebind (Inl e) f = Inl e"
  by (simp add: ebind_def)

lemma ebind_Inr_iff: "ebind m f = Inr y \<longleftrightarrow> (\<exists>x. m = Inr x \<and> f x = Inr y)"
  by (cases m) simp_all

section \<open>Round trip between semitone indices and note names\<close>

lemma lt10_cases:
  "d < (10::nat) \<Longrightarrow> d = 0 \<or> d = 1 \<or> d = 2 \<or> d = 3 \<or> d = 4 \<or> d = 5 \<or> d = 6 \<or> d = 7 \<or> d = 8 \<or> d = 9"
  by arith

lemma lt12_cases:
  "k < (12::nat) \<Longrightarrow> k = 0 \<or> k = 1 \<or> k = 2 \<or> k = 3 \<or> k = 4 \<or> k = 5 \<or> k = 6 \<or> k = 7
     \<or> k = 8 \<or> k = 9 \<or> k = 10 \<or> k = 11"
  by arith

lemma digit_char_is_digit: "d < 10 \<Longrightarrow> is_digit (digit_char d)"
  using lt10_cases [of d] by (elim disjE | simp add: is_digit_def digit_char_def)+

lemma parseInt_digit_char: "d < 10 \<Longrightarrow> parseInt (digit_char d) = int d"
  using lt10_cases [of d] by (elim disjE | simp add: parseInt_def digit_char_def)+

lemma toMidi_note_name:
  assumes "k < 12" and "d < 10"
  shows "toMidi (Str (NOTE_NAMES ! k @ [digit_char d])) = Inr ((int d + 1) * 12 + int k)"
proof -
  note dg = digit_char_is_digit [OF assms(2)] parseInt_digit_char [OF assms(2)]
  show ?thesis
    using lt12_cases [OF assms(1)]
    by (elim disjE)
      (simp_all add: dg toMidi_def parse_def ebind_def NOTE_NAMES_def ENHARMONICS_def Let_def
        is_letter_def toUpperCase_def)
qed

lemma fromMidi_in_range:
  assumes "12 \<le> i" and "i \<le> 127"
  shows "fromMidi i = NOTE_NAMES ! nat (i mod 12) @ [digit_char (nat (i div 12 - 1))]"
proof -
  have r: "jsrem i 12 = i mod 12" using assms by (simp add: jsrem_def)
  have n: "0 \<le> i mod 12" "i mod 12 < 12" by simp_all
  have o: "0 \<le> i div 12 - 1" "i div 12 - 1 < 10" using assms by linarith+
  have s: "show_int (i div 12 - 1) = [digit_char (nat (i div 12 - 1))]"
    using o by (simp add: show_int_def show_nat.simps)
  show ?thesis
    using n by (simp add: fromMidi_def r s at_def NOTE_NAMES_def Let_def)
qed




section \<open>Classification of dissonances in third species\<close>

lemma beat_roles_disjoint:
  "isSemiStrong3 i n \<Longrightarrow> \<not> isDownbeat3 i n"
  "isWeakBeat3 i n \<Longrightarrow> \<not> isDownbeat3 i n \<and> \<not> isSemiStrong3 i n"
  by (auto simp: isSemiStrong3_def isDownbeat3_def isWeakBeat3_def Let_def)



section \<open>Formula detectors and octave-reduced intervals\<close>

text \<open>
  C3. The claim: the passing-tone detector accepts a weak-beat note if and only if its
  neighbours are sounding notes, the approach and the departure are generic intervals
  of at most a second, both moves go in the same non-zero direction, and both
  neighbours are consonant with their cantus-firmus notes. The detector compares the
  octave-reduced number \<open>simple.generic\<close>, not the generic interval, with 2: it
  accepts D5 between C4 and E5 over the cantus firmus C4 C4, where the approach
  C4 to D5 is a generic ninth (\<open>Pitch.genericInterval\<close> is 9). This holds for the
  second-species and for the third-species detector.
\<close>

theorem C3_passing_tone_accepts_ninth:
  "isPassingTone2 1 [Some ''C4'', Some ''D5'', Some ''E5''] [''C4'', ''C4''] ''upper''
     = Inr \<lparr>v_valid = True, v_reason = ValidPassing\<rparr>
   \<and> isPassingTone3 1 [Some ''C4'', Some ''D5'', Some ''E5'', Some ''F5'', Some ''E5'']
        [''C4'', ''C4''] ''upper''
     = Inr \<lparr>v_valid = True, v_reason = ValidPassing\<rparr>
   \<and> isWeakBeat2 1 3 \<and> isWeakBeat3 1 5
   \<and> genericInterval (Str ''C4'') (Str ''D5'') = Inr 9
   \<and> \<not> (9 \<le> (2::int))"
  by code_simp

text \<open>
  C4. The claim: a position is accepted as a cambiata member if and only if some window
  of five sounding notes holding it as second, third or fourth note moves by a generic
  second, a generic third in the same direction, and two generic seconds in the
  opposite direction, with consonant first and last notes and no tritone on the last.
  The detector again compares \<open>simple.generic\<close>: over the cantus firmus C4 G3 it
  accepts D4 in the upper counterpoint E5 D4 B3 C4 D4 as the second note of a cambiata
  whose first motion E5 to D4 is a generic ninth.
\<close>

theorem C4_cambiata_accepts_ninth:
  "isCambiata 1 [Some ''E5'', Some ''D4'', Some ''B3'', Some ''C4'', Some ''D4'']
       [''C4'', ''G3''] ''upper''
     = Inr \<lparr>cam_valid = True, cam_reason = CambiataNote 2, notePosition = Some 2\<rparr>
   \<and> checkCambiataAt 0 [Some ''E5'', Some ''D4'', Some ''B3'', Some ''C4'', Some ''D4'']
       [''C4'', ''G3''] ''upper'' 5 = Inr True
   \<and> genericInterval (Str ''E5'') (Str ''D4'') = Inr 9
   \<and> \<not> (9 = (2::int))"
  by code_simp

text \<open>
  The accepted window read from the result: D4 is taken as note 2 of a cambiata that
  starts with the generic ninth E5 to D4.
\<close>

theorem C4_cambiata_accepts_ninth_witness:
  "isCambiata 1 [Some ''E5'', Some ''D4'', Some ''B3'', Some ''C4'', Some ''D4'']
       [''C4'', ''G3''] ''upper''
     = Inr \<lparr>cam_valid = True, cam_reason = CambiataNote 2, notePosition = Some 2\<rparr>
   \<and> genericInterval (Str ''E5'') (Str ''D4'') = Inr 9"
  using C4_cambiata_accepts_ninth by simp


section \<open>Results only grow\<close>

text \<open>
  Every check returns a result that extends the one it was given: \<open>adds\<close> is
  reflexive and transitive, and holds across each push, each report at a position and
  each loop whose body has it.
\<close>

lemma adds_refl [simp]: "adds R G r r"
  by (simp add: adds_def)

lemma attached_mono:
  assumes "attached r x" and "length (noteResults r') = length (noteResults r)"
    and "\<forall>p < length (noteResults r). set (issues (noteResults r ! p)) \<subseteq> set (issues (noteResults r' ! p))"
  shows "attached r' x"
proof -
  from assms(1) obtain p where p: "position x = Some p" "0 \<le> p" "p < int (length (noteResults r))"
    "x \<in> set (issues (noteResults r ! nat p))" by (auto simp: attached_def)
  then have "nat p < length (noteResults r)" by linarith
  with assms(3) p(4) have "x \<in> set (issues (noteResults r' ! nat p))" by blast
  with p assms(2) show ?thesis by (auto simp: attached_def)
qed

lemma adds_trans:
  assumes "adds R G r r'" and "adds R G r' r''"
  shows "adds R G r r''"
proof -
  from assms(1) obtain es ws ss where 1:
    "length (noteResults r') = length (noteResults r)"
    "\<forall>p < length (noteResults r). set (issues (noteResults r ! p)) \<subseteq> set (issues (noteResults r' ! p))"
    "errors r' = errors r @ es" "\<forall>x \<in> set es. rule x \<in> R \<and> (rule x \<in> G \<or> attached r' x)"
    "warnings r' = warnings r @ ws" "\<forall>x \<in> set ws. rule x \<in> R \<and> (rule x \<in> G \<or> attached r' x)"
    "suggestions r' = suggestions r @ ss" "\<forall>x \<in> set ss. rule x \<in> R \<and> (rule x \<in> G \<or> attached r' x)"
    unfolding adds_def by blast
  from assms(2) obtain es' ws' ss' where 2:
    "length (noteResults r'') = length (noteResults r')"
    "\<forall>p < length (noteResults r'). set (issues (noteResults r' ! p)) \<subseteq> set (issues (noteResults r'' ! p))"
    "errors r'' = errors r' @ es'" "\<forall>x \<in> set es'. rule x \<in> R \<and> (rule x \<in> G \<or> attached r'' x)"
    "warnings r'' = warnings r' @ ws'" "\<forall>x \<in> set ws'. rule x \<in> R \<and> (rule x \<in> G \<or> attached r'' x)"
    "suggestions r'' = suggestions r' @ ss'" "\<forall>x \<in> set ss'. rule x \<in> R \<and> (rule x \<in> G \<or> attached r'' x)"
    unfolding adds_def by blast
  have up: "attached r' x \<Longrightarrow> attached r'' x" for x
    using attached_mono [OF _ 2(1) 2(2)] by blast
  have a: "length (noteResults r'') = length (noteResults r)" using 1(1) 2(1) by simp
  have b: "\<forall>p < length (noteResults r). set (issues (noteResults r ! p)) \<subseteq> set (issues (noteResults r'' ! p))"
    using 1(1) 1(2) 2(2) by (metis subset_trans)
  have e: "errors r'' = errors r @ (es @ es')" using 1(3) 2(3) by simp
  have e': "\<forall>x \<in> set (es @ es'). rule x \<in> R \<and> (rule x \<in> G \<or> attached r'' x)"
    using 1(4) 2(4) up by auto
  have w: "warnings r'' = warnings r @ (ws @ ws')" using 1(5) 2(5) by simp
  have w': "\<forall>x \<in> set (ws @ ws'). rule x \<in> R \<and> (rule x \<in> G \<or> attached r'' x)"
    using 1(6) 2(6) up by auto
  have s: "suggestions r'' = suggestions r @ (ss @ ss')" using 1(7) 2(7) by simp
  have s': "\<forall>x \<in> set (ss @ ss'). rule x \<in> R \<and> (rule x \<in> G \<or> attached r'' x)"
    using 1(8) 2(8) up by auto
  show ?thesis unfolding adds_def using a b e e' w w' s s' by blast
qed

lemma push_error_adds:
  "rule x \<in> R \<Longrightarrow> rule x \<in> G \<Longrightarrow> adds R G r (push_error x r)"
  by (simp add: adds_def push_error_def)

lemma push_warning_adds:
  "rule x \<in> R \<Longrightarrow> rule x \<in> G \<Longrightarrow> adds R G r (push_warning x r)"
  by (simp add: adds_def push_warning_def)

lemma push_suggestion_adds:
  "rule x \<in> R \<Longrightarrow> rule x \<in> G \<Longrightarrow> adds R G r (push_suggestion x r)"
  by (simp add: adds_def push_suggestion_def)

lemma report_error_adds:
  assumes "report_error x p r = Inr r'" and "rule x \<in> R" and "position x = Some p"
  shows "adds R G r r'"
proof -
  from assms(1) have rng: "0 \<le> p" "p < int (length (noteResults r))"
    by (auto simp: report_error_def set_invalid_def push_error_def ebind_Inr_iff split: if_splits)
  then have n: "nat p < length (noteResults r)" by linarith
  from assms(1) rng have r': "r' = r\<lparr>errors := errors r @ [x],
      noteResults := (noteResults r)[nat p :=
        (noteResults r ! nat p)\<lparr>n_valid := False, issues := issues (noteResults r ! nat p) @ [x]\<rparr>]\<rparr>"
    by (auto simp: report_error_def set_invalid_def attach_def push_error_def ebind_Inr_iff)
  have att: "attached r' x"
    using rng n assms(3) by (simp add: attached_def r')
  have mono: "\<forall>q < length (noteResults r).
      set (issues (noteResults r ! q)) \<subseteq> set (issues (noteResults r' ! q))"
    using n by (auto simp: r' nth_list_update)
  show ?thesis
    unfolding adds_def using att mono assms(2) by (simp add: r')
qed

lemma report_warning_adds:
  assumes "report_warning x p r = Inr r'" and "rule x \<in> R" and "position x = Some p"
  shows "adds R G r r'"
proof -
  from assms(1) have rng: "0 \<le> p" "p < int (length (noteResults r))"
    by (auto simp: report_warning_def attach_def push_warning_def split: if_splits)
  then have n: "nat p < length (noteResults r)" by linarith
  from assms(1) rng have r': "r' = r\<lparr>warnings := warnings r @ [x],
      noteResults := (noteResults r)[nat p :=
        (noteResults r ! nat p)\<lparr>issues := issues (noteResults r ! nat p) @ [x]\<rparr>]\<rparr>"
    by (auto simp: report_warning_def attach_def push_warning_def)
  have att: "attached r' x"
    using rng n assms(3) by (simp add: attached_def r')
  have mono: "\<forall>q < length (noteResults r).
      set (issues (noteResults r ! q)) \<subseteq> set (issues (noteResults r' ! q))"
    using n by (auto simp: r' nth_list_update)
  show ?thesis
    unfolding adds_def using att mono assms(2) by (simp add: r')
qed

lemma report_suggestion_adds:
  assumes "report_suggestion x p r = Inr r'" and "rule x \<in> R" and "position x = Some p"
  shows "adds R G r r'"
proof -
  from assms(1) have rng: "0 \<le> p" "p < int (length (noteResults r))"
    by (auto simp: report_suggestion_def attach_def push_suggestion_def split: if_splits)
  then have n: "nat p < length (noteResults r)" by linarith
  from assms(1) rng have r': "r' = r\<lparr>suggestions := suggestions r @ [x],
      noteResults := (noteResults r)[nat p :=
        (noteResults r ! nat p)\<lparr>issues := issues (noteResults r ! nat p) @ [x]\<rparr>]\<rparr>"
    by (auto simp: report_suggestion_def attach_def push_suggestion_def)
  have att: "attached r' x"
    using rng n assms(3) by (simp add: attached_def r')
  have mono: "\<forall>q < length (noteResults r).
      set (issues (noteResults r ! q)) \<subseteq> set (issues (noteResults r' ! q))"
    using n by (auto simp: r' nth_list_update)
  show ?thesis
    unfolding adds_def using att mono assms(2) by (simp add: r')
qed

lemma forEach_adds:
  assumes "\<And>x s s'. x \<in> set xs \<Longrightarrow> body x s = Inr s' \<Longrightarrow> adds R G (prj s) (prj s')"
    and "forEach xs body s = Inr s'"
  shows "adds R G (prj s) (prj s')"
  using assms
proof (induction xs arbitrary: s)
  case Nil
  then show ?case by simp
next
  case (Cons x xs)
  from Cons.prems(2) obtain s1 where s1: "body x s = Inr s1" "forEach xs body s1 = Inr s'"
    by (auto simp: ebind_Inr_iff)
  have a: "adds R G (prj s) (prj s1)"
    by (rule Cons.prems(1) [OF _ s1(1)]) simp
  have b: "adds R G (prj s1) (prj s')"
    by (rule Cons.IH [OF _ s1(2)]) (rule Cons.prems(1), simp_all)
  show ?case using adds_trans [OF a b] .
qed

lemma forEachBreak_adds:
  assumes "\<And>x s b s'. x \<in> set xs \<Longrightarrow> body x s = Inr (b, s') \<Longrightarrow> adds R G s s'"
    and "forEachBreak xs body s = Inr s'"
  shows "adds R G s s'"
  using assms
proof (induction xs arbitrary: s)
  case Nil
  then show ?case by simp
next
  case (Cons x xs)
  from Cons.prems(2) obtain b s1 where s1: "body x s = Inr (b, s1)"
    "(if b then Inr s1 else forEachBreak xs body s1) = Inr s'"
    by (auto simp: ebind_Inr_iff)
  have a: "adds R G s s1"
    by (rule Cons.prems(1) [OF _ s1(1)]) simp
  show ?case
  proof (cases b)
    case True
    with s1(2) a show ?thesis by simp
  next
    case False
    with s1(2) have "forEachBreak xs body s1 = Inr s'" by simp
    then have "adds R G s1 s'"
      by (rule Cons.IH [rotated]) (rule Cons.prems(1), simp_all)
    with a show ?thesis using adds_trans by blast
  qed
qed

lemma issue_at_simps [simp]:
  "rule (issue_at rl p sev) = rl" "position (issue_at rl p sev) = Some p"
  "severity (issue_at rl p sev) = sev"
  by (simp_all add: issue_at_def)

lemma report_error_at:
  "report_error (issue_at rl p sev) p r = Inr r' \<Longrightarrow> rl \<in> R \<Longrightarrow> adds R G r r'"
  by (erule report_error_adds) simp_all

lemma report_warning_at:
  "report_warning (issue_at rl p sev) p r = Inr r' \<Longrightarrow> rl \<in> R \<Longrightarrow> adds R G r r'"
  by (erule report_warning_adds) simp_all

lemma report_suggestion_at:
  "report_suggestion (issue_at rl p sev) p r = Inr r' \<Longrightarrow> rl \<in> R \<Longrightarrow> adds R G r r'"
  by (erule report_suggestion_adds) simp_all

lemma push_error_at:
  "rl \<in> R \<Longrightarrow> rl \<in> G \<Longrightarrow> adds R G r (push_error (issue_at rl p sev) r)"
  by (rule push_error_adds) simp_all

lemma push_warning_at:
  "rl \<in> R \<Longrightarrow> rl \<in> G \<Longrightarrow> adds R G r (push_warning (issue_at rl p sev) r)"
  by (rule push_warning_adds) simp_all

lemma push_suggestion_at:
  "rl \<in> R \<Longrightarrow> rl \<in> G \<Longrightarrow> adds R G r (push_suggestion (issue_at rl p sev) r)"
  by (rule push_suggestion_adds) simp_all

lemmas adds_intros = report_error_at report_warning_at report_suggestion_at
  push_error_at push_warning_at push_suggestion_at adds_refl adds_trans

lemma adds_bind:
  "ebind m g = Inr r' \<Longrightarrow> (\<And>r1. m = Inr r1 \<Longrightarrow> adds R G r r1)
   \<Longrightarrow> (\<And>r1. g r1 = Inr r' \<Longrightarrow> adds R G r1 r') \<Longrightarrow> adds R G r r'"
  by (auto simp: ebind_Inr_iff intro: adds_trans)

lemma ebind_InrE:
  "ebind m g = Inr y \<Longrightarrow> (\<And>v. g v = Inr y \<Longrightarrow> P) \<Longrightarrow> P"
  by (auto simp: ebind_Inr_iff)

lemma if_InrE:
  "(if c then a else b) = Inr y \<Longrightarrow> (c \<Longrightarrow> a = Inr y \<Longrightarrow> P) \<Longrightarrow> (\<not> c \<Longrightarrow> b = Inr y \<Longrightarrow> P) \<Longrightarrow> P"
  by (auto split: if_splits)

lemma forEach_addsE:
  "forEach xs body r = Inr r' \<Longrightarrow> (\<And>x s s'. body x s = Inr s' \<Longrightarrow> adds R G s s')
   \<Longrightarrow> adds R G r r'"
  using forEach_adds [where prj = "\<lambda>s. s"] by metis

lemma forEachBreak_addsE:
  "forEachBreak xs body r = Inr r' \<Longrightarrow> (\<And>x s b s'. body x s = Inr (b, s') \<Longrightarrow> adds R G s s')
   \<Longrightarrow> adds R G r r'"
  using forEachBreak_adds by metis

lemmas adds_elims = adds_bind ebind_InrE if_InrE forEach_addsE forEachBreak_addsE
lemmas report_ats = report_error_at report_warning_at report_suggestion_at

section \<open>The checks of the first species\<close>

lemma checkConsonance1_adds:
  "checkConsonance1 iv p r = Inr r' \<Longrightarrow> ''consonance'' \<in> R \<Longrightarrow> adds R G r r'"
  by (auto simp: checkConsonance1_def split: if_splits; blast intro: adds_intros)

lemma checkUnison1_adds:
  "checkUnison1 iv p len r = Inr r' \<Longrightarrow> ''unison'' \<in> R \<Longrightarrow> adds R G r r'"
  by (auto simp: checkUnison1_def split: if_splits; blast intro: adds_intros)

lemma checkVoiceCrossing_adds:
  "checkVoiceCrossing a b cpPos p r = Inr r' \<Longrightarrow> ''voice-crossing'' \<in> R \<Longrightarrow> adds R G r r'"
  by (auto simp: checkVoiceCrossing_def ebind_Inr_iff Let_def split: if_splits; blast intro: adds_intros)

lemma checkMelodicTritone_adds:
  "checkMelodicTritone a b p r = Inr r' \<Longrightarrow> ''tritone'' \<in> R \<Longrightarrow> adds R G r r'"
  by (auto simp: checkMelodicTritone_def ebind_Inr_iff split: if_splits; blast intro: adds_intros)

lemma checkStepwise_adds:
  "checkStepwise a b p r = Inr r' \<Longrightarrow> ''stepwise'' \<in> R \<Longrightarrow> adds R G r r'"
  by (auto simp: checkStepwise_def ebind_Inr_iff Let_def split: if_splits; blast intro: adds_intros)

lemma analyzeMotion1_adds:
  "analyzeMotion1 a b c d p r = Inr r' \<Longrightarrow> ''motion-type'' \<in> R \<Longrightarrow> adds R G r r'"
  by (auto simp: analyzeMotion1_def ebind_Inr_iff split: if_splits; blast intro: adds_intros)

lemma checkStartInterval1_adds:
  "checkStartInterval1 a b cpPos r = Inr r' \<Longrightarrow> ''start-consonance'' \<in> R \<Longrightarrow> adds R G r r'"
  by (auto simp: checkStartInterval1_def ebind_Inr_iff split: if_splits; blast intro: adds_intros)

lemma checkParallels1_adds:
  "checkParallels1 pi ci a b c d p r = Inr r' \<Longrightarrow>
   ''parallel-fifths'' \<in> R \<Longrightarrow> ''parallel-octaves'' \<in> R \<Longrightarrow> ''hidden-fifths'' \<in> R
   \<Longrightarrow> ''hidden-octaves'' \<in> R \<Longrightarrow> adds R G r r'"
  unfolding checkParallels1_def Let_def
  by (elim adds_elims; (erule report_ats)?; simp)

lemma checkEndInterval1_adds:
  "checkEndInterval1 cf cp ky md cpPos r = Inr r' \<Longrightarrow>
   ''end-consonance'' \<in> R \<Longrightarrow> ''leading-tone'' \<in> R \<Longrightarrow> ''cadence'' \<in> R \<Longrightarrow> adds R G r r'"
  unfolding checkEndInterval1_def Let_def
  by (elim adds_elims; (erule report_ats)?; simp)

lemma checkCompoundTritones1_adds:
  "checkCompoundTritones1 cp ky md r = Inr r' \<Longrightarrow>
   ''compound-tritone'' \<in> R \<Longrightarrow> ''compound-tritone'' \<in> G \<Longrightarrow> adds R G r r'"
  unfolding checkCompoundTritones1_def Let_def
  by (elim adds_elims; (simp add: push_warning_at)?)

lemma checkCompoundDissonantLeaps1_adds:
  "checkCompoundDissonantLeaps1 cp r = Inr r' \<Longrightarrow>
   ''compound-dissonant-leap'' \<in> R \<Longrightarrow> ''compound-dissonant-leap'' \<in> G \<Longrightarrow> adds R G r r'"
  unfolding checkCompoundDissonantLeaps1_def Let_def
  by (elim adds_elims; (auto simp add: push_warning_at)?)

lemma checkBattutaParallels1_adds:
  "checkBattutaParallels1 cf cp cpPos r = Inr r' \<Longrightarrow>
   ''battuta-fifths'' \<in> R \<Longrightarrow> ''battuta-fifths'' \<in> G \<Longrightarrow>
   ''battuta-octaves'' \<in> R \<Longrightarrow> ''battuta-octaves'' \<in> G \<Longrightarrow> adds R G r r'"
  unfolding checkBattutaParallels1_def Let_def
  by (elim adds_elims; (auto simp add: push_warning_at)?)

lemma checkArpeggios1_adds:
  "checkArpeggios1 cp ky md r = Inr r' \<Longrightarrow>
   ''arpeggio'' \<in> R \<Longrightarrow> ''arpeggio'' \<in> G \<Longrightarrow> adds R G r r'"
  unfolding checkArpeggios1_def Let_def
  by (elim adds_elims; (auto simp add: push_suggestion_at)?)

lemma excessive_flush_adds:
  "''excessive-parallels'' \<in> R \<Longrightarrow> ''excessive-parallels'' \<in> G
   \<Longrightarrow> adds R G r (excessive_flush ct cs ts ss r)"
  unfolding excessive_flush_def Let_def
  by (auto intro: adds_trans push_suggestion_at)

lemma checkProlongedDirection1_adds:
  assumes "checkProlongedDirection1 cp r = Inr r'"
    and "''prolonged-direction'' \<in> R" and "''prolonged-direction'' \<in> G"
  shows "adds R G r r'"
proof (cases "int (length cp) < 4")
  case True
  with assms(1) show ?thesis by (simp add: checkProlongedDirection1_def)
next
  case False
  with assms(1) have "ebind (forEach [1..int (length cp) - 1] (\<lambda>i (currentDirection, directionCount, startPosition, r1).
                 ebind (midiSign (cp_at cp (i - 1)) (cp_at cp i)) (\<lambda>dir.
                 if dir = 0 then Inr (currentDirection, directionCount, startPosition, r1)
                 else if dir = currentDirection
                 then Inr (currentDirection, directionCount + 1, startPosition, r1)
                 else Inr (dir, 1, i - 1,
                           if directionCount > 8
                           then push_warning (issue_at ''prolonged-direction'' startPosition ''warning'') r1
                           else r1)))
               (0, 1, 0, r))
          (\<lambda>(currentDirection, directionCount, startPosition, r1).
             if directionCount > (8::int)
             then Inr (push_warning (issue_at ''prolonged-direction'' startPosition ''warning'') r1)
             else Inr r1) = Inr r'"
    (is "ebind (forEach ?xs ?body ?s0) ?fin = _")
    by (simp add: checkProlongedDirection1_def Let_def)
  then obtain st where L: "forEach ?xs ?body ?s0 = Inr st" and F: "?fin st = Inr r'"
    by (auto simp: ebind_Inr_iff)
  have step: "adds R G (snd (snd (snd s))) (snd (snd (snd s')))" if "?body x s = Inr s'" for x s s'
  proof -
    obtain a b c r1 where s: "s = (a, b, c, r1)" by (cases s)
    from that show ?thesis unfolding s
      by (simp, elim ebind_InrE if_InrE) (auto simp: push_warning_at assms(2,3))
  qed
  have "adds R G (snd (snd (snd ?s0))) (snd (snd (snd st)))"
    by (rule forEach_adds [OF step L])
  then have a: "adds R G r (snd (snd (snd st)))" by simp
  have b: "adds R G (snd (snd (snd st))) r'"
  proof -
    obtain a b c r1 where s: "st = (a, b, c, r1)" by (cases st)
    from F show ?thesis unfolding s by (auto simp: push_warning_at assms(2,3) split: if_splits)
  qed
  show ?thesis using adds_trans [OF a b] .
qed

lemma checkExcessiveParallelConsonances1_adds:
  assumes "checkExcessiveParallelConsonances1 cf cp cpPos r = Inr r'"
    and "''excessive-parallels'' \<in> R" and "''excessive-parallels'' \<in> G"
  shows "adds R G r r'"
proof (cases "int (length cf) < 4")
  case True
  with assms(1) show ?thesis by (simp add: checkExcessiveParallelConsonances1_def)
next
  case False
  with assms(1) have "ebind (forEach [0..int (length cf) - 1] (\<lambda>i (consecutiveThirds, consecutiveSixths, thirdsStart, sixthsStart, r1).
                 ebind (vertical cpPos (at cf i) (cp_at cp i)) (\<lambda>iv.
                 (let isThird = (simple_name iv = ''m3'' \<or> simple_name iv = ''M3'');
                      isSixth = (simple_name iv = ''m6'' \<or> simple_name iv = ''M6'')
                  in if isThird
                     then Inr (consecutiveThirds + 1, 0,
                               if consecutiveThirds = 0 then i else thirdsStart, sixthsStart, r1)
                     else if isSixth
                     then Inr (0, consecutiveSixths + 1, thirdsStart,
                               if consecutiveSixths = 0 then i else sixthsStart, r1)
                     else Inr (0, 0, thirdsStart, sixthsStart,
                               excessive_flush consecutiveThirds consecutiveSixths
                                 thirdsStart sixthsStart r1))))
               (0, 0, 0, 0, r))
          (\<lambda>(consecutiveThirds, consecutiveSixths, thirdsStart, sixthsStart, r1).
             Inr (excessive_flush consecutiveThirds consecutiveSixths thirdsStart sixthsStart r1)) = Inr r'"
    (is "ebind (forEach ?xs ?body ?s0) ?fin = _")
    by (simp add: checkExcessiveParallelConsonances1_def Let_def)
  then obtain st where L: "forEach ?xs ?body ?s0 = Inr st" and F: "?fin st = Inr r'"
    by (auto simp: ebind_Inr_iff)
  have step: "adds R G (snd (snd (snd (snd s)))) (snd (snd (snd (snd s'))))"
    if "?body x s = Inr s'" for x s s'
  proof -
    obtain a b c d r1 where s: "s = (a, b, c, d, r1)" by (cases s)
    from that show ?thesis unfolding s
      by (simp add: Let_def, elim ebind_InrE if_InrE)
         (auto simp: excessive_flush_adds assms(2,3))
  qed
  have "adds R G (snd (snd (snd (snd ?s0)))) (snd (snd (snd (snd st))))"
    by (rule forEach_adds [OF step L])
  then have a: "adds R G r (snd (snd (snd (snd st))))" by simp
  have b: "adds R G (snd (snd (snd (snd st)))) r'"
  proof -
    obtain a b c d r1 where s: "st = (a, b, c, d, r1)" by (cases st)
    from F show ?thesis unfolding s by (auto simp: excessive_flush_adds assms(2,3))
  qed
  show ?thesis using adds_trans [OF a b] .
qed

lemma validate1_note_adds:
  "validate1_note cf cp cpPos len i r = Inr r' \<Longrightarrow>
   ''consonance'' \<in> R \<Longrightarrow> ''unison'' \<in> R \<Longrightarrow> ''voice-crossing'' \<in> R \<Longrightarrow>
   ''parallel-fifths'' \<in> R \<Longrightarrow> ''parallel-octaves'' \<in> R \<Longrightarrow> ''hidden-fifths'' \<in> R \<Longrightarrow>
   ''hidden-octaves'' \<in> R \<Longrightarrow> ''tritone'' \<in> R \<Longrightarrow> ''motion-type'' \<in> R \<Longrightarrow> ''stepwise'' \<in> R
   \<Longrightarrow> adds R G r r'"
  unfolding validate1_note_def Let_def
  by (elim adds_elims;
      (erule checkConsonance1_adds checkUnison1_adds checkVoiceCrossing_adds checkParallels1_adds
         checkMelodicTritone_adds analyzeMotion1_adds checkStepwise_adds)?; simp)

section \<open>The checks of the second and third species\<close>

subsection \<open>Checks between strong positions\<close>

lemma pairParallels_adds:
  "pairParallels indices getCF cf cp cpPos r = Inr r' \<Longrightarrow>
   ''parallel-fifths'' \<in> R \<Longrightarrow> ''parallel-octaves'' \<in> R \<Longrightarrow> adds R G r r'"
  unfolding pairParallels_def Let_def
  by (elim adds_elims; (erule report_ats)?; simp)

lemma pairHiddenParallels_adds:
  "pairHiddenParallels indices getCF cf cp cpPos r = Inr r' \<Longrightarrow>
   ''hidden-fifths'' \<in> R \<Longrightarrow> ''hidden-octaves'' \<in> R \<Longrightarrow> adds R G r r'"
  unfolding pairHiddenParallels_def Let_def
  by (elim adds_elims; (erule report_ats)?; simp)

lemma pairMotion_adds:
  "pairMotion indices getCF cf cp cpPos r = Inr r' \<Longrightarrow> ''motion-type'' \<in> R \<Longrightarrow> adds R G r r'"
  unfolding pairMotion_def Let_def
  by (elim adds_elims; (erule report_ats)?; simp)

lemma endInterval_adds:
  "endInterval getCF cf cp cpPos cpLen r = Inr r' \<Longrightarrow> ''end-consonance'' \<in> R \<Longrightarrow> adds R G r r'"
  unfolding endInterval_def Let_def
  by (elim adds_elims; (erule report_ats)?; simp)

subsection \<open>Global melodic checks over the sounding notes\<close>

lemma checkCompoundTritonesS_adds:
  "checkCompoundTritonesS sn sounding ky md r = Inr r' \<Longrightarrow>
   ''compound-tritone'' \<in> R \<Longrightarrow> ''compound-tritone'' \<in> G \<Longrightarrow> adds R G r r'"
  unfolding checkCompoundTritonesS_def Let_def
  by (elim adds_elims; (auto simp add: push_warning_at)?)

lemma checkArpeggiosS_adds:
  "checkArpeggiosS sn sounding ky md r = Inr r' \<Longrightarrow>
   ''arpeggio'' \<in> R \<Longrightarrow> ''arpeggio'' \<in> G \<Longrightarrow> adds R G r r'"
  unfolding checkArpeggiosS_def Let_def
  by (elim adds_elims; (auto simp add: push_suggestion_at)?)

lemma checkProlongedDirectionS_adds:
  assumes "checkProlongedDirectionS threshold sn sounding r = Inr r'"
    and "''prolonged-direction'' \<in> R" and "''prolonged-direction'' \<in> G"
  shows "adds R G r r'"
proof (cases "int (length sn) < 4")
  case True
  with assms(1) show ?thesis by (simp add: checkProlongedDirectionS_def)
next
  case False
  with assms(1) have "ebind (forEach [1..int (length sn) - 1] (\<lambda>i (currentDirection, directionCount, startSoundingIdx, r1).
                 ebind (midiSign (at sn (i - 1)) (at sn i)) (\<lambda>dir.
                 if dir = 0 then Inr (currentDirection, directionCount, startSoundingIdx, r1)
                 else if dir = currentDirection
                 then Inr (currentDirection, directionCount + 1, startSoundingIdx, r1)
                 else
                   ebind (if directionCount > threshold
                          then ebind (index_at sounding startSoundingIdx) (\<lambda>startPos.
                               ebind (index_at sounding (i - 1)) (\<lambda>endPos.
                               Inr (push_warning
                                      (issue_at ''prolonged-direction'' startPos ''warning'') r1)))
                          else Inr r1) (\<lambda>r2. Inr (dir, 1, i - 1, r2))))
               (0, 1, 0, r))
          (\<lambda>(currentDirection, directionCount, startSoundingIdx, r1).
             if directionCount > threshold
             then ebind (index_at sounding startSoundingIdx) (\<lambda>startPos.
                  ebind (index_at sounding (int (length sn) - 1)) (\<lambda>endPos.
                  Inr (push_warning (issue_at ''prolonged-direction'' startPos ''warning'') r1)))
             else Inr r1) = Inr r'"
    (is "ebind (forEach ?xs ?body ?s0) ?fin = _")
    by (simp add: checkProlongedDirectionS_def Let_def)
  then obtain st where L: "forEach ?xs ?body ?s0 = Inr st" and F: "?fin st = Inr r'"
    by (auto simp: ebind_Inr_iff)
  have step: "adds R G (snd (snd (snd s))) (snd (snd (snd s')))" if "?body x s = Inr s'" for x s s'
  proof -
    obtain a b c r1 where s: "s = (a, b, c, r1)" by (cases s)
    from that show ?thesis unfolding s
      by (auto simp: ebind_Inr_iff push_warning_at assms(2,3) split: if_splits)
  qed
  have "adds R G (snd (snd (snd ?s0))) (snd (snd (snd st)))"
    by (rule forEach_adds [OF step L])
  then have a: "adds R G r (snd (snd (snd st)))" by simp
  have b: "adds R G (snd (snd (snd st))) r'"
  proof -
    obtain a b c r1 where s: "st = (a, b, c, r1)" by (cases st)
    from F show ?thesis unfolding s
      by (auto simp: ebind_Inr_iff push_warning_at assms(2,3) split: if_splits)
  qed
  show ?thesis using adds_trans [OF a b] .
qed

subsection \<open>Second species\<close>

lemma checkAnacrusis2_adds:
  "checkAnacrusis2 cp cpLen r = Inr r' \<Longrightarrow> ''anacrusis'' \<in> R \<Longrightarrow> adds R G r r'"
  unfolding checkAnacrusis2_def
  by (elim adds_elims; (erule report_ats)?; simp)

lemma checkStrongBeatConsonance2_adds:
  "checkStrongBeatConsonance2 iv p r = Inr r' \<Longrightarrow> ''consonance'' \<in> R \<Longrightarrow> adds R G r r'"
  unfolding checkStrongBeatConsonance2_def
  by (elim adds_elims; (erule report_ats)?; simp)

lemma checkWeakBeatDissonance2_adds:
  "checkWeakBeatDissonance2 iv p cp cf cpPos r = Inr r' \<Longrightarrow> ''passing-tone'' \<in> R \<Longrightarrow> adds R G r r'"
  unfolding checkWeakBeatDissonance2_def
  by (elim adds_elims; (erule report_ats)?; simp)

lemma checkUnison2_adds:
  "checkUnison2 iv p cpLen cp r = Inr r' \<Longrightarrow> ''unison'' \<in> R \<Longrightarrow> adds R G r r'"
  unfolding checkUnison2_def Let_def
  by (elim adds_elims; (erule report_ats)?; simp)

lemma checkNoteRepetition2_adds:
  "checkNoteRepetition2 pe ce cpLen r = Inr r' \<Longrightarrow> ''note-repetition'' \<in> R \<Longrightarrow> adds R G r r'"
  unfolding checkNoteRepetition2_def
  by (elim adds_elims; (erule report_ats)?; simp)

lemma checkCrossBeatParallels2_adds:
  "checkCrossBeatParallels2 cf cp cpPos cpLen r = Inr r' \<Longrightarrow> ''strong-weak-parallels'' \<in> R
   \<Longrightarrow> adds R G r r'"
  unfolding checkCrossBeatParallels2_def Let_def
  by (elim adds_elims; (erule report_ats)?; simp)

lemma checkStartInterval2_adds:
  "checkStartInterval2 cf cp cpPos r = Inr r' \<Longrightarrow> ''start-consonance'' \<in> R \<Longrightarrow> adds R G r r'"
  unfolding checkStartInterval2_def Let_def
  by (elim adds_elims; (erule report_ats)?; simp)

lemma checkLastNoteWhole2_adds:
  "checkLastNoteWhole2 cpLen r = Inr r' \<Longrightarrow> ''last-note-whole'' \<in> R \<Longrightarrow> adds R G r r'"
  unfolding checkLastNoteWhole2_def
  by (elim adds_elims; (erule report_ats)?; simp)

lemma checkCadence2_adds:
  "checkCadence2 cf cp ky md cpPos cpLen r = Inr r' \<Longrightarrow> ''cadence-second-species'' \<in> R
   \<Longrightarrow> adds R G r r'"
  unfolding checkCadence2_def Let_def
  by (elim adds_elims; (erule report_ats)?; simp)

lemma checkCompoundDissonantLeaps2_adds:
  "checkCompoundDissonantLeaps2 sn sounding r = Inr r' \<Longrightarrow>
   ''compound-dissonant-leap'' \<in> R \<Longrightarrow> ''compound-dissonant-leap'' \<in> G \<Longrightarrow> adds R G r r'"
  unfolding checkCompoundDissonantLeaps2_def Let_def
  by (elim adds_elims; (auto simp add: push_warning_at)?)

lemma checkBattutaParallels2_adds:
  "checkBattutaParallels2 cf cp cpPos cpLen r = Inr r' \<Longrightarrow>
   ''battuta-fifths'' \<in> R \<Longrightarrow> ''battuta-fifths'' \<in> G \<Longrightarrow>
   ''battuta-octaves'' \<in> R \<Longrightarrow> ''battuta-octaves'' \<in> G \<Longrightarrow> adds R G r r'"
  unfolding checkBattutaParallels2_def Let_def
  by (elim adds_elims; (auto simp add: push_warning_at)?)

lemma checkExcessiveParallelConsonances2_adds:
  assumes "checkExcessiveParallelConsonances2 cf cp cpPos cpLen r = Inr r'"
    and "''excessive-parallels'' \<in> R" and "''excessive-parallels'' \<in> G"
  shows "adds R G r r'"
proof (cases "int (length (getStrongBeatIndices2 cpLen)) < 4")
  case True
  with assms(1) show ?thesis by (simp add: checkExcessiveParallelConsonances2_def)
next
  case False
  with assms(1) have "ebind (forEach (getStrongBeatIndices2 cpLen)
                 (\<lambda>idx (consecutiveThirds, consecutiveSixths, thirdsStart, sixthsStart, r1).
                 (let cpn = cp_at cp idx in
                  if cpn = Null then Inr (0, 0, thirdsStart, sixthsStart, r1)
                  else
                    ebind (vertical cpPos (getCFNote2 idx cf) cpn) (\<lambda>iv.
                    (let isThird = (simple_name iv = ''m3'' \<or> simple_name iv = ''M3'');
                         isSixth = (simple_name iv = ''m6'' \<or> simple_name iv = ''M6'')
                     in if isThird
                        then Inr (consecutiveThirds + 1, 0,
                                  if consecutiveThirds = 0 then idx else thirdsStart, sixthsStart, r1)
                        else if isSixth
                        then Inr (0, consecutiveSixths + 1, thirdsStart,
                                  if consecutiveSixths = 0 then idx else sixthsStart, r1)
                        else Inr (0, 0, thirdsStart, sixthsStart,
                                  excessive_flush consecutiveThirds consecutiveSixths
                                    thirdsStart sixthsStart r1)))))
               (0, 0, 0, 0, r))
          (\<lambda>(consecutiveThirds, consecutiveSixths, thirdsStart, sixthsStart, r1).
             Inr (excessive_flush consecutiveThirds consecutiveSixths thirdsStart sixthsStart r1)) = Inr r'"
    (is "ebind (forEach ?xs ?body ?s0) ?fin = _")
    by (simp add: checkExcessiveParallelConsonances2_def Let_def)
  then obtain st where L: "forEach ?xs ?body ?s0 = Inr st" and F: "?fin st = Inr r'"
    by (auto simp: ebind_Inr_iff)
  have step: "adds R G (snd (snd (snd (snd s)))) (snd (snd (snd (snd s'))))"
    if "?body x s = Inr s'" for x s s'
  proof -
    obtain a b c d r1 where s: "s = (a, b, c, d, r1)" by (cases s)
    from that have "snd (snd (snd (snd s'))) = r1
                 \<or> snd (snd (snd (snd s'))) = excessive_flush a b c d r1"
      unfolding s
      apply (simp only: prod.case Let_def)
      apply (erule if_InrE)
       apply (simp only: sum.inject)
       apply clarsimp
      apply (erule ebind_InrE)
      apply (erule if_InrE)
       apply (simp only: sum.inject)
       apply clarsimp
      apply (erule if_InrE)
       apply (simp only: sum.inject)
       apply clarsimp
      apply (simp only: sum.inject)
      apply clarsimp
      done
    then show ?thesis by (auto simp: s excessive_flush_adds assms(2,3))
  qed
  have "adds R G (snd (snd (snd (snd ?s0)))) (snd (snd (snd (snd st))))"
    by (rule forEach_adds [OF step L])
  then have a: "adds R G r (snd (snd (snd (snd st))))" by simp
  have b: "adds R G (snd (snd (snd (snd st)))) r'"
  proof -
    obtain a b c d r1 where s: "st = (a, b, c, d, r1)" by (cases st)
    from F show ?thesis unfolding s by (auto simp: excessive_flush_adds assms(2,3))
  qed
  show ?thesis using adds_trans [OF a b] .
qed

lemma validate2_note_adds:
  "validate2_note cf cp cpPos cpLen i r = Inr r' \<Longrightarrow>
   ''consonance'' \<in> R \<Longrightarrow> ''unison'' \<in> R \<Longrightarrow> ''voice-crossing'' \<in> R \<Longrightarrow> ''passing-tone'' \<in> R
   \<Longrightarrow> adds R G r r'"
  unfolding validate2_note_def Let_def
  by (elim adds_elims;
      (erule checkStrongBeatConsonance2_adds checkUnison2_adds checkVoiceCrossing_adds
         checkWeakBeatDissonance2_adds)?; simp)

lemma validate2_melodic_adds:
  "validate2_melodic sounding cpLen si r = Inr r' \<Longrightarrow>
   ''tritone'' \<in> R \<Longrightarrow> ''stepwise'' \<in> R \<Longrightarrow> ''note-repetition'' \<in> R \<Longrightarrow> adds R G r r'"
  unfolding validate2_melodic_def
  by (elim adds_elims;
      (erule checkMelodicTritone_adds checkStepwise_adds checkNoteRepetition2_adds)?; simp)

subsection \<open>Third species\<close>

lemma checkAnacrusis3_adds:
  "checkAnacrusis3 cp cpLen r = Inr r' \<Longrightarrow> ''unison'' \<in> R \<Longrightarrow> adds R G r r'"
  unfolding checkAnacrusis3_def Let_def
  by (elim adds_elims; (erule report_ats)?; simp)

lemma checkDownbeatConsonance3_adds:
  "checkDownbeatConsonance3 iv p r = Inr r' \<Longrightarrow> ''consonance'' \<in> R \<Longrightarrow> adds R G r r'"
  unfolding checkDownbeatConsonance3_def
  by (elim adds_elims; (erule report_ats)?; simp)

lemma checkBeatThreeConsonance3_adds:
  "checkBeatThreeConsonance3 iv p cp cf cpPos r = Inr r' \<Longrightarrow>
   ''beat-three-consonance'' \<in> R \<Longrightarrow> ''passing-tone-strong'' \<in> R \<Longrightarrow> adds R G r r'"
  unfolding checkBeatThreeConsonance3_def
  by (elim adds_elims; (erule report_ats)?; simp)

lemma checkWeakBeatDissonance3_adds:
  "checkWeakBeatDissonance3 iv p cp cf cpPos r = Inr r' \<Longrightarrow> ''passing-tone'' \<in> R \<Longrightarrow> adds R G r r'"
  unfolding checkWeakBeatDissonance3_def
  by (elim adds_elims; (erule report_ats)?; simp)

lemma checkUnison3_adds:
  "checkUnison3 iv p cpLen cp r = Inr r' \<Longrightarrow> ''unison'' \<in> R \<Longrightarrow> adds R G r r'"
  unfolding checkUnison3_def Let_def
  by (elim adds_elims; (erule report_ats)?; simp)

lemma checkStartInterval3_adds:
  "checkStartInterval3 cf cp cpPos r = Inr r' \<Longrightarrow> ''start-consonance'' \<in> R \<Longrightarrow> adds R G r r'"
  unfolding checkStartInterval3_def Let_def
  by (elim adds_elims; (erule report_ats)?; simp)

lemma checkCadence3_adds:
  "checkCadence3 cf cp ky md cpPos cpLen r = Inr r' \<Longrightarrow> ''cadence-third-species'' \<in> R
   \<Longrightarrow> adds R G r r'"
  unfolding checkCadence3_def Let_def
  by (elim adds_elims; (erule report_ats)?; simp)

lemma checkLastNoteWhole3_noop: "checkLastNoteWhole3 (n * 4 - 3) r = Inr r"
proof -
  have "jsrem (n * 4) 4 = 0" by (simp add: jsrem_def abs_mult)
  then show ?thesis by (simp add: checkLastNoteWhole3_def)
qed

lemma checkNoteRepetition3_adds:
  assumes "checkNoteRepetition3 sounding r = Inr r'"
    and "''note-repetition'' \<in> R" and "''note-repetition'' \<in> G"
  shows "adds R G r r'"
proof (cases "int (length sounding) < 3")
  case True
  with assms(1) show ?thesis by (simp add: checkNoteRepetition3_def)
next
  case False
  with assms(1) have "ebind (forEach [1..int (length sounding) - 1] (\<lambda>i (repeatCount, r1).
                 ebind (entry_at sounding i) (\<lambda>curr.
                 ebind (entry_at sounding (i - 1)) (\<lambda>prev.
                 ebind (toMidi (Str (e_note curr))) (\<lambda>mc.
                 ebind (toMidi (Str (e_note prev))) (\<lambda>mp.
                 if mc = mp
                 then (if repeatCount + 1 \<ge> 3
                       then Inr (repeatCount + 1,
                                 push_warning (issue_at ''note-repetition'' (e_index curr) ''warning'') r1)
                       else Inr (repeatCount + 1, r1))
                 else Inr (1, r1))))))
               (1::int, r))
          (\<lambda>(repeatCount, r1). Inr r1) = Inr r'"
    (is "ebind (forEach ?xs ?body ?s0) ?fin = _")
    by (simp add: checkNoteRepetition3_def Let_def)
  then obtain st where L: "forEach ?xs ?body ?s0 = Inr st" and F: "?fin st = Inr r'"
    by (auto simp: ebind_Inr_iff)
  have step: "adds R G (snd s) (snd s')" if "?body x s = Inr s'" for x s s'
  proof -
    obtain a r1 where s: "s = (a, r1)" by (cases s)
    from that show ?thesis unfolding s
      by (simp, elim ebind_InrE if_InrE) (auto simp: push_warning_at assms(2,3))
  qed
  have "adds R G (snd ?s0) (snd st)"
    by (rule forEach_adds [OF step L])
  then have a: "adds R G r (snd st)" by simp
  have b: "snd st = r'" using F by (cases st) simp
  show ?thesis using a b by simp
qed

lemma validate3_note_adds:
  "validate3_note cf cp cpPos cpLen i r = Inr r' \<Longrightarrow>
   ''consonance'' \<in> R \<Longrightarrow> ''unison'' \<in> R \<Longrightarrow> ''voice-crossing'' \<in> R \<Longrightarrow> ''passing-tone'' \<in> R
   \<Longrightarrow> ''beat-three-consonance'' \<in> R \<Longrightarrow> ''passing-tone-strong'' \<in> R \<Longrightarrow> adds R G r r'"
  unfolding validate3_note_def Let_def
  by (elim adds_elims;
      (erule checkDownbeatConsonance3_adds checkUnison3_adds checkVoiceCrossing_adds
         checkBeatThreeConsonance3_adds checkWeakBeatDissonance3_adds)?; simp)

lemma validate3_melodic_adds:
  "validate3_melodic sounding si r = Inr r' \<Longrightarrow> ''tritone'' \<in> R \<Longrightarrow> adds R G r r'"
  unfolding validate3_melodic_def
  by (elim adds_elims; (erule checkMelodicTritone_adds)?; simp)

section \<open>The range check and the shape of a validation\<close>

lemma ebind_InrE2:
  "ebind m g = Inr y \<Longrightarrow> (\<And>v. m = Inr v \<Longrightarrow> g v = Inr y \<Longrightarrow> P) \<Longrightarrow> P"
  by (auto simp: ebind_Inr_iff)

lemma all_issues_init [simp]: "all_issues (init_noteResults n initial_results) = []"
  by (simp add: all_issues_def init_noteResults_def initial_results_def)

lemma adds_new_rule:
  assumes "adds R G r r'" and "x \<in> set (all_issues r')"
  shows "x \<in> set (all_issues r) \<or> rule x \<in> R"
  using assms unfolding adds_def all_issues_def by auto

lemma adds_keeps:
  assumes "adds R G r r'"
  shows "set (errors r) \<subseteq> set (errors r')" "set (warnings r) \<subseteq> set (warnings r')"
    "set (suggestions r) \<subseteq> set (suggestions r')"
  using assms unfolding adds_def by auto

lemma adds_linked:
  assumes "adds R G r r'" and "linked G r"
  shows "linked G r'"
proof -
  from assms(1) obtain es ws ss where 1:
    "length (noteResults r') = length (noteResults r)"
    "\<forall>p < length (noteResults r). set (issues (noteResults r ! p)) \<subseteq> set (issues (noteResults r' ! p))"
    "errors r' = errors r @ es" "\<forall>x \<in> set es. rule x \<in> R \<and> (rule x \<in> G \<or> attached r' x)"
    "warnings r' = warnings r @ ws" "\<forall>x \<in> set ws. rule x \<in> R \<and> (rule x \<in> G \<or> attached r' x)"
    "suggestions r' = suggestions r @ ss" "\<forall>x \<in> set ss. rule x \<in> R \<and> (rule x \<in> G \<or> attached r' x)"
    unfolding adds_def by blast
  have up: "attached r x \<Longrightarrow> attached r' x" for x
    using attached_mono [OF _ 1(1) 1(2)] by blast
  show ?thesis
    unfolding linked_def
  proof
    fix x assume "x \<in> set (all_issues r')"
    then consider "x \<in> set (all_issues r)" | "x \<in> set es \<union> set ws \<union> set ss"
      unfolding all_issues_def 1(3) 1(5) 1(7) by auto
    then show "rule x \<in> G \<or> position x = Some (- 1) \<or> attached r' x"
    proof cases
      case 1
      with assms(2) up show ?thesis unfolding linked_def by blast
    next
      case 2
      with 1(4) 1(6) 1(8) show ?thesis by blast
    qed
  qed
qed

lemma linked_init: "linked G (init_noteResults n initial_results)"
  by (simp add: linked_def)

lemma linked_push_range: "linked G r \<Longrightarrow> linked G (push_warning range_issue r)"
  unfolding linked_def all_issues_def push_warning_def attached_def range_issue_def
  by auto

lemma fold_min_Min: "fold min rest (x::int) = Min (set (x # rest))"
  by (rule Min.set_eq_fold [symmetric])

lemma fold_max_Max: "fold max rest (x::int) = Max (set (x # rest))"
  by (rule Max.set_eq_fold [symmetric])

lemma range_result:
  assumes "(case (ms :: int list) of [] \<Rightarrow> Inr r
             | x # rest \<Rightarrow>
                 (let lowest = fold min rest x; highest = fold max rest x; range = highest - lowest
                  in if range > 19
                     then Inr (push_warning \<lparr>rule = ''range'', position = Some (-1), severity = ''warning''\<rparr> r)
                     else Inr r)) = Inr r'"
  shows "r' = (if ms \<noteq> [] \<and> Max (set ms) - Min (set ms) > 19 then push_warning range_issue r else r)"
proof (cases ms)
  case Nil
  with assms show ?thesis by simp
next
  case (Cons x rest)
  with assms show ?thesis
    unfolding Cons list.case Let_def fold_min_Min fold_max_Max range_issue_def
    by (auto split: if_splits)
qed

lemma checkRange1_result:
  assumes "checkRange1 cp cpPos r = Inr r'"
  shows "\<exists>ms. emap toMidi (map jsnote cp) = Inr ms
           \<and> r' = (if ms \<noteq> [] \<and> Max (set ms) - Min (set ms) > 19
                   then push_warning range_issue r else r)"
  using assms unfolding checkRange1_def
  by (elim ebind_InrE2) (auto dest: range_result)

lemma checkRange2_result:
  assumes "checkRange2 cp cpPos r = Inr r'"
  shows "\<exists>ms. emap toMidi (filter (\<lambda>v. v \<noteq> Null) (map jsnote cp)) = Inr ms
           \<and> r' = (if ms \<noteq> [] \<and> Max (set ms) - Min (set ms) > 19
                   then push_warning range_issue r else r)"
  using assms unfolding checkRange2_def
  by (elim ebind_InrE2) (auto dest: range_result)

text \<open>The state of the range issues around \<open>checkRange\<close>.\<close>

lemma range_step:
  assumes before: "adds (- {''range''}) G r0 r3" and init: "all_issues r0 = []"
    and rng: "r4 = (if big then push_warning range_issue r3 else r3)"
    and after: "adds (- {''range''}) G r4 r"
  shows "if big
         then range_issue \<in> set (warnings r) \<and> (\<forall>x \<in> set (all_issues r). rule x = ''range'' \<longrightarrow> x = range_issue)
         else (\<forall>x \<in> set (all_issues r). rule x \<noteq> ''range'')"
proof -
  have r3: "rule x \<noteq> ''range''" if "x \<in> set (all_issues r3)" for x
    using adds_new_rule [OF before that] init by simp
  have r: "x \<in> set (all_issues r4)" if "x \<in> set (all_issues r)" "rule x = ''range''" for x
    using adds_new_rule [OF after that(1)] that(2) by auto
  show ?thesis
  proof (cases big)
    case True
    then have r4: "r4 = push_warning range_issue r3" using rng by simp
    have "range_issue \<in> set (warnings r4)" by (simp add: r4 push_warning_def)
    then have a: "range_issue \<in> set (warnings r)" using adds_keeps(2) [OF after] by blast
    have b: "x = range_issue" if "x \<in> set (all_issues r)" "rule x = ''range''" for x
    proof -
      from r [OF that] have "x = range_issue \<or> x \<in> set (all_issues r3)"
        by (auto simp: r4 push_warning_def all_issues_def)
      with r3 that(2) show ?thesis by blast
    qed
    from True a b show ?thesis by simp
  next
    case False
    then have "r4 = r3" using rng by simp
    with r r3 False show ?thesis by auto
  qed
qed

lemma validate1_checks_shape:
  assumes "validate1_checks ex = Inr r"
  shows "\<exists>r3 r4. adds (- {''range''}) global_rules12
                (init_noteResults (length (cantusFirmus ex)) initial_results) r3
           \<and> checkRange1 (counterpoint ex) (cpPosition_of ex) r3 = Inr r4
           \<and> adds (- {''range''}) global_rules12 r4 r"
proof -
  let ?R = "- {''range''}" and ?G = global_rules12
  from assms obtain r1 r2 r3 r4 r5 r6 r7 r8 r9 where
    h1: "forEach [0..int (length (cantusFirmus ex)) - 1]
           (validate1_note (cantusFirmus ex) (counterpoint ex) (cpPosition_of ex)
              (int (length (cantusFirmus ex))))
           (init_noteResults (length (cantusFirmus ex)) initial_results) = Inr r1"
    and h2: "checkStartInterval1 (at (cantusFirmus ex) 0) (cp_at (counterpoint ex) 0)
               (cpPosition_of ex) r1 = Inr r2"
    and h3: "checkEndInterval1 (cantusFirmus ex) (counterpoint ex) (key ex) (mode_of ex)
               (cpPosition_of ex) r2 = Inr r3"
    and h4: "checkRange1 (counterpoint ex) (cpPosition_of ex) r3 = Inr r4"
    and h5: "checkCompoundTritones1 (counterpoint ex) (key ex) (mode_of ex) r4 = Inr r5"
    and h6: "checkCompoundDissonantLeaps1 (counterpoint ex) r5 = Inr r6"
    and h7: "checkBattutaParallels1 (cantusFirmus ex) (counterpoint ex) (cpPosition_of ex) r6 = Inr r7"
    and h8: "checkProlongedDirection1 (counterpoint ex) r7 = Inr r8"
    and h9: "checkArpeggios1 (counterpoint ex) (key ex) (mode_of ex) r8 = Inr r9"
    and h10: "checkExcessiveParallelConsonances1 (cantusFirmus ex) (counterpoint ex)
                (cpPosition_of ex) r9 = Inr r"
    unfolding validate1_checks_def Let_def by (elim ebind_InrE2) blast
  have a1: "adds ?R ?G (init_noteResults (length (cantusFirmus ex)) initial_results) r1"
    by (rule forEach_addsE [OF h1]) (erule validate1_note_adds; simp)
  have a2: "adds ?R ?G r1 r2" by (rule checkStartInterval1_adds [OF h2]) simp
  have a3: "adds ?R ?G r2 r3" by (rule checkEndInterval1_adds [OF h3]) simp_all
  have a5: "adds ?R ?G r4 r5"
    by (rule checkCompoundTritones1_adds [OF h5]) (simp_all add: global_rules12_def)
  have a6: "adds ?R ?G r5 r6"
    by (rule checkCompoundDissonantLeaps1_adds [OF h6]) (simp_all add: global_rules12_def)
  have a7: "adds ?R ?G r6 r7"
    by (rule checkBattutaParallels1_adds [OF h7]) (simp_all add: global_rules12_def)
  have a8: "adds ?R ?G r7 r8"
    by (rule checkProlongedDirection1_adds [OF h8]) (simp_all add: global_rules12_def)
  have a9: "adds ?R ?G r8 r9"
    by (rule checkArpeggios1_adds [OF h9]) (simp_all add: global_rules12_def)
  have a10: "adds ?R ?G r9 r"
    by (rule checkExcessiveParallelConsonances1_adds [OF h10]) (simp_all add: global_rules12_def)
  have before: "adds ?R ?G (init_noteResults (length (cantusFirmus ex)) initial_results) r3"
    using a1 a2 a3 by (blast intro: adds_trans)
  have after: "adds ?R ?G r4 r"
    using a5 a6 a7 a8 a9 a10 by (blast intro: adds_trans)
  from before h4 after show ?thesis by blast
qed

lemma validate2_checks_shape:
  assumes "validate2_checks ex = Inr r"
  shows "\<exists>r11 r12. adds (- {''range''}) global_rules12
                (init_noteResults (length (counterpoint ex)) initial_results) r11
           \<and> checkRange2 (counterpoint ex) (cpPosition_of ex) r11 = Inr r12
           \<and> adds (- {''range''}) global_rules12 r12 r"
proof -
  let ?R = "- {''range''}" and ?G = global_rules12
  let ?cf = "cantusFirmus ex" and ?cp = "counterpoint ex" and ?pos = "cpPosition_of ex"
  let ?n = "int (length (counterpoint ex))"
  let ?snd = "getSoundingNotes (counterpoint ex)"
  let ?str = "getStrongBeatIndices2 (int (length (counterpoint ex)))"
  from assms obtain r1 r2 r3 r4 r5 r6 r7 r8 r9 r10 r11 r12 r13 r14 r15 r16 r17 where
    h1: "checkAnacrusis2 ?cp ?n (init_noteResults (length ?cp) initial_results) = Inr r1"
    and h2: "forEach [0..?n - 1] (validate2_note ?cf ?cp ?pos ?n) r1 = Inr r2"
    and h3: "forEach [1..int (length ?snd) - 1] (validate2_melodic ?snd ?n) r2 = Inr r3"
    and h4: "pairParallels ?str getCFNote2 ?cf ?cp ?pos r3 = Inr r4"
    and h5: "pairHiddenParallels ?str getCFNote2 ?cf ?cp ?pos r4 = Inr r5"
    and h6: "pairMotion ?str getCFNote2 ?cf ?cp ?pos r5 = Inr r6"
    and h7: "checkCrossBeatParallels2 ?cf ?cp ?pos ?n r6 = Inr r7"
    and h8: "checkStartInterval2 ?cf ?cp ?pos r7 = Inr r8"
    and h9: "endInterval getCFNote2 ?cf ?cp ?pos ?n r8 = Inr r9"
    and h10: "checkLastNoteWhole2 ?n r9 = Inr r10"
    and h11: "checkCadence2 ?cf ?cp (key ex) (mode_of ex) ?pos ?n r10 = Inr r11"
    and h12: "checkRange2 ?cp ?pos r11 = Inr r12"
    and h13: "checkCompoundTritonesS (map e_note ?snd) ?snd (key ex) (mode_of ex) r12 = Inr r13"
    and h14: "checkCompoundDissonantLeaps2 (map e_note ?snd) ?snd r13 = Inr r14"
    and h15: "checkProlongedDirectionS 8 (map e_note ?snd) ?snd r14 = Inr r15"
    and h16: "checkArpeggiosS (map e_note ?snd) ?snd (key ex) (mode_of ex) r15 = Inr r16"
    and h17: "checkExcessiveParallelConsonances2 ?cf ?cp ?pos ?n r16 = Inr r17"
    and h18: "checkBattutaParallels2 ?cf ?cp ?pos ?n r17 = Inr r"
    unfolding validate2_checks_def Let_def by (elim ebind_InrE2) blast
  have a1: "adds ?R ?G (init_noteResults (length ?cp) initial_results) r1"
    by (rule checkAnacrusis2_adds [OF h1]) simp
  have a2: "adds ?R ?G r1 r2"
    by (rule forEach_addsE [OF h2]) (erule validate2_note_adds; simp)
  have a3: "adds ?R ?G r2 r3"
    by (rule forEach_addsE [OF h3]) (erule validate2_melodic_adds; simp)
  have a4: "adds ?R ?G r3 r4" by (rule pairParallels_adds [OF h4]) simp_all
  have a5: "adds ?R ?G r4 r5" by (rule pairHiddenParallels_adds [OF h5]) simp_all
  have a6: "adds ?R ?G r5 r6" by (rule pairMotion_adds [OF h6]) simp
  have a7: "adds ?R ?G r6 r7" by (rule checkCrossBeatParallels2_adds [OF h7]) simp
  have a8: "adds ?R ?G r7 r8" by (rule checkStartInterval2_adds [OF h8]) simp
  have a9: "adds ?R ?G r8 r9" by (rule endInterval_adds [OF h9]) simp
  have a10: "adds ?R ?G r9 r10" by (rule checkLastNoteWhole2_adds [OF h10]) simp
  have a11: "adds ?R ?G r10 r11" by (rule checkCadence2_adds [OF h11]) simp
  have a13: "adds ?R ?G r12 r13"
    by (rule checkCompoundTritonesS_adds [OF h13]) (simp_all add: global_rules12_def)
  have a14: "adds ?R ?G r13 r14"
    by (rule checkCompoundDissonantLeaps2_adds [OF h14]) (simp_all add: global_rules12_def)
  have a15: "adds ?R ?G r14 r15"
    by (rule checkProlongedDirectionS_adds [OF h15]) (simp_all add: global_rules12_def)
  have a16: "adds ?R ?G r15 r16"
    by (rule checkArpeggiosS_adds [OF h16]) (simp_all add: global_rules12_def)
  have a17: "adds ?R ?G r16 r17"
    by (rule checkExcessiveParallelConsonances2_adds [OF h17]) (simp_all add: global_rules12_def)
  have a18: "adds ?R ?G r17 r"
    by (rule checkBattutaParallels2_adds [OF h18]) (simp_all add: global_rules12_def)
  note b = adds_trans [OF a1 a2]
  note b = adds_trans [OF b a3]
  note b = adds_trans [OF b a4]
  note b = adds_trans [OF b a5]
  note b = adds_trans [OF b a6]
  note b = adds_trans [OF b a7]
  note b = adds_trans [OF b a8]
  note b = adds_trans [OF b a9]
  note b = adds_trans [OF b a10]
  note before = adds_trans [OF b a11]
  note c = adds_trans [OF a13 a14]
  note c = adds_trans [OF c a15]
  note c = adds_trans [OF c a16]
  note c = adds_trans [OF c a17]
  note after = adds_trans [OF c a18]
  from before h12 after show ?thesis by blast
qed

lemma validate3_checks_shape:
  assumes "validate3_checks ex = Inr r"
    and len: "int (length (counterpoint ex)) = int (length (cantusFirmus ex)) * 4 - 3"
  shows "adds (- {''range''}) global_rules3
           (init_noteResults (length (counterpoint ex)) initial_results) r"
proof -
  let ?R = "- {''range''}" and ?G = global_rules3
  let ?cf = "cantusFirmus ex" and ?cp = "counterpoint ex" and ?pos = "cpPosition_of ex"
  let ?n = "int (length (counterpoint ex))"
  let ?snd = "getSoundingNotes (counterpoint ex)"
  let ?dbs = "getDownbeatIndices3 (int (length (counterpoint ex)))"
  from assms(1) obtain r1 r2 r3 r4 r5 r6 r7 r8 r9 r10 r11 r12 r13 where
    h1: "checkAnacrusis3 ?cp ?n (init_noteResults (length ?cp) initial_results) = Inr r1"
    and h2: "forEach [0..?n - 1] (validate3_note ?cf ?cp ?pos ?n) r1 = Inr r2"
    and h3: "forEach [1..int (length ?snd) - 1] (validate3_melodic ?snd) r2 = Inr r3"
    and h4: "pairParallels ?dbs getCFNote3 ?cf ?cp ?pos r3 = Inr r4"
    and h5: "pairHiddenParallels ?dbs getCFNote3 ?cf ?cp ?pos r4 = Inr r5"
    and h6: "pairMotion ?dbs getCFNote3 ?cf ?cp ?pos r5 = Inr r6"
    and h7: "checkStartInterval3 ?cf ?cp ?pos r6 = Inr r7"
    and h8: "endInterval getCFNote3 ?cf ?cp ?pos ?n r7 = Inr r8"
    and h9: "checkLastNoteWhole3 ?n r8 = Inr r9"
    and h10: "checkCadence3 ?cf ?cp (key ex) (mode_of ex) ?pos ?n r9 = Inr r10"
    and h11: "checkCompoundTritonesS (map e_note ?snd) ?snd (key ex) (mode_of ex) r10 = Inr r11"
    and h12: "checkProlongedDirectionS 11 (map e_note ?snd) ?snd r11 = Inr r12"
    and h13: "checkArpeggiosS (map e_note ?snd) ?snd (key ex) (mode_of ex) r12 = Inr r13"
    and h14: "checkNoteRepetition3 ?snd r13 = Inr r"
    unfolding validate3_checks_def Let_def by (elim ebind_InrE2) blast
  have a1: "adds ?R ?G (init_noteResults (length ?cp) initial_results) r1"
    by (rule checkAnacrusis3_adds [OF h1]) simp
  have a2: "adds ?R ?G r1 r2"
    by (rule forEach_addsE [OF h2]) (erule validate3_note_adds; simp)
  have a3: "adds ?R ?G r2 r3"
    by (rule forEach_addsE [OF h3]) (erule validate3_melodic_adds; simp)
  have a4: "adds ?R ?G r3 r4" by (rule pairParallels_adds [OF h4]) simp_all
  have a5: "adds ?R ?G r4 r5" by (rule pairHiddenParallels_adds [OF h5]) simp_all
  have a6: "adds ?R ?G r5 r6" by (rule pairMotion_adds [OF h6]) simp
  have a7: "adds ?R ?G r6 r7" by (rule checkStartInterval3_adds [OF h7]) simp
  have a8: "adds ?R ?G r7 r8" by (rule endInterval_adds [OF h8]) simp
  have "r9 = r8" using h9 checkLastNoteWhole3_noop [of "int (length ?cf)" r8] len by simp
  then have a9: "adds ?R ?G r8 r9" by simp
  have a10: "adds ?R ?G r9 r10" by (rule checkCadence3_adds [OF h10]) simp
  have a11: "adds ?R ?G r10 r11"
    by (rule checkCompoundTritonesS_adds [OF h11]) (simp_all add: global_rules3_def)
  have a12: "adds ?R ?G r11 r12"
    by (rule checkProlongedDirectionS_adds [OF h12]) (simp_all add: global_rules3_def)
  have a13: "adds ?R ?G r12 r13"
    by (rule checkArpeggiosS_adds [OF h13]) (simp_all add: global_rules3_def)
  have a14: "adds ?R ?G r13 r"
    by (rule checkNoteRepetition3_adds [OF h14]) (simp_all add: global_rules3_def)
  note b = adds_trans [OF a1 a2]
  note b = adds_trans [OF b a3]
  note b = adds_trans [OF b a4]
  note b = adds_trans [OF b a5]
  note b = adds_trans [OF b a6]
  note b = adds_trans [OF b a7]
  note b = adds_trans [OF b a8]
  note b = adds_trans [OF b a9]
  note b = adds_trans [OF b a10]
  note b = adds_trans [OF b a11]
  note b = adds_trans [OF b a12]
  note b = adds_trans [OF b a13]
  show ?thesis by (rule adds_trans [OF b a14])
qed

text \<open>What \<open>validate\<close> returns when the length test passes.\<close>

lemma validate1_Inr:
  assumes "validate1 ex = Inr r" and "length (cantusFirmus ex) = length (counterpoint ex)"
  obtains rc where "validate1_checks ex = Inr rc"
    and "r = rc\<lparr>score := calculateScore1 rc, valid := (errors rc = [])\<rparr>"
  using assms by (auto simp: validate1_def ebind_Inr_iff)

lemma validate2_Inr:
  assumes "validate2 ex = Inr r"
    and "int (length (counterpoint ex)) = int (length (cantusFirmus ex)) * 2 - 1"
  obtains rc where "validate2_checks ex = Inr rc"
    and "r = rc\<lparr>score := calculateScore2 rc, valid := (errors rc = [])\<rparr>"
  using assms by (auto simp: validate2_def ebind_Inr_iff)

lemma validate3_Inr:
  assumes "validate3 ex = Inr r"
    and "int (length (counterpoint ex)) = int (length (cantusFirmus ex)) * 4 - 3"
  obtains rc where "validate3_checks ex = Inr rc"
    and "r = rc\<lparr>score := calculateScore3 rc, valid := (errors rc = [])\<rparr>"
  using assms by (auto simp: validate3_def ebind_Inr_iff)

lemma finish_simps [simp]:
  "all_issues (rc\<lparr>score := s, valid := v\<rparr>) = all_issues rc"
  "linked G (rc\<lparr>score := s, valid := v\<rparr>) = linked G rc"
  by (simp_all add: all_issues_def linked_def attached_def)

lemma linked_attached:
  assumes "linked G r" and "x \<in> set (all_issues r)" and "position x = Some p" and "0 \<le> p"
    and "rule x \<notin> G"
  shows "p < int (length (noteResults r)) \<and> x \<in> set (issues (noteResults r ! nat p))"
  using assms unfolding linked_def attached_def by fastforce

section \<open>The sample exercises evaluated\<close>

lemma validate1_sample_first_lower:
  "validate1 sample_first_lower = Inr sample_first_lower_result" by code_simp
lemma validate1_sample_first_tritone:
  "validate1 sample_first_tritone = Inr sample_first_tritone_result" by code_simp
lemma validate1_sample_first_wide:
  "validate1 sample_first_wide = Inr sample_first_wide_result" by code_simp
lemma validate2_sample_second:
  "validate2 sample_second = Inr sample_second_result" by code_simp
lemma validate3_sample_third_wide:
  "validate3 sample_third_wide = Inr sample_third_wide_result" by code_simp

section \<open>The length test\<close>

text \<open>
  C1. When the length of the counterpoint differs from the length the species asks for
  (that of the cantus firmus in first species, twice it minus one in second species,
  four times it minus three in third species), \<open>validate\<close> returns at once the result
  \<open>length_error\<close>: \<open>valid\<close> is false, \<open>errors\<close> holds the single issue of rule
  \<open>LENGTH\<close>, and \<open>warnings\<close>, \<open>suggestions\<close> and \<open>noteResults\<close> are empty.
\<close>

theorem C1_length_mismatch:
  "(length (cantusFirmus ex) \<noteq> length (counterpoint ex) \<longrightarrow> validate1 ex = Inr length_error)
   \<and> (int (length (counterpoint ex)) \<noteq> int (length (cantusFirmus ex)) * 2 - 1
        \<longrightarrow> validate2 ex = Inr length_error)
   \<and> (int (length (counterpoint ex)) \<noteq> int (length (cantusFirmus ex)) * 4 - 3
        \<longrightarrow> validate3 ex = Inr length_error)
   \<and> length_error =
        \<lparr>valid = False, score = 100,
         errors = [\<lparr>rule = ''LENGTH'', position = None, severity = ''error''\<rparr>],
         warnings = [], suggestions = [], noteResults = []\<rparr>"
  by (simp add: validate1_def validate2_def validate3_def length_error_def push_error_def
        initial_results_def)

text \<open>
  The exercise \<open>sample_short\<close>, one counterpoint note over two notes of cantus firmus,
  has the wrong length for each of the three species.
\<close>

theorem C1_length_mismatch_witness:
  "length (cantusFirmus sample_short) \<noteq> length (counterpoint sample_short)
   \<and> int (length (counterpoint sample_short)) \<noteq> int (length (cantusFirmus sample_short)) * 2 - 1
   \<and> int (length (counterpoint sample_short)) \<noteq> int (length (cantusFirmus sample_short)) * 4 - 3
   \<and> validate1 sample_short = Inr length_error
   \<and> validate2 sample_short = Inr length_error
   \<and> validate3 sample_short = Inr length_error
   \<and> valid length_error = False
   \<and> map rule (errors length_error) = [''LENGTH'']
   \<and> warnings length_error = [] \<and> suggestions length_error = [] \<and> noteResults length_error = []"
  using C1_length_mismatch [of sample_short]
  by (simp add: sample_short_def length_error_def push_error_def initial_results_def)

section \<open>The empty exercise\<close>

text \<open>
  C10. On the exercise with an empty cantus firmus and an empty counterpoint the length
  test of the first species passes, the loop over the positions does nothing, and
  \<open>checkStartInterval\<close> reads \<open>cantusFirmus[0]\<close> and \<open>counterpoint[0]\<close>, both
  \<open>undefined\<close>; \<open>Pitch.parse\<close> calls \<open>match\<close> on \<open>undefined\<close> and throws a
  \<open>TypeError\<close>. So \<open>validate\<close> returns no result: it throws, whatever the key, the
  mode and the position of the counterpoint.
\<close>

theorem C10_empty_exercise_throws:
  "validate1 \<lparr>cantusFirmus = [], counterpoint = [], key = ky, mode = md, cpPosition = pos\<rparr>
     = Inl TypeError
   \<and> at [] 0 = Undefined \<and> cp_at [] 0 = Undefined
   \<and> parse Undefined = Inl TypeError
   \<and> checkStartInterval1 (at [] 0) (cp_at [] 0) cpPos r = Inl TypeError"
  by (simp add: validate1_def validate1_checks_def checkStartInterval1_def vertical_def
        between_def toMidi_def parse_def at_def cp_at_def)

section \<open>Score and validity\<close>

text \<open>
  C7. For an exercise that passes the length test and on which \<open>validate\<close> returns,
  the score of the result is \<open>max 0 (100 - wE * |errors| - wW * |warnings| - |suggestions|)\<close>
  with weights 15 and 5 in first species, 10 and 4 in second species, 8 and 3 in third
  species, and \<open>valid\<close> holds exactly when \<open>errors\<close> is empty.
\<close>

theorem C7_score_and_valid:
  "(validate1 ex1 = Inr r1 \<and> length (cantusFirmus ex1) = length (counterpoint ex1) \<longrightarrow>
      score r1 = max 0 (100 - 15 * int (length (errors r1)) - 5 * int (length (warnings r1))
                          - int (length (suggestions r1)))
      \<and> (valid r1 \<longleftrightarrow> errors r1 = []))
   \<and> (validate2 ex2 = Inr r2
        \<and> int (length (counterpoint ex2)) = int (length (cantusFirmus ex2)) * 2 - 1 \<longrightarrow>
      score r2 = max 0 (100 - 10 * int (length (errors r2)) - 4 * int (length (warnings r2))
                          - int (length (suggestions r2)))
      \<and> (valid r2 \<longleftrightarrow> errors r2 = []))
   \<and> (validate3 ex3 = Inr r3
        \<and> int (length (counterpoint ex3)) = int (length (cantusFirmus ex3)) * 4 - 3 \<longrightarrow>
      score r3 = max 0 (100 - 8 * int (length (errors r3)) - 3 * int (length (warnings r3))
                          - int (length (suggestions r3)))
      \<and> (valid r3 \<longleftrightarrow> errors r3 = []))"
proof (intro conjI impI; elim conjE)
  assume "validate1 ex1 = Inr r1" "length (cantusFirmus ex1) = length (counterpoint ex1)"
  then obtain rc where "r1 = rc\<lparr>score := calculateScore1 rc, valid := (errors rc = [])\<rparr>"
    by (rule validate1_Inr)
  then show "score r1 = max 0 (100 - 15 * int (length (errors r1)) - 5 * int (length (warnings r1))
                          - int (length (suggestions r1)))"
    and "valid r1 \<longleftrightarrow> errors r1 = []"
    by (simp_all add: calculateScore1_def)
next
  assume "validate2 ex2 = Inr r2"
    "int (length (counterpoint ex2)) = int (length (cantusFirmus ex2)) * 2 - 1"
  then obtain rc where "r2 = rc\<lparr>score := calculateScore2 rc, valid := (errors rc = [])\<rparr>"
    by (rule validate2_Inr)
  then show "score r2 = max 0 (100 - 10 * int (length (errors r2)) - 4 * int (length (warnings r2))
                          - int (length (suggestions r2)))"
    and "valid r2 \<longleftrightarrow> errors r2 = []"
    by (simp_all add: calculateScore2_def)
next
  assume "validate3 ex3 = Inr r3"
    "int (length (counterpoint ex3)) = int (length (cantusFirmus ex3)) * 4 - 3"
  then obtain rc where "r3 = rc\<lparr>score := calculateScore3 rc, valid := (errors rc = [])\<rparr>"
    by (rule validate3_Inr)
  then show "score r3 = max 0 (100 - 8 * int (length (errors r3)) - 3 * int (length (warnings r3))
                          - int (length (suggestions r3)))"
    and "valid r3 \<longleftrightarrow> errors r3 = []"
    by (simp_all add: calculateScore3_def)
qed

text \<open>
  The three samples: an invalid first species exercise with score 73, an invalid second
  species exercise with score 64, and a third species exercise that is valid with score
  95, its warning and suggestions lowering the score only.
\<close>

theorem C7_score_and_valid_witness:
  "validate1 sample_first_wide = Inr sample_first_wide_result
   \<and> length (cantusFirmus sample_first_wide) = length (counterpoint sample_first_wide)
   \<and> score sample_first_wide_result = 73 \<and> length (errors sample_first_wide_result) = 1
   \<and> length (warnings sample_first_wide_result) = 2
   \<and> length (suggestions sample_first_wide_result) = 2
   \<and> \<not> valid sample_first_wide_result
   \<and> validate2 sample_second = Inr sample_second_result
   \<and> int (length (counterpoint sample_second)) = int (length (cantusFirmus sample_second)) * 2 - 1
   \<and> score sample_second_result = 64 \<and> length (errors sample_second_result) = 3
   \<and> length (warnings sample_second_result) = 1
   \<and> length (suggestions sample_second_result) = 2
   \<and> \<not> valid sample_second_result
   \<and> validate3 sample_third_wide = Inr sample_third_wide_result
   \<and> int (length (counterpoint sample_third_wide)) = int (length (cantusFirmus sample_third_wide)) * 4 - 3
   \<and> score sample_third_wide_result = 95 \<and> errors sample_third_wide_result = []
   \<and> length (warnings sample_third_wide_result) = 1
   \<and> length (suggestions sample_third_wide_result) = 2
   \<and> valid sample_third_wide_result"
  using C7_score_and_valid [of sample_first_wide sample_first_wide_result
      sample_second sample_second_result sample_third_wide sample_third_wide_result]
    validate1_sample_first_wide validate2_sample_second validate3_sample_third_wide
  by (simp add: sample_first_wide_def sample_first_wide_result_def sample_second_def
        sample_second_result_def sample_third_wide_def sample_third_wide_result_def
        range_issue_def)

section \<open>The range of the counterpoint\<close>

lemma length_error_no_range: "x \<in> set (all_issues length_error) \<Longrightarrow> rule x \<noteq> ''range''"
  by (auto simp: all_issues_def length_error_def push_error_def initial_results_def)


lemma sample_third_wide_midis:
  "emap toMidi (map jsnote (counterpoint sample_third_wide)) = Inr [60, 67, 76, 84, 72]"
  by code_simp


lemma sample_first_wide_midis:
  "emap toMidi (map jsnote (counterpoint sample_first_wide)) = Inr [60, 84, 72]"
  by code_simp

lemma sample_second_midis:
  "emap toMidi (filter (\<lambda>v. v \<noteq> Null) (map jsnote (counterpoint sample_second))) = Inr [64, 62, 65]"
  by code_simp


section \<open>Issues and per-position results\<close>

text \<open>
  C8, amended. For an exercise that passes the length test and on which \<open>validate\<close>
  returns, every issue of the result whose position is some \<open>p \<ge> 0\<close> and whose rule is
  not one of the global checks (\<open>global_rules12\<close> in first and second species,
  \<open>global_rules3\<close> in third species) has \<open>p\<close> inside \<open>noteResults\<close> and is in
  \<open>noteResults[p].issues\<close>.
\<close>

theorem C8_issues_attached:
  "(validate1 ex1 = Inr r1 \<and> length (cantusFirmus ex1) = length (counterpoint ex1)
      \<and> x1 \<in> set (all_issues r1) \<and> position x1 = Some p1 \<and> 0 \<le> p1
      \<and> rule x1 \<notin> global_rules12 \<longrightarrow>
        p1 < int (length (noteResults r1)) \<and> x1 \<in> set (issues (noteResults r1 ! nat p1)))
   \<and> (validate2 ex2 = Inr r2
      \<and> int (length (counterpoint ex2)) = int (length (cantusFirmus ex2)) * 2 - 1
      \<and> x2 \<in> set (all_issues r2) \<and> position x2 = Some p2 \<and> 0 \<le> p2
      \<and> rule x2 \<notin> global_rules12 \<longrightarrow>
        p2 < int (length (noteResults r2)) \<and> x2 \<in> set (issues (noteResults r2 ! nat p2)))
   \<and> (validate3 ex3 = Inr r3
      \<and> int (length (counterpoint ex3)) = int (length (cantusFirmus ex3)) * 4 - 3
      \<and> x3 \<in> set (all_issues r3) \<and> position x3 = Some p3 \<and> 0 \<le> p3
      \<and> rule x3 \<notin> global_rules3 \<longrightarrow>
        p3 < int (length (noteResults r3)) \<and> x3 \<in> set (issues (noteResults r3 ! nat p3)))"
proof (intro conjI impI; elim conjE)
  assume v: "validate1 ex1 = Inr r1" and len: "length (cantusFirmus ex1) = length (counterpoint ex1)"
    and x: "x1 \<in> set (all_issues r1)" "position x1 = Some p1" "0 \<le> p1" "rule x1 \<notin> global_rules12"
  from v len obtain rc where rc: "validate1_checks ex1 = Inr rc"
    and r1: "r1 = rc\<lparr>score := calculateScore1 rc, valid := (errors rc = [])\<rparr>"
    by (rule validate1_Inr)
  from validate1_checks_shape [OF rc] obtain ra rb where
    before: "adds (- {''range''}) global_rules12
               (init_noteResults (length (cantusFirmus ex1)) initial_results) ra"
    and rng: "checkRange1 (counterpoint ex1) (cpPosition_of ex1) ra = Inr rb"
    and after: "adds (- {''range''}) global_rules12 rb rc"
    by blast
  have "linked global_rules12 ra" by (rule adds_linked [OF before linked_init])
  then have "linked global_rules12 rb"
    using checkRange1_result [OF rng] by (auto simp: linked_push_range)
  then have "linked global_rules12 rc" by (rule adds_linked [OF after])
  then have l: "linked global_rules12 r1" unfolding r1 by simp
  show "p1 < int (length (noteResults r1))" "x1 \<in> set (issues (noteResults r1 ! nat p1))"
    using linked_attached [OF l x] by simp_all
next
  assume v: "validate2 ex2 = Inr r2"
    and len: "int (length (counterpoint ex2)) = int (length (cantusFirmus ex2)) * 2 - 1"
    and x: "x2 \<in> set (all_issues r2)" "position x2 = Some p2" "0 \<le> p2" "rule x2 \<notin> global_rules12"
  from v len obtain rc where rc: "validate2_checks ex2 = Inr rc"
    and r2: "r2 = rc\<lparr>score := calculateScore2 rc, valid := (errors rc = [])\<rparr>"
    by (rule validate2_Inr)
  from validate2_checks_shape [OF rc] obtain ra rb where
    before: "adds (- {''range''}) global_rules12
               (init_noteResults (length (counterpoint ex2)) initial_results) ra"
    and rng: "checkRange2 (counterpoint ex2) (cpPosition_of ex2) ra = Inr rb"
    and after: "adds (- {''range''}) global_rules12 rb rc"
    by blast
  have "linked global_rules12 ra" by (rule adds_linked [OF before linked_init])
  then have "linked global_rules12 rb"
    using checkRange2_result [OF rng] by (auto simp: linked_push_range)
  then have "linked global_rules12 rc" by (rule adds_linked [OF after])
  then have l: "linked global_rules12 r2" unfolding r2 by simp
  show "p2 < int (length (noteResults r2))" "x2 \<in> set (issues (noteResults r2 ! nat p2))"
    using linked_attached [OF l x] by simp_all
next
  assume v: "validate3 ex3 = Inr r3"
    and len: "int (length (counterpoint ex3)) = int (length (cantusFirmus ex3)) * 4 - 3"
    and x: "x3 \<in> set (all_issues r3)" "position x3 = Some p3" "0 \<le> p3" "rule x3 \<notin> global_rules3"
  from v len obtain rc where rc: "validate3_checks ex3 = Inr rc"
    and r3: "r3 = rc\<lparr>score := calculateScore3 rc, valid := (errors rc = [])\<rparr>"
    by (rule validate3_Inr)
  have "linked global_rules3 rc"
    by (rule adds_linked [OF validate3_checks_shape [OF rc len] linked_init])
  then have l: "linked global_rules3 r3" unfolding r3 by simp
  show "p3 < int (length (noteResults r3))" "x3 \<in> set (issues (noteResults r3 ! nat p3))"
    using linked_attached [OF l x] by simp_all
qed

text \<open>
  C8. The claim: every issue of the result with a position \<open>p \<ge> 0\<close> is also in
  \<open>noteResults[p].issues\<close>. The checks that read the melody as a whole
  (\<open>checkCompoundTritones\<close>, \<open>checkBattutaParallels\<close> and the like) give their issue
  a position but push it on the lists of the result only. In \<open>sample_first_tritone\<close>
  the counterpoint F5 E5 B4 spans a tritone in one direction: the warning
  \<open>compound-tritone\<close> has position 0 and \<open>noteResults[0].issues\<close> is empty.
\<close>

theorem C8_global_issue_counterexample:
  "validate1 sample_first_tritone = Inr sample_first_tritone_result
   \<and> length (cantusFirmus sample_first_tritone) = length (counterpoint sample_first_tritone)
   \<and> issue_at ''compound-tritone'' 0 ''warning'' \<in> set (warnings sample_first_tritone_result)
   \<and> position (issue_at ''compound-tritone'' 0 ''warning'') = Some 0
   \<and> length (noteResults sample_first_tritone_result) = 4
   \<and> issue_at ''compound-tritone'' 0 ''warning''
        \<notin> set (issues (noteResults sample_first_tritone_result ! 0))"
  by code_simp

lemma sample_issue_facts:
  "issue_at ''consonance'' 2 ''error'' \<in> set (all_issues sample_first_tritone_result)"
  "issue_at ''passing-tone'' 1 ''error'' \<in> set (all_issues sample_second_result)"
  "issue_at ''cadence-third-species'' 3 ''warning'' \<in> set (all_issues sample_third_wide_result)"
  "''consonance'' \<notin> global_rules12" "''passing-tone'' \<notin> global_rules12"
  "''cadence-third-species'' \<notin> global_rules3"
  by (simp_all add: all_issues_def sample_first_tritone_result_def sample_second_result_def
        sample_third_wide_result_def global_rules12_def global_rules3_def)

text \<open>
  One issue of each sample result: the dissonance at position 2, the weak-beat
  dissonance at position 1, and the cadence warning at position 3.
\<close>

theorem C8_issues_attached_witness:
  "validate1 sample_first_tritone = Inr sample_first_tritone_result
   \<and> length (cantusFirmus sample_first_tritone) = length (counterpoint sample_first_tritone)
   \<and> issue_at ''consonance'' 2 ''error'' \<in> set (all_issues sample_first_tritone_result)
   \<and> position (issue_at ''consonance'' 2 ''error'') = Some 2
   \<and> rule (issue_at ''consonance'' 2 ''error'') \<notin> global_rules12
   \<and> issue_at ''consonance'' 2 ''error'' \<in> set (issues (noteResults sample_first_tritone_result ! nat 2))
   \<and> validate2 sample_second = Inr sample_second_result
   \<and> int (length (counterpoint sample_second)) = int (length (cantusFirmus sample_second)) * 2 - 1
   \<and> issue_at ''passing-tone'' 1 ''error'' \<in> set (all_issues sample_second_result)
   \<and> position (issue_at ''passing-tone'' 1 ''error'') = Some 1
   \<and> rule (issue_at ''passing-tone'' 1 ''error'') \<notin> global_rules12
   \<and> issue_at ''passing-tone'' 1 ''error'' \<in> set (issues (noteResults sample_second_result ! nat 1))
   \<and> validate3 sample_third_wide = Inr sample_third_wide_result
   \<and> int (length (counterpoint sample_third_wide)) = int (length (cantusFirmus sample_third_wide)) * 4 - 3
   \<and> issue_at ''cadence-third-species'' 3 ''warning'' \<in> set (all_issues sample_third_wide_result)
   \<and> position (issue_at ''cadence-third-species'' 3 ''warning'') = Some 3
   \<and> rule (issue_at ''cadence-third-species'' 3 ''warning'') \<notin> global_rules3
   \<and> issue_at ''cadence-third-species'' 3 ''warning''
        \<in> set (issues (noteResults sample_third_wide_result ! nat 3))"
  using C8_issues_attached [of sample_first_tritone sample_first_tritone_result
      "issue_at ''consonance'' 2 ''error''" 2
      sample_second sample_second_result "issue_at ''passing-tone'' 1 ''error''" 1
      sample_third_wide sample_third_wide_result "issue_at ''cadence-third-species'' 3 ''warning''" 3]
    validate1_sample_first_tritone validate2_sample_second validate3_sample_third_wide
    sample_issue_facts
  by (simp add: sample_first_tritone_def sample_second_def sample_third_wide_def)

section \<open>The cadence of a lower counterpoint\<close>

lemma isWeakBeat2_penultimate:
  "3 \<le> int (length cf) * 2 - 1 \<Longrightarrow>
   isWeakBeat2 (int (length cf) * 2 - 1 - 2) (int (length cf) * 2 - 1)"
  unfolding isWeakBeat2_def jsrem_def by (simp add: sgn_if) presburger

lemma attach_in_range:
  "0 \<le> p \<Longrightarrow> p < int (length (noteResults r)) \<Longrightarrow>
   report_warning x p r =
     Inr (r\<lparr>warnings := warnings r @ [x],
            noteResults := (noteResults r)[nat p :=
              (noteResults r ! nat p)\<lparr>issues := issues (noteResults r ! nat p) @ [x]\<rparr>]\<rparr>)"
  by (simp add: report_warning_def attach_def push_warning_def)




end
